theory Spec2Isabelle
  imports Main
begin

section \<open>Smart Broker: shared data model\<close>

text \<open>
  The services of \<^verbatim>\<open>src/modules/smart-broker/services\<close> are embedded as functions over
  the collections they read and write. A collection is the list of its documents; an
  exception is a value of \<open>error\<close> on the left of a sum.
\<close>

datatype error =
    BadRequest | Unauthorized | Forbidden | NotFound | Conflict
  | ValidationError | BSONError | SyntaxError | TypeError | ProviderError

datatype UserRole = ADMIN | MANAGER | AGENT | VIEWER

subsection \<open>Object identifiers\<close>

text \<open>
  A document identifier is kept in the form its \<^verbatim>\<open>toString()\<close> prints: 24 lower-case
  hexadecimal digits. \<^verbatim>\<open>Types.ObjectId.isValid\<close> is taken on strings as "24 hexadecimal
  digits"; \<^verbatim>\<open>new Types.ObjectId(s)\<close> raises on any other string and reads the digits
  without regard to case.
\<close>

datatype oid = ObjectId string

fun toString :: "oid \<Rightarrow> string" where
  "toString (ObjectId s) = s"

definition isHexDigit :: "char \<Rightarrow> bool" where
  "isHexDigit c = (c \<in> set ''0123456789abcdefABCDEF'')"

definition hexLower :: "char \<Rightarrow> char" where
  "hexLower c =
     (if c = CHR ''A'' then CHR ''a'' else if c = CHR ''B'' then CHR ''b''
      else if c = CHR ''C'' then CHR ''c'' else if c = CHR ''D'' then CHR ''d''
      else if c = CHR ''E'' then CHR ''e'' else if c = CHR ''F'' then CHR ''f''
      else c)"

definition ObjectId_isValid :: "string \<Rightarrow> bool" where
  "ObjectId_isValid s = (length s = 24 \<and> list_all isHexDigit s)"

definition oid_of :: "string \<Rightarrow> oid" where
  "oid_of s = ObjectId (map hexLower s)"

definition new_ObjectId :: "string \<Rightarrow> error + oid" where
  "new_ObjectId s = (if ObjectId_isValid s then Inr (oid_of s) else Inl BSONError)"

text \<open>JavaScript truthiness of an optional string: defined and not empty.\<close>

fun truthy :: "string option \<Rightarrow> bool" where
  "truthy None = False"
| "truthy (Some s) = (s \<noteq> [])"

text \<open>\<^verbatim>\<open>a || d\<close> on an optional string.\<close>

fun js_or :: "string option \<Rightarrow> string \<Rightarrow> string" where
  "js_or None d = d"
| "js_or (Some s) d = (if s = [] then d else s)"

text \<open>The authenticated actor (\<^verbatim>\<open>AuthenticatedUser\<close> of \<^verbatim>\<open>types/auth.types\<close>).\<close>

record AuthenticatedUser =
  userId :: string
  userEmail :: string
  userName :: "string option"
  role :: UserRole
  agencyId :: "string option"

section \<open>Contacts\<close>

datatype ContactStatus =
  NEW | CONTACTED | QUALIFIED | NEGOTIATING | CONVERTED | NOT_INTERESTED | LOST

datatype ContactOrigin =
    O_WHATSAPP | O_WEBSITE | O_PHONE | O_EMAIL | O_REFERRAL | O_SOCIAL_MEDIA
  | O_WALK_IN | O_AI_ASSISTANT | O_OTHER

text \<open>
  The fields of \<^verbatim>\<open>IContact\<close> that the services below read or write. The interaction
  log and the preference object are left out: no operation modelled here reads them.
\<close>

record contact =
  c_id :: oid
  c_name :: "string option"
  c_phone :: "string option"
  c_email :: "string option"
  c_cpf :: "string option"
  c_origin :: ContactOrigin
  c_status :: ContactStatus
  c_interestedProperties :: "oid list"
  c_agency :: "oid option"
  c_assignedTo :: "oid option"
  c_tags :: "string list"
  c_notes :: "string option"
  c_isActive :: bool
  c_urgency :: "string option"
  c_createdAt :: nat

record ContactFilters =
  cf_status :: "ContactStatus option"
  cf_origin :: "ContactOrigin option"
  cf_agency :: "string option"
  cf_assignedTo :: "string option"
  cf_tags :: "string list option"
  cf_urgency :: "string option"

text \<open>
  The query object handed to \<^verbatim>\<open>ContactModel.find\<close>: one optional condition per key;
  assigning a key twice keeps the last value, as assignment to an object property does.
  The condition on \<^verbatim>\<open>agency\<close> compares with an optional identifier: an undefined value
  in a filter selects the documents that have none.
\<close>

record ContactQuery =
  cq_id_in :: "oid list option"
  cq_isActive :: "bool option"
  cq_agency :: "oid option option"
  cq_assignedTo :: "oid option"
  cq_status :: "ContactStatus option"
  cq_status_in :: "ContactStatus list option"
  cq_origin :: "ContactOrigin option"
  cq_urgency :: "string option"
  cq_tags_in :: "string list option"

definition cq_empty :: ContactQuery where
  "cq_empty = \<lparr> cq_id_in = None, cq_isActive = None, cq_agency = None,
     cq_assignedTo = None, cq_status = None, cq_status_in = None, cq_origin = None,
     cq_urgency = None, cq_tags_in = None \<rparr>"

text \<open>A condition that is absent holds of every document.\<close>

fun cond :: "'a option \<Rightarrow> ('a \<Rightarrow> bool) \<Rightarrow> bool" where
  "cond None p = True"
| "cond (Some v) p = p v"

definition contact_matches :: "ContactQuery \<Rightarrow> contact \<Rightarrow> bool" where
  "contact_matches q d =
     (cond (cq_id_in q) (\<lambda>ids. c_id d \<in> set ids) \<and>
      cond (cq_isActive q) (\<lambda>b. c_isActive d = b) \<and>
      cond (cq_agency q) (\<lambda>a. c_agency d = a) \<and>
      cond (cq_assignedTo q) (\<lambda>a. c_assignedTo d = Some a) \<and>
      cond (cq_status q) (\<lambda>s. c_status d = s) \<and>
      cond (cq_status_in q) (\<lambda>ss. c_status d \<in> set ss) \<and>
      cond (cq_origin q) (\<lambda>s. c_origin d = s) \<and>
      cond (cq_urgency q) (\<lambda>s. c_urgency d = Some s) \<and>
      cond (cq_tags_in q) (\<lambda>ts. list_ex (\<lambda>t. t \<in> set ts) (c_tags d)))"

definition ContactModel_find :: "contact list \<Rightarrow> ContactQuery \<Rightarrow> contact list" where
  "ContactModel_find db q = filter (contact_matches q) db"

text \<open>\<^verbatim>\<open>.sort({ createdAt: -1 })\<close>: newest first.\<close>

definition contact_sort_desc :: "contact list \<Rightarrow> contact list" where
  "contact_sort_desc ds = rev (sort_key c_createdAt ds)"

definition ContactModel_findById :: "contact list \<Rightarrow> string \<Rightarrow> contact option" where
  "ContactModel_findById db i = find (\<lambda>d. c_id d = oid_of i) db"

definition contact_save :: "contact list \<Rightarrow> contact \<Rightarrow> contact list" where
  "contact_save db x = map (\<lambda>d. if c_id d = c_id x then x else d) db"

subsection \<open>\<^verbatim>\<open>ContactsService.findAll\<close>\<close>

definition contacts_scope :: "AuthenticatedUser \<Rightarrow> ContactFilters option \<Rightarrow> error + ContactQuery" where
  "contacts_scope user filters =
     (let query = cq_empty\<lparr>cq_isActive := Some True\<rparr> in
      if role user = ADMIN then
        (case filters of
           None \<Rightarrow> Inr query
         | Some f \<Rightarrow>
             (case cf_agency f of
                None \<Rightarrow> Inr query
              | Some a \<Rightarrow>
                  if a \<noteq> [] \<and> ObjectId_isValid a
                  then Inr (query\<lparr>cq_agency := Some (Some (oid_of a))\<rparr>) else Inr query))
      else
        (case agencyId user of
           None \<Rightarrow> Inl Forbidden
         | Some a \<Rightarrow>
             if a = [] then Inl Forbidden
             else
               (case new_ObjectId a of
                  Inl e \<Rightarrow> Inl e
                | Inr ag \<Rightarrow>
                    (let query = query\<lparr>cq_agency := Some (Some ag)\<rparr> in
                     if role user = AGENT then
                       (case new_ObjectId (userId user) of
                          Inl e \<Rightarrow> Inl e
                        | Inr u \<Rightarrow> Inr (query\<lparr>cq_assignedTo := Some u\<rparr>))
                     else Inr query))))"

definition contacts_filters :: "ContactFilters \<Rightarrow> ContactQuery \<Rightarrow> ContactQuery" where
  "contacts_filters f query =
     (let query = (case cf_status f of Some s \<Rightarrow> query\<lparr>cq_status := Some s\<rparr> | None \<Rightarrow> query);
          query = (case cf_origin f of Some s \<Rightarrow> query\<lparr>cq_origin := Some s\<rparr> | None \<Rightarrow> query);
          query = (if truthy (cf_urgency f)
                   then query\<lparr>cq_urgency := cf_urgency f\<rparr> else query);
          query = (case cf_assignedTo f of
                     Some a \<Rightarrow>
                       if a \<noteq> [] \<and> ObjectId_isValid a
                       then query\<lparr>cq_assignedTo := Some (oid_of a)\<rparr> else query
                   | None \<Rightarrow> query);
          query = (case cf_tags f of
                     Some ts \<Rightarrow> if length ts > 0 then query\<lparr>cq_tags_in := Some ts\<rparr> else query
                   | None \<Rightarrow> query)
      in query)"

definition contacts_findAll ::
  "contact list \<Rightarrow> AuthenticatedUser \<Rightarrow> ContactFilters option \<Rightarrow> error + contact list" where
  "contacts_findAll db user filters =
     (case contacts_scope user filters of
        Inl e \<Rightarrow> Inl e
      | Inr query \<Rightarrow>
          (let query = (case filters of Some f \<Rightarrow> contacts_filters f query | None \<Rightarrow> query)
           in Inr (contact_sort_desc (ContactModel_find db query))))"

subsection \<open>\<^verbatim>\<open>ContactsService.update\<close> and \<^verbatim>\<open>ContactsService.remove\<close>\<close>

record UpdateContactDto =
  uc_name :: "string option"
  uc_phone :: "string option"
  uc_email :: "string option"
  uc_cpf :: "string option"
  uc_status :: "ContactStatus option"
  uc_notes :: "string option"
  uc_assignedTo :: "string option"
  uc_interestedProperties :: "string list option"
  uc_tags :: "string list option"
  uc_urgency :: "string option"

text \<open>\<^verbatim>\<open>ids.map((id) => new Types.ObjectId(id))\<close>: the first bad identifier raises.\<close>

fun map_ObjectId :: "string list \<Rightarrow> error + oid list" where
  "map_ObjectId [] = Inr []"
| "map_ObjectId (s # ss) =
     (case new_ObjectId s of
        Inl e \<Rightarrow> Inl e
      | Inr i \<Rightarrow> (case map_ObjectId ss of Inl e \<Rightarrow> Inl e | Inr is \<Rightarrow> Inr (i # is)))"

text \<open>An optional field of a DTO overwrites the document's field when it is present.\<close>

fun assign :: "'a option \<Rightarrow> 'a \<Rightarrow> 'a" where
  "assign None old = old"
| "assign (Some v) old = v"

fun assign_opt :: "'a option \<Rightarrow> 'a option \<Rightarrow> 'a option" where
  "assign_opt None old = old"
| "assign_opt (Some v) old = Some v"

text \<open>
  The access check of \<^verbatim>\<open>update\<close>, in the order of the source. A contact without an
  agency passes the manager's check; a contact without an assignee fails the agent's.
\<close>

definition contacts_update_rbac :: "AuthenticatedUser \<Rightarrow> contact \<Rightarrow> bool" where
  "contacts_update_rbac user contact =
     (if role user = ADMIN then True
      else if role user = MANAGER then
        (case c_agency contact of
           None \<Rightarrow> True
         | Some a \<Rightarrow> \<not> (Some (toString a) \<noteq> agencyId user))
      else if role user = AGENT then
        (case c_assignedTo contact of
           None \<Rightarrow> False
         | Some a \<Rightarrow> \<not> (toString a \<noteq> userId user))
      else False)"

text \<open>
  \<^verbatim>\<open>Object.assign(contact, dto)\<close> followed by the two conversions of the source. The
  identifiers of \<^verbatim>\<open>interestedProperties\<close> are not checked before they are converted.
\<close>

definition contacts_apply_update :: "UpdateContactDto \<Rightarrow> contact \<Rightarrow> error + contact" where
  "contacts_apply_update dto contact =
     (let contact = contact\<lparr>
            c_name := assign_opt (uc_name dto) (c_name contact),
            c_phone := assign_opt (uc_phone dto) (c_phone contact),
            c_email := assign_opt (uc_email dto) (c_email contact),
            c_cpf := assign_opt (uc_cpf dto) (c_cpf contact),
            c_status := assign (uc_status dto) (c_status contact),
            c_notes := assign_opt (uc_notes dto) (c_notes contact),
            c_tags := assign (uc_tags dto) (c_tags contact),
            c_urgency := assign_opt (uc_urgency dto) (c_urgency contact)\<rparr>;
          contact = (if truthy (uc_assignedTo dto)
                     then contact\<lparr>c_assignedTo := Some (oid_of (the (uc_assignedTo dto)))\<rparr>
                     else contact)
      in
      case uc_interestedProperties dto of
        None \<Rightarrow> Inr contact
      | Some ps \<Rightarrow>
          (case map_ObjectId ps of
             Inl e \<Rightarrow> Inl e
           | Inr is \<Rightarrow> Inr (contact\<lparr>c_interestedProperties := is\<rparr>)))"

text \<open>
  \<^verbatim>\<open>contact.save()\<close> at the end of \<^verbatim>\<open>update\<close>. An empty \<^verbatim>\<open>assignedTo\<close> passes the check of
  the service, is assigned as it is, cannot be cast to an identifier, and the document is
  rejected when it is saved. The other validations of the schema are not modelled.
\<close>

definition contacts_update ::
  "contact list \<Rightarrow> string \<Rightarrow> UpdateContactDto \<Rightarrow> AuthenticatedUser
     \<Rightarrow> error + (contact \<times> contact list)" where
  "contacts_update db i dto user =
     (if \<not> ObjectId_isValid i then Inl BadRequest
      else
        (case ContactModel_findById db i of
           None \<Rightarrow> Inl NotFound
         | Some contact \<Rightarrow>
             if \<not> contacts_update_rbac user contact then Inl Forbidden
             else if truthy (uc_assignedTo dto) \<and> \<not> ObjectId_isValid (the (uc_assignedTo dto))
             then Inl BadRequest
             else
               (case contacts_apply_update dto contact of
                  Inl e \<Rightarrow> Inl e
                | Inr updated \<Rightarrow>
                    if uc_assignedTo dto = Some [] then Inl ValidationError
                    else Inr (updated, contact_save db updated))))"

definition contacts_remove_rbac :: "AuthenticatedUser \<Rightarrow> contact \<Rightarrow> bool" where
  "contacts_remove_rbac user contact =
     (if role user = ADMIN then True
      else if role user = MANAGER then
        (case c_agency contact of
           None \<Rightarrow> True
         | Some a \<Rightarrow> \<not> (Some (toString a) \<noteq> agencyId user))
      else False)"

definition contacts_remove ::
  "contact list \<Rightarrow> string \<Rightarrow> AuthenticatedUser \<Rightarrow> error + contact list" where
  "contacts_remove db i user =
     (if \<not> ObjectId_isValid i then Inl BadRequest
      else
        (case ContactModel_findById db i of
           None \<Rightarrow> Inl NotFound
         | Some contact \<Rightarrow>
             if \<not> contacts_remove_rbac user contact then Inl Forbidden
             else Inr (contact_save db (contact\<lparr>c_isActive := False\<rparr>))))"

section \<open>Properties\<close>

datatype PropertyType = HOUSE | APARTMENT | COMMERCIAL | LAND | FARM | PENTHOUSE | STUDIO

datatype PropertyStatus = AVAILABLE | SOLD | RENTED | RESERVED | UNAVAILABLE

datatype TransactionType = SALE | RENT | BOTH

record address =
  a_street :: string
  a_number :: string
  a_neighborhood :: string
  a_city :: string
  a_state :: string
  a_zipCode :: string

record features =
  ft_bedrooms :: int
  ft_bathrooms :: int
  ft_parkingSpaces :: int

text \<open>
  The fields of \<^verbatim>\<open>IProperty\<close> read by the listing and written by \<^verbatim>\<open>update\<close> and
  \<^verbatim>\<open>remove\<close>. Prices, areas and counts are numbers that the services only compare.
\<close>

record property =
  p_id :: oid
  p_type :: PropertyType
  p_transactionType :: TransactionType
  p_title :: string
  p_description :: string
  p_price :: int
  p_area :: int
  p_address :: address
  p_features :: features
  p_photos :: "string list"
  p_status :: PropertyStatus
  p_agency :: oid
  p_owner :: oid
  p_isActive :: bool
  p_createdAt :: nat

record PropertyFilters =
  pf_type :: "PropertyType option"
  pf_transactionType :: "TransactionType option"
  pf_status :: "PropertyStatus option"
  pf_minPrice :: "int option"
  pf_maxPrice :: "int option"
  pf_minArea :: "int option"
  pf_maxArea :: "int option"
  pf_city :: "string option"
  pf_state :: "string option"
  pf_neighborhood :: "string option"
  pf_bedrooms :: "int option"
  pf_bathrooms :: "int option"
  pf_parkingSpaces :: "int option"
  pf_agency :: "string option"

text \<open>
  The query object of \<^verbatim>\<open>PropertyModel.find\<close>. A range is the pair of its optional
  \<^verbatim>\<open>$gte\<close> and \<^verbatim>\<open>$lte\<close> bounds; a pattern is a compiled regular expression, that is, the
  predicate it decides on strings.
\<close>

record PropertyQuery =
  pq_isActive :: "bool option"
  pq_agency :: "oid option"
  pq_type :: "PropertyType option"
  pq_transactionType :: "TransactionType option"
  pq_status :: "PropertyStatus option"
  pq_price :: "(int option \<times> int option) option"
  pq_area :: "(int option \<times> int option) option"
  pq_city :: "(string \<Rightarrow> bool) option"
  pq_state :: "string option"
  pq_neighborhood :: "(string \<Rightarrow> bool) option"
  pq_bedrooms_gte :: "int option"
  pq_bathrooms_gte :: "int option"
  pq_parkingSpaces_gte :: "int option"

definition pq_empty :: PropertyQuery where
  "pq_empty = \<lparr> pq_isActive = None, pq_agency = None, pq_type = None,
     pq_transactionType = None, pq_status = None, pq_price = None, pq_area = None,
     pq_city = None, pq_state = None, pq_neighborhood = None, pq_bedrooms_gte = None,
     pq_bathrooms_gte = None, pq_parkingSpaces_gte = None \<rparr>"

fun in_range :: "int option \<times> int option \<Rightarrow> int \<Rightarrow> bool" where
  "in_range (lo, hi) x = (cond lo (\<lambda>l. l \<le> x) \<and> cond hi (\<lambda>h. x \<le> h))"

definition property_matches :: "PropertyQuery \<Rightarrow> property \<Rightarrow> bool" where
  "property_matches q d =
     (cond (pq_isActive q) (\<lambda>b. p_isActive d = b) \<and>
      cond (pq_agency q) (\<lambda>a. p_agency d = a) \<and>
      cond (pq_type q) (\<lambda>t. p_type d = t) \<and>
      cond (pq_transactionType q) (\<lambda>t. p_transactionType d = t) \<and>
      cond (pq_status q) (\<lambda>s. p_status d = s) \<and>
      cond (pq_price q) (\<lambda>r. in_range r (p_price d)) \<and>
      cond (pq_area q) (\<lambda>r. in_range r (p_area d)) \<and>
      cond (pq_city q) (\<lambda>m. m (a_city (p_address d))) \<and>
      cond (pq_state q) (\<lambda>s. a_state (p_address d) = s) \<and>
      cond (pq_neighborhood q) (\<lambda>m. m (a_neighborhood (p_address d))) \<and>
      cond (pq_bedrooms_gte q) (\<lambda>n. n \<le> ft_bedrooms (p_features d)) \<and>
      cond (pq_bathrooms_gte q) (\<lambda>n. n \<le> ft_bathrooms (p_features d)) \<and>
      cond (pq_parkingSpaces_gte q) (\<lambda>n. n \<le> ft_parkingSpaces (p_features d)))"

definition PropertyModel_find :: "property list \<Rightarrow> PropertyQuery \<Rightarrow> property list" where
  "PropertyModel_find db q = filter (property_matches q) db"

definition property_sort_desc :: "property list \<Rightarrow> property list" where
  "property_sort_desc ds = rev (sort_key p_createdAt ds)"

definition PropertyModel_findById :: "property list \<Rightarrow> string \<Rightarrow> property option" where
  "PropertyModel_findById db i = find (\<lambda>d. p_id d = oid_of i) db"

definition property_save :: "property list \<Rightarrow> property \<Rightarrow> property list" where
  "property_save db x = map (\<lambda>d. if p_id d = p_id x then x else d) db"

text \<open>
  The string functions of the platform that \<^verbatim>\<open>findAll\<close> calls are parameters:
  \<open>RegExp_i src\<close> is \<^verbatim>\<open>new RegExp(src, 'i')\<close>, \<open>None\<close> when the constructor raises
  \<^verbatim>\<open>SyntaxError\<close> and otherwise the predicate the expression decides;
  \<open>toUpperCase\<close> is \<^verbatim>\<open>String.prototype.toUpperCase\<close>;
  \<open>RegExp_g_replace src s r\<close> is \<^verbatim>\<open>s.replace(new RegExp(src, 'g'), r)\<close>, \<open>None\<close> when
  the constructor raises.
\<close>

record platform =
  RegExp_i :: "string \<Rightarrow> (string \<Rightarrow> bool) option"
  toUpperCase :: "string \<Rightarrow> string"
  RegExp_g_replace :: "string \<Rightarrow> string \<Rightarrow> string \<Rightarrow> string option"

subsection \<open>\<^verbatim>\<open>PropertiesService.findAll\<close>\<close>

definition properties_scope ::
  "AuthenticatedUser \<Rightarrow> PropertyFilters option \<Rightarrow> error + PropertyQuery" where
  "properties_scope user filters =
     (let query = pq_empty\<lparr>pq_isActive := Some True\<rparr> in
      if role user = ADMIN then
        (case filters of
           None \<Rightarrow> Inr query
         | Some f \<Rightarrow>
             (case pf_agency f of
                None \<Rightarrow> Inr query
              | Some a \<Rightarrow>
                  if a \<noteq> [] \<and> ObjectId_isValid a
                  then Inr (query\<lparr>pq_agency := Some (oid_of a)\<rparr>) else Inr query))
      else
        (case agencyId user of
           None \<Rightarrow> Inl Forbidden
         | Some a \<Rightarrow>
             if a = [] then Inl Forbidden
             else
               (case new_ObjectId a of
                  Inl e \<Rightarrow> Inl e
                | Inr ag \<Rightarrow> Inr (query\<lparr>pq_agency := Some ag\<rparr>))))"

text \<open>The three parts of the block \<^verbatim>\<open>if (filters) { ... }\<close>, in the order of the source.\<close>

definition properties_filters_basic :: "PropertyFilters \<Rightarrow> PropertyQuery \<Rightarrow> PropertyQuery" where
  "properties_filters_basic f query =
     (let query = (case pf_type f of Some t \<Rightarrow> query\<lparr>pq_type := Some t\<rparr> | None \<Rightarrow> query);
          query = (case pf_transactionType f of
                     Some t \<Rightarrow> query\<lparr>pq_transactionType := Some t\<rparr> | None \<Rightarrow> query);
          query = (case pf_status f of Some t \<Rightarrow> query\<lparr>pq_status := Some t\<rparr> | None \<Rightarrow> query);
          query = (if pf_minPrice f \<noteq> None \<or> pf_maxPrice f \<noteq> None
                   then query\<lparr>pq_price := Some (pf_minPrice f, pf_maxPrice f)\<rparr> else query);
          query = (if pf_minArea f \<noteq> None \<or> pf_maxArea f \<noteq> None
                   then query\<lparr>pq_area := Some (pf_minArea f, pf_maxArea f)\<rparr> else query)
      in query)"

definition properties_filters_address ::
  "platform \<Rightarrow> PropertyFilters \<Rightarrow> PropertyQuery \<Rightarrow> error + PropertyQuery" where
  "properties_filters_address js f query =
     (case (if truthy (pf_city f)
            then (case RegExp_i js (the (pf_city f)) of
                    None \<Rightarrow> Inl SyntaxError
                  | Some m \<Rightarrow> Inr (query\<lparr>pq_city := Some m\<rparr>))
            else Inr query) of
        Inl e \<Rightarrow> Inl e
      | Inr query \<Rightarrow>
          (let query = (if truthy (pf_state f)
                        then query\<lparr>pq_state := Some (toUpperCase js (the (pf_state f)))\<rparr>
                        else query)
           in if truthy (pf_neighborhood f)
              then (case RegExp_i js (the (pf_neighborhood f)) of
                      None \<Rightarrow> Inl SyntaxError
                    | Some m \<Rightarrow> Inr (query\<lparr>pq_neighborhood := Some m\<rparr>))
              else Inr query))"

definition properties_filters_features :: "PropertyFilters \<Rightarrow> PropertyQuery \<Rightarrow> PropertyQuery" where
  "properties_filters_features f query =
     (let query = (case pf_bedrooms f of
                     Some n \<Rightarrow> query\<lparr>pq_bedrooms_gte := Some n\<rparr> | None \<Rightarrow> query);
          query = (case pf_bathrooms f of
                     Some n \<Rightarrow> query\<lparr>pq_bathrooms_gte := Some n\<rparr> | None \<Rightarrow> query);
          query = (case pf_parkingSpaces f of
                     Some n \<Rightarrow> query\<lparr>pq_parkingSpaces_gte := Some n\<rparr> | None \<Rightarrow> query)
      in query)"

definition properties_filters ::
  "platform \<Rightarrow> PropertyFilters \<Rightarrow> PropertyQuery \<Rightarrow> error + PropertyQuery" where
  "properties_filters js f query =
     (case properties_filters_address js f (properties_filters_basic f query) of
        Inl e \<Rightarrow> Inl e
      | Inr query \<Rightarrow> Inr (properties_filters_features f query))"

definition properties_findAll ::
  "platform \<Rightarrow> property list \<Rightarrow> AuthenticatedUser \<Rightarrow> PropertyFilters option
     \<Rightarrow> error + property list" where
  "properties_findAll js db user filters =
     (case properties_scope user filters of
        Inl e \<Rightarrow> Inl e
      | Inr query \<Rightarrow>
          (case (case filters of Some f \<Rightarrow> properties_filters js f query | None \<Rightarrow> Inr query) of
             Inl e \<Rightarrow> Inl e
           | Inr query \<Rightarrow> Inr (property_sort_desc (PropertyModel_find db query))))"

subsection \<open>\<^verbatim>\<open>PropertiesService.update\<close> and \<^verbatim>\<open>PropertiesService.remove\<close>\<close>

record UpdatePropertyDto =
  up_type :: "PropertyType option"
  up_transactionType :: "TransactionType option"
  up_title :: "string option"
  up_description :: "string option"
  up_price :: "int option"
  up_area :: "int option"
  up_address :: "address option"
  up_features :: "features option"
  up_photos :: "string list option"
  up_status :: "PropertyStatus option"
  up_isActive :: "bool option"

text \<open>
  The access check shared by \<^verbatim>\<open>update\<close> and \<^verbatim>\<open>remove\<close>: the administrator, or a manager
  of the property's agency; the last branch refuses agents and viewers.
\<close>

definition properties_modify_rbac :: "AuthenticatedUser \<Rightarrow> property \<Rightarrow> bool" where
  "properties_modify_rbac user property =
     (if role user = ADMIN then True
      else if role user = MANAGER then
        \<not> (Some (toString (p_agency property)) \<noteq> agencyId user)
      else False)"

definition properties_apply_update :: "UpdatePropertyDto \<Rightarrow> property \<Rightarrow> property" where
  "properties_apply_update dto property =
     property\<lparr>
       p_type := assign (up_type dto) (p_type property),
       p_transactionType := assign (up_transactionType dto) (p_transactionType property),
       p_title := assign (up_title dto) (p_title property),
       p_description := assign (up_description dto) (p_description property),
       p_price := assign (up_price dto) (p_price property),
       p_area := assign (up_area dto) (p_area property),
       p_address := assign (up_address dto) (p_address property),
       p_features := assign (up_features dto) (p_features property),
       p_photos := assign (up_photos dto) (p_photos property),
       p_status := assign (up_status dto) (p_status property),
       p_isActive := assign (up_isActive dto) (p_isActive property)\<rparr>"

definition properties_update ::
  "property list \<Rightarrow> string \<Rightarrow> UpdatePropertyDto \<Rightarrow> AuthenticatedUser
     \<Rightarrow> error + (property \<times> property list)" where
  "properties_update db i dto user =
     (if \<not> ObjectId_isValid i then Inl BadRequest
      else
        (case PropertyModel_findById db i of
           None \<Rightarrow> Inl NotFound
         | Some property \<Rightarrow>
             if \<not> properties_modify_rbac user property then Inl Forbidden
             else
               (let updated = properties_apply_update dto property
                in Inr (updated, property_save db updated))))"

definition properties_remove ::
  "property list \<Rightarrow> string \<Rightarrow> AuthenticatedUser \<Rightarrow> error + property list" where
  "properties_remove db i user =
     (if \<not> ObjectId_isValid i then Inl BadRequest
      else
        (case PropertyModel_findById db i of
           None \<Rightarrow> Inl NotFound
         | Some property \<Rightarrow>
             if \<not> properties_modify_rbac user property then Inl Forbidden
             else Inr (property_save db (property\<lparr>p_isActive := False\<rparr>))))"

section \<open>Campaigns\<close>

datatype CampaignType = BROADCAST | DRIP | TARGETED

datatype CampaignStatus = DRAFT | SCHEDULED | RUNNING | PAUSED | COMPLETED | CANCELLED

record 'i audience =
  au_targetStatus :: "ContactStatus list option"
  au_targetTags :: "string list option"
  au_specificContacts :: "'i list option"

text \<open>
  The variables of a message are kept as the list of entries that \<^verbatim>\<open>Object.entries\<close>
  enumerates on the object built from the stored map.
\<close>

record message =
  m_template :: string
  m_variables :: "(string \<times> string) list option"

record statistics =
  st_totalContacts :: nat
  st_sent :: nat
  st_delivered :: nat
  st_read :: nat
  st_replied :: nat
  st_failed :: nat

record campaign =
  cp_id :: oid
  cp_name :: string
  cp_description :: "string option"
  cp_type :: CampaignType
  cp_status :: CampaignStatus
  cp_audience :: "oid audience"
  cp_message :: message
  cp_evolutionInstanceId :: string
  cp_statistics :: statistics
  cp_createdBy :: oid
  cp_agency :: "oid option"
  cp_isActive :: bool
  cp_lastExecutionDate :: "nat option"
  cp_rateLimitMs :: int
  cp_createdAt :: nat

record CampaignFilters =
  cpf_agency :: "string option"
  cpf_status :: "CampaignStatus option"
  cpf_type :: "CampaignType option"

record CampaignQuery =
  cpq_isActive :: "bool option"
  cpq_agency :: "oid option"
  cpq_status :: "CampaignStatus option"
  cpq_type :: "CampaignType option"

definition campaign_matches :: "CampaignQuery \<Rightarrow> campaign \<Rightarrow> bool" where
  "campaign_matches q d =
     (cond (cpq_isActive q) (\<lambda>b. cp_isActive d = b) \<and>
      cond (cpq_agency q) (\<lambda>a. cp_agency d = Some a) \<and>
      cond (cpq_status q) (\<lambda>s. cp_status d = s) \<and>
      cond (cpq_type q) (\<lambda>t. cp_type d = t))"

definition CampaignModel_find :: "campaign list \<Rightarrow> CampaignQuery \<Rightarrow> campaign list" where
  "CampaignModel_find db q = filter (campaign_matches q) db"

definition campaign_sort_desc :: "campaign list \<Rightarrow> campaign list" where
  "campaign_sort_desc ds = rev (sort_key cp_createdAt ds)"

definition CampaignModel_findById :: "campaign list \<Rightarrow> string \<Rightarrow> campaign option" where
  "CampaignModel_findById db i = find (\<lambda>d. cp_id d = oid_of i) db"

definition campaign_save :: "campaign list \<Rightarrow> campaign \<Rightarrow> campaign list" where
  "campaign_save db x = map (\<lambda>d. if cp_id d = cp_id x then x else d) db"

subsection \<open>\<^verbatim>\<open>CampaignsService.findAll\<close>\<close>

definition campaigns_scope ::
  "AuthenticatedUser \<Rightarrow> CampaignFilters option \<Rightarrow> error + CampaignQuery" where
  "campaigns_scope user filters =
     (let query = \<lparr> cpq_isActive = Some True, cpq_agency = None, cpq_status = None,
                    cpq_type = None \<rparr> in
      if role user = ADMIN then
        (case filters of
           None \<Rightarrow> Inr query
         | Some f \<Rightarrow>
             (case cpf_agency f of
                None \<Rightarrow> Inr query
              | Some a \<Rightarrow>
                  if a \<noteq> [] \<and> ObjectId_isValid a
                  then Inr (query\<lparr>cpq_agency := Some (oid_of a)\<rparr>) else Inr query))
      else
        (case agencyId user of
           None \<Rightarrow> Inl Forbidden
         | Some a \<Rightarrow>
             if a = [] then Inl Forbidden
             else
               (case new_ObjectId a of
                  Inl e \<Rightarrow> Inl e
                | Inr ag \<Rightarrow> Inr (query\<lparr>cpq_agency := Some ag\<rparr>))))"

definition campaigns_filters :: "CampaignFilters \<Rightarrow> CampaignQuery \<Rightarrow> CampaignQuery" where
  "campaigns_filters f query =
     (let query = (case cpf_status f of Some s \<Rightarrow> query\<lparr>cpq_status := Some s\<rparr> | None \<Rightarrow> query);
          query = (case cpf_type f of Some t \<Rightarrow> query\<lparr>cpq_type := Some t\<rparr> | None \<Rightarrow> query)
      in query)"

definition campaigns_findAll ::
  "campaign list \<Rightarrow> AuthenticatedUser \<Rightarrow> CampaignFilters option \<Rightarrow> error + campaign list" where
  "campaigns_findAll db user filters =
     (case campaigns_scope user filters of
        Inl e \<Rightarrow> Inl e
      | Inr query \<Rightarrow>
          (let query = (case filters of Some f \<Rightarrow> campaigns_filters f query | None \<Rightarrow> query)
           in Inr (campaign_sort_desc (CampaignModel_find db query))))"

subsection \<open>\<^verbatim>\<open>CampaignsService.update\<close> and \<^verbatim>\<open>CampaignsService.remove\<close>\<close>

record UpdateCampaignDto =
  ucp_name :: "string option"
  ucp_description :: "string option"
  ucp_status :: "CampaignStatus option"
  ucp_audience :: "oid audience option"
  ucp_message :: "message option"

text \<open>
  The access check shared by \<^verbatim>\<open>update\<close> and \<^verbatim>\<open>remove\<close>; \<open>None\<close> lets the actor through.
  Reading \<^verbatim>\<open>campaign.agency.toString()\<close> of a campaign without an agency raises.
\<close>

definition campaigns_modify_rbac :: "AuthenticatedUser \<Rightarrow> campaign \<Rightarrow> error option" where
  "campaigns_modify_rbac user campaign =
     (if role user = ADMIN then None
      else if role user = MANAGER then
        (case cp_agency campaign of
           None \<Rightarrow> Some TypeError
         | Some a \<Rightarrow> if Some (toString a) \<noteq> agencyId user then Some Forbidden else None)
      else Some Forbidden)"

definition campaigns_update ::
  "campaign list \<Rightarrow> string \<Rightarrow> UpdateCampaignDto \<Rightarrow> AuthenticatedUser
     \<Rightarrow> error + (campaign \<times> campaign list)" where
  "campaigns_update db i dto user =
     (if \<not> ObjectId_isValid i then Inl BadRequest
      else
        (case CampaignModel_findById db i of
           None \<Rightarrow> Inl NotFound
         | Some campaign \<Rightarrow>
             (case campaigns_modify_rbac user campaign of
                Some e \<Rightarrow> Inl e
              | None \<Rightarrow>
                  if cp_status campaign = RUNNING then Inl BadRequest
                  else
                    (let updated = campaign\<lparr>
                           cp_name := assign (ucp_name dto) (cp_name campaign),
                           cp_description :=
                             assign_opt (ucp_description dto) (cp_description campaign),
                           cp_status := assign (ucp_status dto) (cp_status campaign),
                           cp_audience := assign (ucp_audience dto) (cp_audience campaign),
                           cp_message := assign (ucp_message dto) (cp_message campaign)\<rparr>
                     in Inr (updated, campaign_save db updated)))))"

definition campaigns_remove ::
  "campaign list \<Rightarrow> string \<Rightarrow> AuthenticatedUser \<Rightarrow> error + campaign list" where
  "campaigns_remove db i user =
     (if \<not> ObjectId_isValid i then Inl BadRequest
      else
        (case CampaignModel_findById db i of
           None \<Rightarrow> Inl NotFound
         | Some campaign \<Rightarrow>
             (case campaigns_modify_rbac user campaign of
                Some e \<Rightarrow> Inl e
              | None \<Rightarrow>
                  if cp_status campaign = RUNNING then Inl BadRequest
                  else Inr (campaign_save db (campaign\<lparr>cp_isActive := False\<rparr>)))))"

subsection \<open>Audience resolution\<close>

text \<open>\<^verbatim>\<open>xs && xs.length > 0\<close> on an optional array.\<close>

fun nonempty :: "'a list option \<Rightarrow> bool" where
  "nonempty None = False"
| "nonempty (Some xs) = (length xs > 0)"

definition audience_filters :: "'i audience \<Rightarrow> ContactQuery \<Rightarrow> ContactQuery" where
  "audience_filters audience query =
     (let query = (if nonempty (au_targetStatus audience)
                   then query\<lparr>cq_status_in := au_targetStatus audience\<rparr> else query);
          query = (if nonempty (au_targetTags audience)
                   then query\<lparr>cq_tags_in := au_targetTags audience\<rparr> else query)
      in query)"

definition getAudienceContacts :: "contact list \<Rightarrow> campaign \<Rightarrow> contact list" where
  "getAudienceContacts db campaign =
     (let audience = cp_audience campaign in
      if nonempty (au_specificContacts audience) then
        ContactModel_find db
          (cq_empty\<lparr>cq_id_in := au_specificContacts audience, cq_isActive := Some True\<rparr>)
      else
        ContactModel_find db
          (audience_filters audience
             (cq_empty\<lparr>cq_isActive := Some True, cq_agency := Some (cp_agency campaign)\<rparr>)))"

definition calculateAudienceCount ::
  "contact list \<Rightarrow> string audience \<Rightarrow> string \<Rightarrow> error + nat" where
  "calculateAudienceCount db audience agency =
     (case new_ObjectId agency of
        Inl e \<Rightarrow> Inl e
      | Inr ag \<Rightarrow>
          (let query = cq_empty\<lparr>cq_isActive := Some True, cq_agency := Some (Some ag)\<rparr> in
           if nonempty (au_specificContacts audience)
           then Inr (length (the (au_specificContacts audience)))
           else Inr (length (ContactModel_find db (audience_filters audience query)))))"

subsection \<open>\<^verbatim>\<open>CampaignsService.replaceVariables\<close>\<close>

text \<open>
  The replacement text of \<^verbatim>\<open>String.prototype.replace\<close> for a match without capture
  groups: \<^verbatim>\<open>$$\<close> is a dollar sign, \<^verbatim>\<open>$&\<close> the matched text, \<^verbatim>\<open>$`\<close> the text before the match
  and \<^verbatim>\<open>$'\<close> the text after it; any other character stands for itself.
\<close>

fun GetSubstitution :: "string \<Rightarrow> string \<Rightarrow> string \<Rightarrow> string \<Rightarrow> string" where
  "GetSubstitution matched preceding following [] = []"
| "GetSubstitution matched preceding following [c] = [c]"
| "GetSubstitution matched preceding following (c # d # r) =
     (if c = CHR ''$'' \<and> d = CHR ''$'' then CHR ''$'' # GetSubstitution matched preceding following r
      else if c = CHR ''$'' \<and> d = CHR ''&'' then matched @ GetSubstitution matched preceding following r
      else if c = CHR ''$'' \<and> d = CHR 0x60 then preceding @ GetSubstitution matched preceding following r
      else if c = CHR ''$'' \<and> d = CHR 0x27 then following @ GetSubstitution matched preceding following r
      else c # GetSubstitution matched preceding following (d # r))"

text \<open>
  \<^verbatim>\<open>s.replace(/pat/g, rep)\<close> for a pattern that is a literal text: the string is scanned
  from the left, each occurrence is replaced and the scan resumes after it. \<open>preceding\<close> is
  the part of the subject already scanned.
\<close>

function replace_literal :: "string \<Rightarrow> string \<Rightarrow> string \<Rightarrow> string \<Rightarrow> string" where
  "replace_literal pat rep preceding [] = []"
| "replace_literal pat rep preceding (c # cs) =
     (if pat \<noteq> [] \<and> take (length pat) (c # cs) = pat then
        GetSubstitution pat preceding (drop (length pat) (c # cs)) rep
          @ replace_literal pat rep (preceding @ pat) (drop (length pat) (c # cs))
      else c # replace_literal pat rep (preceding @ [c]) cs)"
  by pat_completeness auto
termination
  by (relation "measure (\<lambda>(pat, rep, preceding, s). length s)") (auto simp: neq_Nil_conv)

fun replace_globals :: "platform \<Rightarrow> (string \<times> string) list \<Rightarrow> string \<Rightarrow> string option" where
  "replace_globals js [] message = Some message"
| "replace_globals js ((key, v) # kvs) message =
     (case RegExp_g_replace js (''{{'' @ key @ ''}}'') message v of
        None \<Rightarrow> None
      | Some message' \<Rightarrow> replace_globals js kvs message')"

definition replaceVariables ::
  "platform \<Rightarrow> string \<Rightarrow> (string \<times> string) list \<Rightarrow> contact \<Rightarrow> error + string" where
  "replaceVariables js template variables contact =
     (case replace_globals js variables template of
        None \<Rightarrow> Inl SyntaxError
      | Some message \<Rightarrow>
          (let message = replace_literal ''{{contact.name}}''
                           (js_or (c_name contact) ''Cliente'') [] message;
               message = replace_literal ''{{contact.email}}''
                           (js_or (c_email contact) []) [] message;
               message = replace_literal ''{{contact.phone}}''
                           (js_or (c_phone contact) []) [] message
           in Inr message))"

subsection \<open>Templates made of literal text and placeholders\<close>

text \<open>
  A template read as a list of pieces: a literal text, or a placeholder \<^verbatim>\<open>{{name}}\<close>.
  \<open>template_of\<close> is the text of the template.
\<close>

datatype piece = Lit string | Hole string

fun piece_text :: "piece \<Rightarrow> string" where
  "piece_text (Lit s) = s"
| "piece_text (Hole q) = ''{{'' @ q @ ''}}''"

definition template_of :: "piece list \<Rightarrow> string" where
  "template_of ps = concat (map piece_text ps)"

text \<open>
  A literal text in which no placeholder can begin: it has no two opening braces in a row
  and does not end with an opening brace.
\<close>

fun lit_ok :: "string \<Rightarrow> bool" where
  "lit_ok [] = True"
| "lit_ok [c] = (c \<noteq> CHR ''{'')"
| "lit_ok (c # d # r) = (\<not> (c = CHR ''{'' \<and> d = CHR ''{'') \<and> lit_ok (d # r))"

text \<open>The name of a placeholder holds no brace.\<close>

definition name_ok :: "string \<Rightarrow> bool" where
  "name_ok q = (CHR ''{'' \<notin> set q \<and> CHR ''}'' \<notin> set q)"

fun piece_ok :: "piece \<Rightarrow> bool" where
  "piece_ok (Lit s) = lit_ok s"
| "piece_ok (Hole q) = name_ok q"

text \<open>
  A replacement text in which \<^verbatim>\<open>String.prototype.replace\<close> finds none of its patterns
  \<^verbatim>\<open>$$\<close>, \<^verbatim>\<open>$&\<close>, \<^verbatim>\<open>$`\<close>, \<^verbatim>\<open>$'\<close>; a dollar sign before anything else is allowed.
\<close>

fun no_pattern :: "string \<Rightarrow> bool" where
  "no_pattern [] = True"
| "no_pattern [c] = True"
| "no_pattern (c # d # r) =
     (\<not> (c = CHR ''$'' \<and> (d = CHR ''$'' \<or> d = CHR ''&'' \<or> d = CHR 0x60 \<or> d = CHR 0x27))
      \<and> no_pattern (d # r))"

definition value_ok :: "string \<Rightarrow> bool" where
  "value_ok v = (lit_ok v \<and> no_pattern v)"

text \<open>
  What the three contact placeholders stand for, with the defaults of the source for an
  absent field, in the order in which \<^verbatim>\<open>replaceVariables\<close> replaces them.
\<close>

definition contact_bindings :: "contact \<Rightarrow> (string \<times> string) list" where
  "contact_bindings c =
     [(''contact.name'', js_or (c_name c) ''Cliente''),
      (''contact.email'', js_or (c_email c) []),
      (''contact.phone'', js_or (c_phone c) [])]"

text \<open>
  A piece under a list of bindings: a placeholder becomes the value of the first binding
  of its name and stays as it is when no binding has its name.
\<close>

fun fill :: "(string \<times> string) list \<Rightarrow> piece \<Rightarrow> piece" where
  "fill bs (Lit s) = Lit s"
| "fill bs (Hole q) = (case map_of bs q of Some v \<Rightarrow> Lit v | None \<Rightarrow> Hole q)"

subsection \<open>\<^verbatim>\<open>CampaignsService.execute\<close>\<close>

text \<open>
  What the executor does to the outside is recorded as a trace: a suspension of the given
  number of milliseconds, or a call of the messaging bridge with the instance, the
  recipient and the text.
\<close>

datatype event = Delay int | SendText string "string option" string

text \<open>
  The messaging bridge is a parameter: from its state, the instance, the recipient and the
  text it answers whether the call returned (\<open>True\<close>) or raised, and its next state.
\<close>

type_synonym 'b bridge = "'b \<Rightarrow> string \<Rightarrow> string option \<Rightarrow> string \<Rightarrow> bool \<times> 'b"

text \<open>The loop over the audience; its state is \<open>(sent, failed, bridge state, trace)\<close>.\<close>

fun send_loop ::
  "platform \<Rightarrow> 'b bridge \<Rightarrow> campaign \<Rightarrow> contact list
     \<Rightarrow> nat \<times> nat \<times> 'b \<times> event list \<Rightarrow> nat \<times> nat \<times> 'b \<times> event list" where
  "send_loop js send campaign [] st = st"
| "send_loop js send campaign (contact # contacts) (sent, failed, b, trace) =
     (let trace = (if cp_rateLimitMs campaign \<noteq> 0 \<and> cp_rateLimitMs campaign > 0
                   then trace @ [Delay (cp_rateLimitMs campaign)] else trace);
          variablesObj = (case m_variables (cp_message campaign) of
                            Some vs \<Rightarrow> vs | None \<Rightarrow> [])
      in
      case replaceVariables js (m_template (cp_message campaign)) variablesObj contact of
        Inl e \<Rightarrow> send_loop js send campaign contacts (sent, failed + 1, b, trace)
      | Inr message \<Rightarrow>
          (let (ok, b') = send b (cp_evolutionInstanceId campaign) (c_phone contact) message;
               trace = trace @ [SendText (cp_evolutionInstanceId campaign)
                                  (c_phone contact) message]
           in if ok then send_loop js send campaign contacts (sent + 1, failed, b', trace)
              else send_loop js send campaign contacts (sent, failed + 1, b', trace)))"

text \<open>
  The events of one iteration, read off the loop body: the suspension when a positive
  rate limit is configured, then the call of the bridge when the template renders.
\<close>

definition contact_events :: "platform \<Rightarrow> campaign \<Rightarrow> contact \<Rightarrow> event list" where
  "contact_events js campaign contact =
     (if cp_rateLimitMs campaign \<noteq> 0 \<and> cp_rateLimitMs campaign > 0
      then [Delay (cp_rateLimitMs campaign)] else [])
     @ (case replaceVariables js (m_template (cp_message campaign))
               (case m_variables (cp_message campaign) of Some vs \<Rightarrow> vs | None \<Rightarrow> [])
               contact of
          Inl e \<Rightarrow> []
        | Inr message \<Rightarrow>
            [SendText (cp_evolutionInstanceId campaign) (c_phone contact) message])"

text \<open>
  Whether each contact of an audience is reached, in order: the template renders and the
  call of the bridge returns. The state of the bridge goes from one call to the next.
\<close>

fun outcomes :: "platform \<Rightarrow> 'b bridge \<Rightarrow> campaign \<Rightarrow> 'b \<Rightarrow> contact list \<Rightarrow> bool list" where
  "outcomes js send campaign b [] = []"
| "outcomes js send campaign b (contact # contacts) =
     (case replaceVariables js (m_template (cp_message campaign))
             (case m_variables (cp_message campaign) of Some vs \<Rightarrow> vs | None \<Rightarrow> [])
             contact of
        Inl e \<Rightarrow> False # outcomes js send campaign b contacts
      | Inr message \<Rightarrow>
          (let (ok, b') = send b (cp_evolutionInstanceId campaign) (c_phone contact) message
           in ok # outcomes js send campaign b' contacts))"

text \<open>
  The outcome of \<^verbatim>\<open>execute\<close>: the error raised or the pair \<open>(sent, failed)\<close> of the returned
  message, with the campaign collection, the bridge state and the trace it leaves.
\<close>

record 'b execution =
  out_result :: "error + nat \<times> nat"
  out_campaigns :: "campaign list"
  out_bridge :: 'b
  out_trace :: "event list"

definition execute ::
  "platform \<Rightarrow> 'b bridge \<Rightarrow> nat \<Rightarrow> campaign list \<Rightarrow> contact list \<Rightarrow> 'b
     \<Rightarrow> string \<Rightarrow> AuthenticatedUser \<Rightarrow> 'b execution" where
  "execute js send now campaigns contacts b i user =
     (let fail = (\<lambda>e. \<lparr> out_result = Inl e, out_campaigns = campaigns, out_bridge = b,
                         out_trace = [] \<rparr>) in
      if \<not> ObjectId_isValid i then fail BadRequest
      else
        (case CampaignModel_findById campaigns i of
           None \<Rightarrow> fail NotFound
         | Some campaign \<Rightarrow>
             if role user \<noteq> ADMIN \<and> cp_agency campaign = None then fail TypeError
             else if role user \<noteq> ADMIN
                     \<and> Some (toString (the (cp_agency campaign))) \<noteq> agencyId user
             then fail Forbidden
             else if cp_status campaign = RUNNING then fail BadRequest
             else if cp_status campaign = COMPLETED then fail BadRequest
             else
               (let campaign = campaign\<lparr>cp_status := RUNNING,
                                          cp_lastExecutionDate := Some now\<rparr>;
                    campaigns = campaign_save campaigns campaign;
                    audience = getAudienceContacts contacts campaign
                in
                if length audience = 0 then
                  (let campaign = campaign\<lparr>cp_status := COMPLETED\<rparr>
                   in \<lparr> out_result = Inl BadRequest,
                        out_campaigns = campaign_save campaigns campaign,
                        out_bridge = b, out_trace = [] \<rparr>)
                else
                  (let (sent, failed, b', trace) =
                         send_loop js send campaign audience (0, 0, b, []);
                       campaign = campaign\<lparr>
                         cp_statistics := (cp_statistics campaign)\<lparr>st_sent := sent,
                                                                    st_failed := failed\<rparr>,
                         cp_status := COMPLETED\<rparr>
                   in \<lparr> out_result = Inr (sent, failed),
                        out_campaigns = campaign_save campaigns campaign,
                        out_bridge = b', out_trace = trace \<rparr>))))"

section \<open>Users and registration\<close>

record user =
  u_id :: oid
  u_email :: string
  u_password :: string
  u_name :: string
  u_phone :: "string option"
  u_agencyId :: "string option"
  u_role :: UserRole
  u_isActive :: bool

record RegisterDto =
  r_email :: string
  r_password :: string
  r_name :: string
  r_phone :: "string option"
  r_role :: "string option"

record AuthResponse =
  accessToken :: string
  ar_id :: string
  ar_email :: string
  ar_name :: string
  ar_role :: UserRole
  ar_agencyId :: "string option"

text \<open>The values of the \<^verbatim>\<open>UserRole\<close> enumeration, which the user schema lists for \<^verbatim>\<open>role\<close>.\<close>

definition UserRole_of :: "string \<Rightarrow> UserRole option" where
  "UserRole_of s =
     (if s = ''admin'' then Some ADMIN
      else if s = ''manager'' then Some MANAGER
      else if s = ''agent'' then Some AGENT
      else if s = ''viewer'' then Some VIEWER
      else None)"

text \<open>
  \<^verbatim>\<open>UserModel.create\<close> validates the document against the schema before it stores it:
  \<^verbatim>\<open>email\<close>, \<^verbatim>\<open>password\<close> and \<^verbatim>\<open>name\<close> are required and \<^verbatim>\<open>role\<close> is one of the enumeration.
  The identifier of the new document is the argument \<open>new_id\<close>; \<^verbatim>\<open>agencyId\<close> takes its
  default.
\<close>

definition UserModel_create ::
  "oid \<Rightarrow> user list \<Rightarrow> string \<Rightarrow> string \<Rightarrow> string \<Rightarrow> string option \<Rightarrow> string \<Rightarrow> bool
     \<Rightarrow> error + (user \<times> user list)" where
  "UserModel_create new_id db email_v password_v name_v phone_v role_v active =
     (if email_v = [] \<or> password_v = [] \<or> name_v = [] then Inl ValidationError
      else
        (case UserRole_of role_v of
           None \<Rightarrow> Inl ValidationError
         | Some r \<Rightarrow>
             (let u = \<lparr> u_id = new_id, u_email = email_v, u_password = password_v,
                        u_name = name_v, u_phone = phone_v, u_agencyId = None, u_role = r,
                        u_isActive = active \<rparr>
              in Inr (u, db @ [u]))))"

text \<open>
  \<^verbatim>\<open>AuthService.register\<close>. The password hash and the signature of the token are
  parameters (\<open>hash\<close>, \<open>sign\<close>).
\<close>

definition register ::
  "(string \<Rightarrow> string) \<Rightarrow> (user \<Rightarrow> string) \<Rightarrow> oid \<Rightarrow> user list \<Rightarrow> RegisterDto
     \<Rightarrow> error + (AuthResponse \<times> user list)" where
  "register hash sign new_id db dto =
     (case find (\<lambda>u. u_email u = r_email dto) db of
        Some existingUser \<Rightarrow> Inl BadRequest
      | None \<Rightarrow>
          (let hashedPassword = hash (r_password dto) in
           case UserModel_create new_id db (r_email dto) hashedPassword (r_name dto)
                  (r_phone dto) (js_or (r_role dto) ''viewer'') True of
             Inl e \<Rightarrow> Inl e
           | Inr (u, db') \<Rightarrow>
               Inr (\<lparr> accessToken = sign u, ar_id = toString (u_id u),
                       ar_email = u_email u, ar_name = u_name u, ar_role = u_role u,
                       ar_agencyId = u_agencyId u \<rparr>, db')))"

section \<open>Agencies\<close>

record agency =
  ag_id :: oid
  ag_name :: string
  ag_cnpj :: string
  ag_owner :: oid
  ag_members :: "oid list"
  ag_isActive :: bool

definition AgencyModel_findById :: "agency list \<Rightarrow> string \<Rightarrow> agency option" where
  "AgencyModel_findById db i = find (\<lambda>d. ag_id d = oid_of i) db"

definition agency_save :: "agency list \<Rightarrow> agency \<Rightarrow> agency list" where
  "agency_save db x = map (\<lambda>d. if ag_id d = ag_id x then x else d) db"

text \<open>\<^verbatim>\<open>UserModel.findByIdAndUpdate(id, { agencyId: v })\<close>: the first user with the identifier.\<close>

fun UserModel_setAgencyId :: "user list \<Rightarrow> string \<Rightarrow> string option \<Rightarrow> user list" where
  "UserModel_setAgencyId [] i v = []"
| "UserModel_setAgencyId (u # us) i v =
     (if u_id u = oid_of i then u\<lparr>u_agencyId := v\<rparr> # us
      else u # UserModel_setAgencyId us i v)"

text \<open>
  \<^verbatim>\<open>AgenciesService.removeMember\<close>. The result carries the two collections as the call
  leaves them, also when it raises.
\<close>

definition removeMember ::
  "agency list \<Rightarrow> user list \<Rightarrow> string \<Rightarrow> string \<Rightarrow> AuthenticatedUser
     \<Rightarrow> (error + agency) \<times> agency list \<times> user list" where
  "removeMember agencies users agency_id user_id user =
     (if \<not> ObjectId_isValid agency_id \<or> \<not> ObjectId_isValid user_id
      then (Inl BadRequest, agencies, users)
      else
        (case AgencyModel_findById agencies agency_id of
           None \<Rightarrow> (Inl NotFound, agencies, users)
         | Some agency \<Rightarrow>
             if role user \<noteq> ADMIN \<and> toString (ag_owner agency) \<noteq> userId user
             then (Inl Forbidden, agencies, users)
             else if toString (ag_owner agency) = user_id
             then (Inl BadRequest, agencies, users)
             else
               (let agency = agency\<lparr>ag_members :=
                               filter (\<lambda>m. toString m \<noteq> user_id) (ag_members agency)\<rparr>
                in (Inr agency, agency_save agencies agency,
                    UserModel_setAgencyId users user_id None))))"

section \<open>Agent sessions and the orchestration loop\<close>

datatype SessionStatus = S_ACTIVE | S_COMPLETED | S_ARCHIVED | S_ERROR

datatype AgentStatus = IDLE | THINKING | EXECUTING | WAITING | A_COMPLETED | A_ERROR

datatype msg_role = User | Assistant | System

text \<open>
  A transcript entry; its metadata, when present, is the tool name and the arguments of
  the call. \<open>'a\<close> is the type of JSON values. Timestamps are left out.
\<close>

record 'a IMessage =
  im_role :: msg_role
  im_content :: string
  im_metadata :: "(string \<times> 'a) option"

record 'a session =
  s_id :: oid
  s_userId :: string
  s_agencyId :: string
  s_agentType :: string
  s_status :: SessionStatus
  s_agentStatus :: AgentStatus
  s_originalGoal :: "string option"
  s_messages :: "'a IMessage list"
  s_messageCount :: nat

definition AgentSessionModel_findById :: "'a session list \<Rightarrow> oid \<Rightarrow> 'a session option" where
  "AgentSessionModel_findById db i = find (\<lambda>d. s_id d = i) db"

definition session_save :: "'a session list \<Rightarrow> 'a session \<Rightarrow> 'a session list" where
  "session_save db x = map (\<lambda>d. if s_id d = s_id x then x else d) db"

record tool_call =
  tc_type :: string
  tc_name :: string
  tc_arguments :: string

record openai_message =
  om_content :: "string option"
  om_tool_calls :: "tool_call list option"

record 'a function_call =
  fc_name :: string
  fc_args :: 'a

record 'a gemini_response =
  gr_functionCalls :: "'a function_call list option"
  gr_text :: string

text \<open>
  What the orchestrator takes from outside: the three environment variables; the table of
  system prompts and the text of the demonstration answer (texts handed on unread); the
  two providers, each a function of its state \<open>'p\<close> that answers \<open>None\<close> when the call
  raises; \<^verbatim>\<open>JSON.parse\<close>; and the execution of a registered tool by name, a function of
  the state \<open>'w\<close> of the services behind the tools. A tool never raises: each
  \<^verbatim>\<open>execute\<close> of the registry catches its failures and returns them as text.
\<close>

record ('a, 'p, 'w) deps =
  AI_PROVIDER :: "string option"
  OPENAI_API_KEY :: "string option"
  GEMINI_API_KEY :: "string option"
  getSystemPrompt :: "string \<Rightarrow> string"
  stubResponse :: "string option \<Rightarrow> string"
  openai_create :: "'p \<Rightarrow> string \<Rightarrow> (msg_role \<times> string) list \<Rightarrow> openai_message option \<times> 'p"
  gemini_sendMessage ::
    "'p \<Rightarrow> string \<Rightarrow> string \<Rightarrow> (bool \<times> string) list \<Rightarrow> string
       \<Rightarrow> 'a gemini_response option \<times> 'p"
  JSON_parse :: "string \<Rightarrow> 'a option"
  tool_execute :: "'w \<Rightarrow> string \<Rightarrow> 'a \<Rightarrow> AuthenticatedUser \<Rightarrow> string \<times> 'w"

record AiConfig =
  ai_enabled :: bool
  ai_provider :: string
  ai_apiKey :: "string option"
  ai_model :: string

definition getAiConfig :: "('a, 'p, 'w) deps \<Rightarrow> AiConfig" where
  "getAiConfig d =
     (let provider = js_or (AI_PROVIDER d) ''openai'';
          apiKey = (if provider = ''google'' then GEMINI_API_KEY d else OPENAI_API_KEY d)
      in \<lparr> ai_enabled = truthy apiKey, ai_provider = provider, ai_apiKey = apiKey,
           ai_model = (if provider = ''google'' then ''gemini-2.0-flash-exp''
                       else ''gpt-4o-mini'') \<rparr>)"

text \<open>Whether \<^verbatim>\<open>getOpenAIInstance\<close> (\<^verbatim>\<open>getGeminiInstance\<close>) returns a client.\<close>

definition getOpenAIInstance :: "('a, 'p, 'w) deps \<Rightarrow> bool" where
  "getOpenAIInstance d =
     (let aiConfig = getAiConfig d in
      \<not> (\<not> ai_enabled aiConfig \<or> \<not> truthy (ai_apiKey aiConfig)
           \<or> ai_provider aiConfig \<noteq> ''openai''))"

definition getGeminiInstance :: "('a, 'p, 'w) deps \<Rightarrow> bool" where
  "getGeminiInstance d =
     (let aiConfig = getAiConfig d in
      \<not> (\<not> ai_enabled aiConfig \<or> \<not> truthy (ai_apiKey aiConfig)
           \<or> ai_provider aiConfig \<noteq> ''google''))"

text \<open>The names of the tools of \<^verbatim>\<open>getToolsForAgent\<close>, in its order.\<close>

definition tool_names :: "string list" where
  "tool_names = [''search_properties'', ''get_property_details'', ''search_contacts'',
                 ''send_whatsapp_message'']"

definition tool_entry :: "string \<Rightarrow> 'a \<Rightarrow> string \<Rightarrow> 'a IMessage" where
  "tool_entry name args result =
     \<lparr> im_role = Assistant, im_content = ''[Ferramenta: '' @ name @ ''] '' @ result,
       im_metadata = Some (name, args) \<rparr>"

definition executeStubMode :: "('a, 'p, 'w) deps \<Rightarrow> 'a session list \<Rightarrow> oid \<Rightarrow> 'a session list" where
  "executeStubMode d sessions i =
     (case AgentSessionModel_findById sessions i of
        None \<Rightarrow> sessions
      | Some session \<Rightarrow>
          (let messages = s_messages session
                 @ [\<lparr> im_role = Assistant,
                       im_content = stubResponse d (s_originalGoal session),
                       im_metadata = None \<rparr>]
           in session_save sessions
                (session\<lparr>s_messages := messages, s_agentStatus := IDLE,
                          s_status := S_COMPLETED, s_messageCount := length messages\<rparr>)))"

subsection \<open>\<^verbatim>\<open>AgentsService.executeWithOpenAI\<close>\<close>

text \<open>A tool call that the loop below executes: of type \<^verbatim>\<open>function\<close>, naming a registered tool.\<close>

definition openai_runnable :: "tool_call \<Rightarrow> bool" where
  "openai_runnable tc = (tc_type tc = ''function'' \<and> tc_name tc \<in> set tool_names)"

text \<open>
  The transcript entries that a list of requests (tool name and arguments) leaves, one
  for each request in order: the entry of a request holds the text that the execution of
  its tool on its arguments returns. The state of the services goes from one execution
  to the next.
\<close>

fun tool_results ::
  "('a, 'p, 'w) deps \<Rightarrow> AuthenticatedUser \<Rightarrow> (string \<times> 'a) list \<Rightarrow> 'w
     \<Rightarrow> 'a IMessage list \<times> 'w" where
  "tool_results d user [] w = ([], w)"
| "tool_results d user ((n, a) # rest) w =
     (let (r, w1) = tool_execute d w n a user;
          (es, w2) = tool_results d user rest w1
      in (tool_entry n a r # es, w2))"

text \<open>The requests of a response: its runnable calls, with their parsed arguments.\<close>

definition openai_requests :: "('a, 'p, 'w) deps \<Rightarrow> tool_call list \<Rightarrow> (string \<times> 'a) list" where
  "openai_requests d calls =
     map (\<lambda>tc. (tc_name tc, the (JSON_parse d (tc_arguments tc))))
       (filter openai_runnable calls)"

text \<open>The message list sent to the provider: the system prompt, then the transcript.\<close>

definition openai_messages :: "('a, 'p, 'w) deps \<Rightarrow> 'a session \<Rightarrow> (msg_role \<times> string) list" where
  "openai_messages d session =
     (System, getSystemPrompt d (s_agentType session))
       # map (\<lambda>msg. (im_role msg, im_content msg)) (s_messages session)"

text \<open>
  The loop over the tool calls of a response. A call that is not of type
  \<^verbatim>\<open>function\<close>, or that names no registered tool, is passed over; arguments that do not
  parse raise. The result is the error raised, if any, with the transcript and the state
  of the services as the loop leaves them.
\<close>

fun openai_tool_loop ::
  "('a, 'p, 'w) deps \<Rightarrow> AuthenticatedUser \<Rightarrow> tool_call list \<Rightarrow> 'a IMessage list \<times> 'w
     \<Rightarrow> error option \<times> 'a IMessage list \<times> 'w" where
  "openai_tool_loop d user [] (messages, w) = (None, messages, w)"
| "openai_tool_loop d user (toolCall # rest) (messages, w) =
     (if tc_type toolCall \<noteq> ''function'' then openai_tool_loop d user rest (messages, w)
      else
        (case find (\<lambda>t. t = tc_name toolCall) tool_names of
           None \<Rightarrow> openai_tool_loop d user rest (messages, w)
         | Some tool \<Rightarrow>
             (case JSON_parse d (tc_arguments toolCall) of
                None \<Rightarrow> (Some SyntaxError, messages, w)
              | Some args \<Rightarrow>
                  (let (result, w') = tool_execute d w tool args user
                   in openai_tool_loop d user rest
                        (messages @ [tool_entry tool args result], w')))))"

text \<open>
  The recursion of the source has no bound; the first argument bounds the number of
  provider calls, and \<open>None\<close> is the answer of a run that needs more.
\<close>

fun executeWithOpenAI ::
  "nat \<Rightarrow> ('a, 'p, 'w) deps \<Rightarrow> 'a session list \<times> 'p \<times> 'w \<Rightarrow> oid \<Rightarrow> AuthenticatedUser
     \<Rightarrow> (error option \<times> 'a session list \<times> 'p \<times> 'w) option" where
  "executeWithOpenAI 0 d st i user = None"
| "executeWithOpenAI (Suc fuel) d (sessions, p, w) i user =
     (case AgentSessionModel_findById sessions i of
        None \<Rightarrow> Some (None, sessions, p, w)
      | Some session \<Rightarrow>
          if \<not> getOpenAIInstance d then Some (None, executeStubMode d sessions i, p, w)
          else
            (let aiConfig = getAiConfig d;
                 messages = openai_messages d session
             in
             case openai_create d p (ai_model aiConfig) messages of
               (None, p') \<Rightarrow> Some (Some ProviderError, sessions, p', w)
             | (Some assistantMessage, p') \<Rightarrow>
                 if nonempty (om_tool_calls assistantMessage) then
                   (let session = session\<lparr>s_agentStatus := EXECUTING\<rparr>;
                        sessions = session_save sessions session
                    in
                    case openai_tool_loop d user (the (om_tool_calls assistantMessage))
                           (s_messages session, w) of
                      (Some e, messages, w') \<Rightarrow> Some (Some e, sessions, p', w')
                    | (None, messages, w') \<Rightarrow>
                        (let session = session\<lparr>s_messages := messages,
                                                 s_messageCount := length messages\<rparr>;
                             sessions = session_save sessions session
                         in executeWithOpenAI fuel d (sessions, p', w') i user))
                 else
                   (let messages =
                          (if truthy (om_content assistantMessage)
                           then s_messages session
                                  @ [\<lparr> im_role = Assistant,
                                        im_content = the (om_content assistantMessage),
                                        im_metadata = None \<rparr>]
                           else s_messages session);
                        session = session\<lparr>s_messages := messages, s_agentStatus := IDLE,
                                            s_messageCount := length messages\<rparr>
                    in Some (None, session_save sessions session, p', w))))"

subsection \<open>\<^verbatim>\<open>AgentsService.executeWithGemini\<close>\<close>

text \<open>The requests of a response: its calls that name a registered tool.\<close>

definition gemini_requests :: "'a function_call list \<Rightarrow> (string \<times> 'a) list" where
  "gemini_requests calls =
     map (\<lambda>c. (fc_name c, fc_args c)) (filter (\<lambda>c. fc_name c \<in> set tool_names) calls)"

text \<open>The chat history handed to the model: no system entries; \<open>True\<close> marks the model's turns.\<close>

definition gemini_history :: "'a session \<Rightarrow> (bool \<times> string) list" where
  "gemini_history session =
     map (\<lambda>msg. (im_role msg = Assistant, im_content msg))
       (filter (\<lambda>msg. im_role msg \<noteq> System) (s_messages session))"

fun gemini_tool_loop ::
  "('a, 'p, 'w) deps \<Rightarrow> AuthenticatedUser \<Rightarrow> 'a function_call list \<Rightarrow> 'a IMessage list \<times> 'w
     \<Rightarrow> 'a IMessage list \<times> 'w" where
  "gemini_tool_loop d user [] (messages, w) = (messages, w)"
| "gemini_tool_loop d user (call # rest) (messages, w) =
     (case find (\<lambda>t. t = fc_name call) tool_names of
        None \<Rightarrow> gemini_tool_loop d user rest (messages, w)
      | Some tool \<Rightarrow>
          (let (result, w') = tool_execute d w tool (fc_args call) user
           in gemini_tool_loop d user rest
                (messages @ [tool_entry tool (fc_args call) result], w')))"

fun executeWithGemini ::
  "nat \<Rightarrow> ('a, 'p, 'w) deps \<Rightarrow> 'a session list \<times> 'p \<times> 'w \<Rightarrow> oid \<Rightarrow> AuthenticatedUser
     \<Rightarrow> (error option \<times> 'a session list \<times> 'p \<times> 'w) option" where
  "executeWithGemini 0 d st i user = None"
| "executeWithGemini (Suc fuel) d (sessions, p, w) i user =
     (case AgentSessionModel_findById sessions i of
        None \<Rightarrow> Some (None, sessions, p, w)
      | Some session \<Rightarrow>
          if \<not> getGeminiInstance d then Some (None, executeStubMode d sessions i, p, w)
          else
            (let aiConfig = getAiConfig d;
                 history = gemini_history session;
                 goal = js_or (s_originalGoal session) ''Continue a conversa''
             in
             case gemini_sendMessage d p (ai_model aiConfig)
                    (getSystemPrompt d (s_agentType session)) history goal of
               (None, p') \<Rightarrow> Some (Some ProviderError, sessions, p', w)
             | (Some response, p') \<Rightarrow>
                 if nonempty (gr_functionCalls response) then
                   (let session = session\<lparr>s_agentStatus := EXECUTING\<rparr>;
                        sessions = session_save sessions session;
                        (messages, w') =
                          gemini_tool_loop d user (the (gr_functionCalls response))
                            (s_messages session, w);
                        session = session\<lparr>s_messages := messages,
                                            s_messageCount := length messages\<rparr>;
                        sessions = session_save sessions session
                    in executeWithGemini fuel d (sessions, p', w') i user)
                 else
                   (let messages =
                          (if gr_text response \<noteq> []
                           then s_messages session
                                  @ [\<lparr> im_role = Assistant, im_content = gr_text response,
                                        im_metadata = None \<rparr>]
                           else s_messages session);
                        session = session\<lparr>s_messages := messages, s_agentStatus := IDLE,
                                            s_messageCount := length messages\<rparr>
                    in Some (None, session_save sessions session, p', w))))"

section \<open>Sample data\<close>

text \<open>Two agencies, three users of the first one, and documents of both.\<close>

definition ex_g1 :: string where "ex_g1 = ''aaaaaaaaaaaaaaaaaaaaaaa1''"
definition ex_g2 :: string where "ex_g2 = ''aaaaaaaaaaaaaaaaaaaaaaa2''"
definition ex_u1 :: string where "ex_u1 = ''bbbbbbbbbbbbbbbbbbbbbbb1''"
definition ex_u2 :: string where "ex_u2 = ''bbbbbbbbbbbbbbbbbbbbbbb2''"
definition ex_u3 :: string where "ex_u3 = ''bbbbbbbbbbbbbbbbbbbbbbb3''"
definition ex_c1 :: string where "ex_c1 = ''ccccccccccccccccccccccc1''"
definition ex_c2 :: string where "ex_c2 = ''ccccccccccccccccccccccc2''"
definition ex_c3 :: string where "ex_c3 = ''ccccccccccccccccccccccc3''"
definition ex_p1 :: string where "ex_p1 = ''ddddddddddddddddddddddd1''"
definition ex_p2 :: string where "ex_p2 = ''ddddddddddddddddddddddd2''"
definition ex_k1 :: string where "ex_k1 = ''eeeeeeeeeeeeeeeeeeeeeee1''"
definition ex_k2 :: string where "ex_k2 = ''eeeeeeeeeeeeeeeeeeeeeee2''"

definition ex_agent1 :: AuthenticatedUser where
  "ex_agent1 = \<lparr> userId = ex_u1, userEmail = ''a1@x.com'', userName = None, role = AGENT,
                 agencyId = Some ex_g1 \<rparr>"

definition ex_manager :: AuthenticatedUser where
  "ex_manager = \<lparr> userId = ex_u3, userEmail = ''m@x.com'', userName = None, role = MANAGER,
                  agencyId = Some ex_g1 \<rparr>"

definition ex_contact1 :: contact where
  "ex_contact1 = \<lparr> c_id = ObjectId ex_c1, c_name = Some ''Ana'', c_phone = Some ''5511'',
     c_email = None, c_cpf = None, c_origin = O_WHATSAPP, c_status = NEW,
     c_interestedProperties = [], c_agency = Some (ObjectId ex_g1),
     c_assignedTo = Some (ObjectId ex_u1), c_tags = [], c_notes = None, c_isActive = True,
     c_urgency = None, c_createdAt = 1 \<rparr>"

definition ex_contact2 :: contact where
  "ex_contact2 = ex_contact1\<lparr> c_id := ObjectId ex_c2, c_name := Some ''Bruno'',
     c_phone := Some ''5522'', c_assignedTo := Some (ObjectId ex_u2), c_createdAt := 2 \<rparr>"

definition ex_contact3 :: contact where
  "ex_contact3 = ex_contact1\<lparr> c_id := ObjectId ex_c3, c_name := None,
     c_phone := Some ''5533'', c_agency := Some (ObjectId ex_g2), c_assignedTo := None,
     c_createdAt := 3 \<rparr>"

definition ex_contacts :: "contact list" where
  "ex_contacts = [ex_contact1, ex_contact2, ex_contact3]"

definition ex_property1 :: property where
  "ex_property1 = \<lparr> p_id = ObjectId ex_p1, p_type = HOUSE, p_transactionType = SALE,
     p_title = ''Casa'', p_description = ''Casa'', p_price = 500000, p_area = 120,
     p_address = \<lparr> a_street = ''Rua A'', a_number = ''1'', a_neighborhood = ''Centro'',
                   a_city = ''Recife'', a_state = ''PE'', a_zipCode = ''50000'' \<rparr>,
     p_features = \<lparr> ft_bedrooms = 3, ft_bathrooms = 2, ft_parkingSpaces = 1 \<rparr>,
     p_photos = [], p_status = AVAILABLE, p_agency = ObjectId ex_g1,
     p_owner = ObjectId ex_u1, p_isActive = True, p_createdAt = 1 \<rparr>"

definition ex_property2 :: property where
  "ex_property2 = ex_property1\<lparr> p_id := ObjectId ex_p2, p_agency := ObjectId ex_g2,
     p_createdAt := 2 \<rparr>"

definition ex_properties :: "property list" where
  "ex_properties = [ex_property1, ex_property2]"

definition ex_js :: platform where
  "ex_js = \<lparr> RegExp_i = (\<lambda>src. Some (\<lambda>s. True)), toUpperCase = (\<lambda>s. s),
             RegExp_g_replace = (\<lambda>src s r. Some s) \<rparr>"

definition ex_campaign1 :: campaign where
  "ex_campaign1 = \<lparr> cp_id = ObjectId ex_k1, cp_name = ''Oferta'', cp_description = None,
     cp_type = BROADCAST, cp_status = DRAFT,
     cp_audience = \<lparr> au_targetStatus = Some [], au_targetTags = Some [],
                     au_specificContacts = Some [] \<rparr>,
     cp_message = \<lparr> m_template = ''Oi {{contact.name}}'', m_variables = None \<rparr>,
     cp_evolutionInstanceId = ''inst'',
     cp_statistics = \<lparr> st_totalContacts = 0, st_sent = 0, st_delivered = 0, st_read = 0,
                       st_replied = 0, st_failed = 0 \<rparr>,
     cp_createdBy = ObjectId ex_u3, cp_agency = Some (ObjectId ex_g1), cp_isActive = True,
     cp_lastExecutionDate = None, cp_rateLimitMs = 0, cp_createdAt = 1 \<rparr>"

definition ex_campaign2 :: campaign where
  "ex_campaign2 = ex_campaign1\<lparr> cp_id := ObjectId ex_k2, cp_agency := Some (ObjectId ex_g2),
     cp_createdAt := 2 \<rparr>"

definition ex_campaigns :: "campaign list" where
  "ex_campaigns = [ex_campaign1, ex_campaign2]"

definition ex_filters_u2 :: ContactFilters where
  "ex_filters_u2 = \<lparr> cf_status = None, cf_origin = None, cf_agency = None,
     cf_assignedTo = Some ex_u2, cf_tags = None, cf_urgency = None \<rparr>"

definition ex_update_contact :: UpdateContactDto where
  "ex_update_contact = \<lparr> uc_name = Some ''Ana Maria'', uc_phone = None, uc_email = None,
     uc_cpf = None, uc_status = Some CONTACTED, uc_notes = None, uc_assignedTo = None,
     uc_interestedProperties = None, uc_tags = None, uc_urgency = None \<rparr>"

definition ex_update_property :: UpdatePropertyDto where
  "ex_update_property = \<lparr> up_type = None, up_transactionType = None, up_title = None,
     up_description = None, up_price = Some 450000, up_area = None, up_address = None,
     up_features = None, up_photos = None, up_status = None, up_isActive = None \<rparr>"

definition ex_update_campaign :: UpdateCampaignDto where
  "ex_update_campaign = \<lparr> ucp_name = Some ''Oferta 2'', ucp_description = None,
     ucp_status = None, ucp_audience = None, ucp_message = None \<rparr>"

definition ex_admin :: AuthenticatedUser where
  "ex_admin = \<lparr> userId = ex_u3, userEmail = ''root@x.com'', userName = None, role = ADMIN,
                agencyId = None \<rparr>"

definition ex_manager2 :: AuthenticatedUser where
  "ex_manager2 = \<lparr> userId = ex_u2, userEmail = ''m2@x.com'', userName = None,
                   role = MANAGER, agencyId = Some ex_g1 \<rparr>"

text \<open>A bridge that counts its calls and raises for one recipient.\<close>

definition ex_send :: "nat bridge" where
  "ex_send b inst number text = (number \<noteq> Some ''5522'', b + 1)"

definition ex_specific :: "string list \<Rightarrow> oid audience" where
  "ex_specific ids = \<lparr> au_targetStatus = Some [], au_targetTags = Some [],
                        au_specificContacts = Some (map ObjectId ids) \<rparr>"

definition ex_campaign_all :: campaign where
  "ex_campaign_all = ex_campaign1\<lparr> cp_audience := ex_specific [ex_c1, ex_c2, ex_c3] \<rparr>"

definition ex_campaign_rate :: campaign where
  "ex_campaign_rate = ex_campaign1\<lparr> cp_audience := ex_specific [ex_c1],
                                     cp_rateLimitMs := 1000 \<rparr>"

definition ex_campaign_empty :: campaign where
  "ex_campaign_empty = ex_campaign1\<lparr> cp_audience :=
       \<lparr> au_targetStatus = Some [], au_targetTags = Some [''vip''],
         au_specificContacts = Some [] \<rparr> \<rparr>"

definition ex_hash :: "string \<Rightarrow> string" where
  "ex_hash s = ''h:'' @ s"

definition ex_sign :: "user \<Rightarrow> string" where
  "ex_sign u = ''jwt:'' @ toString (u_id u)"

definition ex_register :: "string option \<Rightarrow> RegisterDto" where
  "ex_register r = \<lparr> r_email = ''eve@x.com'', r_password = ''secret'', r_name = ''Eve'',
                      r_phone = None, r_role = r \<rparr>"

definition ex_agency :: agency where
  "ex_agency = \<lparr> ag_id = ObjectId ex_g1, ag_name = ''Imobiliaria'', ag_cnpj = ''123'',
                 ag_owner = ObjectId ex_u3, ag_members = [ObjectId ex_u1, ObjectId ex_u2],
                 ag_isActive = True \<rparr>"

definition ex_user :: "string \<Rightarrow> UserRole \<Rightarrow> user" where
  "ex_user i r = \<lparr> u_id = ObjectId i, u_email = i @ ''@x.com'', u_password = ''h'',
                   u_name = ''U'', u_phone = None, u_agencyId = Some ex_g1, u_role = r,
                   u_isActive = True \<rparr>"

definition ex_users :: "user list" where
  "ex_users = [ex_user ex_u1 AGENT, ex_user ex_u2 MANAGER, ex_user ex_u3 MANAGER]"

text \<open>
  A provider that first asks for a tool the registry does not have and for a registered
  one, and then answers in text; JSON values are kept as their text.
\<close>

definition ex_call :: "string \<Rightarrow> tool_call" where
  "ex_call n = \<lparr> tc_type = ''function'', tc_name = n, tc_arguments = ''{}'' \<rparr>"

definition ex_deps :: "(string, nat, nat) deps" where
  "ex_deps = \<lparr> AI_PROVIDER = None, OPENAI_API_KEY = Some ''sk-test'', GEMINI_API_KEY = None,
     getSystemPrompt = (\<lambda>t. ''prompt''), stubResponse = (\<lambda>g. ''demo''),
     openai_create = (\<lambda>p model msgs.
        (Some (if p = 0
               then \<lparr> om_content = None,
                      om_tool_calls = Some [ex_call ''delete_everything'',
                                            ex_call ''search_contacts''] \<rparr>
               else \<lparr> om_content = Some ''Pronto'', om_tool_calls = None \<rparr>), p + 1)),
     gemini_sendMessage = (\<lambda>p model sys history goal.
        (Some (if p = 0
               then \<lparr> gr_functionCalls = Some [\<lparr> fc_name = ''delete_everything'',
                                                 fc_args = ''{}'' \<rparr>],
                      gr_text = [] \<rparr>
               else \<lparr> gr_functionCalls = None, gr_text = ''Pronto'' \<rparr>), p + 1)),
     JSON_parse = (\<lambda>s. Some s),
     tool_execute = (\<lambda>w name args user. (''ok'', w + 1)) \<rparr>"

definition ex_deps_gemini :: "(string, nat, nat) deps" where
  "ex_deps_gemini = ex_deps\<lparr> AI_PROVIDER := Some ''google'', OPENAI_API_KEY := None,
                             GEMINI_API_KEY := Some ''g-test'' \<rparr>"

definition ex_session :: "string session" where
  "ex_session = \<lparr> s_id = ObjectId ex_k1, s_userId = ex_u1, s_agencyId = ex_g1,
     s_agentType = ''general_assistant'', s_status = S_ACTIVE, s_agentStatus = THINKING,
     s_originalGoal = Some ''Buscar contatos'',
     s_messages = [\<lparr> im_role = User, im_content = ''Buscar contatos'',
                     im_metadata = None \<rparr>],
     s_messageCount = 1 \<rparr>"

text \<open>A provider that answers with neither a text nor a tool call.\<close>

definition ex_deps_silent :: "(string, nat, nat) deps" where
  "ex_deps_silent = ex_deps\<lparr> openai_create := (\<lambda>p model msgs.
      (Some \<lparr> om_content = None, om_tool_calls = None \<rparr>, p + 1)) \<rparr>"

definition ex_contact_dollar :: contact where
  "ex_contact_dollar = ex_contact1\<lparr> c_name := Some ''$&'' \<rparr>"

text \<open>
  A platform whose regular expressions read \<^verbatim>\<open>{{key}}\<close> as that very text, a map of two
  variables, and a template with a price in its literal text.
\<close>

definition ex_js_literal :: platform where
  "ex_js_literal = ex_js\<lparr> RegExp_g_replace := (\<lambda>src s r. Some (replace_literal src r [] s)) \<rparr>"

definition ex_vars :: "(string \<times> string) list" where
  "ex_vars = [(''imovel'', ''Casa {3 quartos}''), (''preco'', ''R$ 500.000'')]"

definition ex_pieces :: "piece list" where
  "ex_pieces = [Lit ''Oi '', Hole ''contact.name'', Lit '': '', Hole ''imovel'',
                Lit '' por '', Hole ''preco'', Lit '' {tel '', Hole ''contact.phone'',
                Lit ''} '', Hole ''link'']"

text \<open>The identifier of the third user written with capitals.\<close>

definition ex_u3_upper :: string where "ex_u3_upper = ''BBBBBBBBBBBBBBBBBBBBBBB3''"

section \<open>Tenant isolation of listings\<close>

lemma contacts_filters_agency: "cq_agency (contacts_filters f q) = cq_agency q"
  by (simp add: contacts_filters_def Let_def split: option.splits)

lemma contacts_scope_agency:
  "role user \<noteq> ADMIN \<Longrightarrow> contacts_scope user f = Inr q
     \<Longrightarrow> \<exists>a. agencyId user = Some a \<and> cq_agency q = Some (Some (oid_of a))"
  by (auto simp: contacts_scope_def Let_def new_ObjectId_def
           split: option.splits if_splits sum.splits)

lemma contacts_findAll_agency:
  assumes "role user \<noteq> ADMIN" and "contacts_findAll db user f = Inr ds" and "d \<in> set ds"
  shows "\<exists>a. agencyId user = Some a \<and> c_agency d = Some (oid_of a)"
proof -
  let ?q = "\<lambda>q. case f of Some g \<Rightarrow> contacts_filters g q | None \<Rightarrow> q"
  from assms(2) obtain q where q: "contacts_scope user f = Inr q"
    and ds: "ds = contact_sort_desc (ContactModel_find db (?q q))"
    by (auto simp: contacts_findAll_def Let_def split: sum.splits)
  from contacts_scope_agency[OF assms(1) q] obtain a
    where a: "agencyId user = Some a" "cq_agency q = Some (Some (oid_of a))" by blast
  have "cq_agency (?q q) = Some (Some (oid_of a))"
    using a(2) by (simp add: contacts_filters_agency split: option.splits)
  moreover have "contact_matches (?q q) d"
    using assms(3) ds by (simp add: contact_sort_desc_def ContactModel_find_def)
  ultimately have "c_agency d = Some (oid_of a)"
    by (simp add: contact_matches_def)
  with a(1) show ?thesis by blast
qed

lemma properties_filters_basic_agency:
  "pq_agency (properties_filters_basic f q) = pq_agency q"
  by (simp add: properties_filters_basic_def Let_def split: option.splits)

lemma properties_filters_features_agency:
  "pq_agency (properties_filters_features f q) = pq_agency q"
  by (simp add: properties_filters_features_def Let_def split: option.splits)

lemma properties_filters_address_agency:
  "properties_filters_address js f q = Inr q' \<Longrightarrow> pq_agency q' = pq_agency q"
  by (auto simp: properties_filters_address_def Let_def split: option.splits if_splits sum.splits)

lemma properties_filters_agency:
  "properties_filters js f q = Inr q' \<Longrightarrow> pq_agency q' = pq_agency q"
  by (auto simp: properties_filters_def properties_filters_basic_agency
        properties_filters_features_agency
      split: sum.splits dest!: properties_filters_address_agency)

lemma properties_scope_agency:
  "role user \<noteq> ADMIN \<Longrightarrow> properties_scope user f = Inr q
     \<Longrightarrow> \<exists>a. agencyId user = Some a \<and> pq_agency q = Some (oid_of a)"
  by (auto simp: properties_scope_def Let_def new_ObjectId_def
           split: option.splits if_splits sum.splits)

lemma properties_findAll_agency:
  assumes "role user \<noteq> ADMIN" and "properties_findAll js db user f = Inr ds" and "d \<in> set ds"
  shows "\<exists>a. agencyId user = Some a \<and> p_agency d = oid_of a"
proof -
  from assms(2) obtain q q' where q: "properties_scope user f = Inr q"
    and q': "(case f of Some g \<Rightarrow> properties_filters js g q | None \<Rightarrow> Inr q) = Inr q'"
    and ds: "ds = property_sort_desc (PropertyModel_find db q')"
    by (auto simp: properties_findAll_def split: sum.splits)
  from properties_scope_agency[OF assms(1) q] obtain a
    where a: "agencyId user = Some a" "pq_agency q = Some (oid_of a)" by blast
  have "pq_agency q' = Some (oid_of a)"
    using a(2) q' by (auto split: option.splits dest: properties_filters_agency)
  moreover have "property_matches q' d"
    using assms(3) ds by (simp add: property_sort_desc_def PropertyModel_find_def)
  ultimately have "p_agency d = oid_of a" by (simp add: property_matches_def)
  with a(1) show ?thesis by blast
qed

lemma campaigns_filters_agency: "cpq_agency (campaigns_filters f q) = cpq_agency q"
  by (simp add: campaigns_filters_def Let_def split: option.splits)

lemma campaigns_scope_agency:
  "role user \<noteq> ADMIN \<Longrightarrow> campaigns_scope user f = Inr q
     \<Longrightarrow> \<exists>a. agencyId user = Some a \<and> cpq_agency q = Some (oid_of a)"
  by (auto simp: campaigns_scope_def Let_def new_ObjectId_def
           split: option.splits if_splits sum.splits)

lemma campaigns_findAll_agency:
  assumes "role user \<noteq> ADMIN" and "campaigns_findAll db user f = Inr ds" and "d \<in> set ds"
  shows "\<exists>a. agencyId user = Some a \<and> cp_agency d = Some (oid_of a)"
proof -
  let ?q = "\<lambda>q. case f of Some g \<Rightarrow> campaigns_filters g q | None \<Rightarrow> q"
  from assms(2) obtain q where q: "campaigns_scope user f = Inr q"
    and ds: "ds = campaign_sort_desc (CampaignModel_find db (?q q))"
    by (auto simp: campaigns_findAll_def Let_def split: sum.splits)
  from campaigns_scope_agency[OF assms(1) q] obtain a
    where a: "agencyId user = Some a" "cpq_agency q = Some (oid_of a)" by blast
  have "cpq_agency (?q q) = Some (oid_of a)"
    using a(2) by (simp add: campaigns_filters_agency split: option.splits)
  moreover have "campaign_matches (?q q) d"
    using assms(3) ds by (simp add: campaign_sort_desc_def CampaignModel_find_def)
  ultimately have "cp_agency d = Some (oid_of a)" by (simp add: campaign_matches_def)
  with a(1) show ?thesis by blast
qed

text \<open>
  Claim C1. For an actor whose role is not \<open>ADMIN\<close>, every document that a listing of
  contacts, properties or campaigns returns has the agency of the actor: the identifier
  built from the actor's \<open>agencyId\<close>. The filters of the caller are arbitrary.
\<close>

theorem listing_tenant_isolation:
  assumes "role user \<noteq> ADMIN"
  shows "(\<forall>ds d. contacts_findAll cdb user cf = Inr ds \<longrightarrow> d \<in> set ds \<longrightarrow>
            (\<exists>a. agencyId user = Some a \<and> c_agency d = Some (oid_of a)))
       \<and> (\<forall>ds d. properties_findAll js pdb user pf = Inr ds \<longrightarrow> d \<in> set ds \<longrightarrow>
            (\<exists>a. agencyId user = Some a \<and> p_agency d = oid_of a))
       \<and> (\<forall>ds d. campaigns_findAll kdb user kf = Inr ds \<longrightarrow> d \<in> set ds \<longrightarrow>
            (\<exists>a. agencyId user = Some a \<and> cp_agency d = Some (oid_of a)))"
  using assms contacts_findAll_agency properties_findAll_agency campaigns_findAll_agency
  by blast

lemma ex_ids_valid:
  "ObjectId_isValid ex_g1" "ObjectId_isValid ex_g2" "ObjectId_isValid ex_u1"
  "ObjectId_isValid ex_u2" "ObjectId_isValid ex_u3" "ObjectId_isValid ex_c1"
  "ObjectId_isValid ex_c2" "ObjectId_isValid ex_c3" "ObjectId_isValid ex_p1"
  "ObjectId_isValid ex_k1"
  by (simp_all add: ObjectId_isValid_def isHexDigit_def ex_g1_def ex_g2_def ex_u1_def
        ex_u2_def ex_u3_def ex_c1_def ex_c2_def ex_c3_def ex_p1_def ex_k1_def)

lemma ex_ids_oid:
  "oid_of ex_g1 = ObjectId ex_g1" "oid_of ex_g2 = ObjectId ex_g2"
  "oid_of ex_u1 = ObjectId ex_u1" "oid_of ex_u2 = ObjectId ex_u2"
  "oid_of ex_u3 = ObjectId ex_u3" "oid_of ex_c1 = ObjectId ex_c1"
  "oid_of ex_c2 = ObjectId ex_c2" "oid_of ex_c3 = ObjectId ex_c3"
  "oid_of ex_p1 = ObjectId ex_p1" "oid_of ex_k1 = ObjectId ex_k1"
  by (simp_all add: oid_of_def hexLower_def ex_g1_def ex_g2_def ex_u1_def
        ex_u2_def ex_u3_def ex_c1_def ex_c2_def ex_c3_def ex_p1_def ex_k1_def)

lemma ex_ids_distinct:
  "ex_g1 \<noteq> ex_g2" "ex_g2 \<noteq> ex_g1" "ex_u1 \<noteq> ex_u2" "ex_u2 \<noteq> ex_u1" "ex_u1 \<noteq> ex_u3"
  "ex_u3 \<noteq> ex_u1" "ex_u2 \<noteq> ex_u3" "ex_u3 \<noteq> ex_u2" "ex_c1 \<noteq> ex_c2" "ex_c2 \<noteq> ex_c1"
  "ex_c1 \<noteq> ex_c3" "ex_c3 \<noteq> ex_c1" "ex_c2 \<noteq> ex_c3" "ex_c3 \<noteq> ex_c2" "ex_p1 \<noteq> ex_p2"
  "ex_p2 \<noteq> ex_p1" "ex_k1 \<noteq> ex_k2" "ex_k2 \<noteq> ex_k1"
  "ex_g1 \<noteq> []" "ex_u1 \<noteq> []" "ex_u2 \<noteq> []" "ex_u3 \<noteq> []"
  by (simp_all add: ex_g1_def ex_g2_def ex_u1_def ex_u2_def ex_u3_def ex_c1_def ex_c2_def
        ex_c3_def ex_p1_def ex_p2_def ex_k1_def ex_k2_def)

lemma ex_manager_contacts:
  "contacts_findAll ex_contacts ex_manager None = Inr [ex_contact2, ex_contact1]"
  by (simp add: contacts_findAll_def contacts_scope_def new_ObjectId_def ex_ids_valid
        ex_ids_oid ex_ids_distinct ex_manager_def ex_contacts_def ex_contact1_def
        ex_contact2_def ex_contact3_def ContactModel_find_def contact_matches_def
        contact_sort_desc_def cq_empty_def Let_def)

lemma ex_manager_properties:
  "properties_findAll ex_js ex_properties ex_manager None = Inr [ex_property1]"
  by (simp add: properties_findAll_def properties_scope_def new_ObjectId_def ex_ids_valid
        ex_ids_oid ex_ids_distinct ex_manager_def ex_properties_def ex_property1_def
        ex_property2_def PropertyModel_find_def property_matches_def
        property_sort_desc_def pq_empty_def Let_def)

lemma ex_manager_campaigns:
  "campaigns_findAll ex_campaigns ex_manager None = Inr [ex_campaign1]"
  by (simp add: campaigns_findAll_def campaigns_scope_def new_ObjectId_def ex_ids_valid
        ex_ids_oid ex_ids_distinct ex_manager_def ex_campaigns_def ex_campaign1_def
        ex_campaign2_def CampaignModel_find_def campaign_matches_def
        campaign_sort_desc_def Let_def)

theorem listing_tenant_isolation_witness:
  "role ex_manager \<noteq> ADMIN
   \<and> contacts_findAll ex_contacts ex_manager None = Inr [ex_contact2, ex_contact1]
   \<and> properties_findAll ex_js ex_properties ex_manager None = Inr [ex_property1]
   \<and> campaigns_findAll ex_campaigns ex_manager None = Inr [ex_campaign1]
   \<and> agencyId ex_manager = Some ex_g1
   \<and> c_agency ex_contact2 = Some (oid_of ex_g1) \<and> c_agency ex_contact1 = Some (oid_of ex_g1)
   \<and> p_agency ex_property1 = oid_of ex_g1
   \<and> cp_agency ex_campaign1 = Some (oid_of ex_g1)"
proof -
  have r: "role ex_manager \<noteq> ADMIN" and a: "agencyId ex_manager = Some ex_g1"
    by (simp_all add: ex_manager_def)
  note iso = listing_tenant_isolation [OF r, of ex_contacts None ex_js ex_properties None
      ex_campaigns None]
  note c = iso [THEN conjunct1, rule_format, OF ex_manager_contacts]
  note p = iso [THEN conjunct2, THEN conjunct1, rule_format, OF ex_manager_properties]
  note k = iso [THEN conjunct2, THEN conjunct2, rule_format, OF ex_manager_campaigns]
  have "c_agency ex_contact2 = Some (oid_of ex_g1)"
    using c [of ex_contact2] by (simp add: a)
  moreover have "c_agency ex_contact1 = Some (oid_of ex_g1)"
    using c [of ex_contact1] by (simp add: a)
  moreover have "p_agency ex_property1 = oid_of ex_g1"
    using p [of ex_property1] by (simp add: a)
  moreover have "cp_agency ex_campaign1 = Some (oid_of ex_g1)"
    using k [of ex_campaign1] by (simp add: a)
  ultimately show ?thesis
    using r a ex_manager_contacts ex_manager_properties ex_manager_campaigns by blast
qed

section \<open>What an agent may list and modify\<close>

lemmas ex_contact_defs = ex_contacts_def ex_contact1_def ex_contact2_def ex_contact3_def

text \<open>
  Claim C4. An agent must never list a contact whose assignee is another user. The code
  fails it: \<^verbatim>\<open>findAll\<close> first restricts the query to the agent's own contacts and then
  lets the caller's \<^verbatim>\<open>assignedTo\<close> filter overwrite that restriction. Without a filter the
  first agent lists the first contact only; with the filter naming the second agent, the
  listing is the second agent's contact.
\<close>

theorem agent_lists_contacts_of_another_agent:
  "role ex_agent1 = AGENT
   \<and> contacts_findAll ex_contacts ex_agent1 None = Inr [ex_contact1]
   \<and> contacts_findAll ex_contacts ex_agent1 (Some ex_filters_u2) = Inr [ex_contact2]
   \<and> c_assignedTo ex_contact2 = Some (oid_of ex_u2)
   \<and> c_assignedTo ex_contact2 \<noteq> Some (oid_of (userId ex_agent1))"
  by (simp add: contacts_findAll_def contacts_scope_def contacts_filters_def
        new_ObjectId_def ex_ids_valid ex_ids_oid ex_ids_distinct ex_agent1_def
        ex_filters_u2_def ex_contact_defs ContactModel_find_def contact_matches_def
        contact_sort_desc_def cq_empty_def Let_def)

lemma map_ObjectId_error: "map_ObjectId ss = Inl e \<Longrightarrow> e = BSONError"
  by (induction ss arbitrary: e)
     (auto simp: new_ObjectId_def split: sum.splits if_splits)

lemma contacts_apply_update_error:
  "contacts_apply_update dto c = Inl e \<Longrightarrow> e = BSONError"
  by (auto simp: contacts_apply_update_def Let_def
      split: option.splits sum.splits dest: map_ObjectId_error)

lemma agent_contacts_update:
  assumes "role user = AGENT" "ObjectId_isValid i" "ContactModel_findById db i = Some c"
    "c_assignedTo c = Some a" "toString a = userId user"
  shows "contacts_update db i dto user \<noteq> Inl Forbidden"
  using assms
  by (auto simp: contacts_update_def contacts_update_rbac_def
      split: sum.splits if_splits dest: contacts_apply_update_error)

lemma agent_contacts_remove:
  "role user = AGENT \<Longrightarrow> ObjectId_isValid i \<Longrightarrow> ContactModel_findById db i = Some c
     \<Longrightarrow> contacts_remove db i user = Inl Forbidden"
  by (simp add: contacts_remove_def contacts_remove_rbac_def)

lemma agent_properties_modify:
  "role user = AGENT \<Longrightarrow> ObjectId_isValid i \<Longrightarrow> PropertyModel_findById db i = Some p
     \<Longrightarrow> properties_update db i dto user = Inl Forbidden
         \<and> properties_remove db i user = Inl Forbidden"
  by (simp add: properties_update_def properties_remove_def properties_modify_rbac_def)

lemma agent_campaigns_modify:
  "role user = AGENT \<Longrightarrow> ObjectId_isValid i \<Longrightarrow> CampaignModel_findById db i = Some k
     \<Longrightarrow> campaigns_update db i dto user = Inl Forbidden
         \<and> campaigns_remove db i user = Inl Forbidden"
  by (simp add: campaigns_update_def campaigns_remove_def campaigns_modify_rbac_def)

text \<open>
  Claim C3, as the code has it. For an agent, the update of an existing contact whose
  \<^verbatim>\<open>assignedTo\<close> is the agent is not refused with \<open>Forbidden\<close>. Every other modification is:
  the removal of a contact, and the update and the removal of a property or a campaign,
  are refused with \<open>Forbidden\<close> for every agent, whoever the document is assigned to or
  was created by.
\<close>

theorem agent_modify_rights:
  assumes "role user = AGENT"
  shows "(ObjectId_isValid i \<longrightarrow> ContactModel_findById cdb i = Some c \<longrightarrow>
            c_assignedTo c = Some a \<longrightarrow> toString a = userId user \<longrightarrow>
            contacts_update cdb i cdto user \<noteq> Inl Forbidden)
       \<and> (ObjectId_isValid i \<longrightarrow> ContactModel_findById cdb i = Some c \<longrightarrow>
            contacts_remove cdb i user = Inl Forbidden)
       \<and> (ObjectId_isValid j \<longrightarrow> PropertyModel_findById pdb j = Some p \<longrightarrow>
            properties_update pdb j pdto user = Inl Forbidden
            \<and> properties_remove pdb j user = Inl Forbidden)
       \<and> (ObjectId_isValid l \<longrightarrow> CampaignModel_findById kdb l = Some k \<longrightarrow>
            campaigns_update kdb l kdto user = Inl Forbidden
            \<and> campaigns_remove kdb l user = Inl Forbidden)"
  using assms agent_contacts_update agent_contacts_remove agent_properties_modify
    agent_campaigns_modify
  by blast

lemma ex_find_contact1: "ContactModel_findById ex_contacts ex_c1 = Some ex_contact1"
  by (simp add: ContactModel_findById_def ex_ids_oid ex_contact_defs)

lemma ex_find_property1: "PropertyModel_findById ex_properties ex_p1 = Some ex_property1"
  by (simp add: PropertyModel_findById_def ex_ids_oid ex_properties_def ex_property1_def)

lemma ex_find_campaign1: "CampaignModel_findById ex_campaigns ex_k1 = Some ex_campaign1"
  by (simp add: CampaignModel_findById_def ex_ids_oid ex_campaigns_def ex_campaign1_def)

text \<open>
  Claim C3 as stated fails: the first agent is the assignee of the first contact and the
  owner of the first property, both active, and may neither remove the one nor update
  the other.
\<close>

theorem agent_cannot_delete_own_contact:
  "role ex_agent1 = AGENT
   \<and> ContactModel_findById ex_contacts ex_c1 = Some ex_contact1
   \<and> c_isActive ex_contact1
   \<and> c_assignedTo ex_contact1 = Some (oid_of (userId ex_agent1))
   \<and> contacts_remove ex_contacts ex_c1 ex_agent1 = Inl Forbidden
   \<and> PropertyModel_findById ex_properties ex_p1 = Some ex_property1
   \<and> p_isActive ex_property1
   \<and> p_owner ex_property1 = oid_of (userId ex_agent1)
   \<and> properties_update ex_properties ex_p1 ex_update_property ex_agent1 = Inl Forbidden"
  by (simp add: ex_find_contact1 ex_find_property1 contacts_remove_def
        contacts_remove_rbac_def properties_update_def properties_modify_rbac_def
        ex_ids_valid ex_ids_oid ex_agent1_def ex_contact1_def ex_property1_def)

theorem agent_modify_rights_witness:
  "role ex_agent1 = AGENT \<and> ObjectId_isValid ex_c1
   \<and> ContactModel_findById ex_contacts ex_c1 = Some ex_contact1
   \<and> c_assignedTo ex_contact1 = Some (ObjectId ex_u1)
   \<and> toString (ObjectId ex_u1) = userId ex_agent1
   \<and> contacts_update ex_contacts ex_c1 ex_update_contact ex_agent1 \<noteq> Inl Forbidden
   \<and> contacts_remove ex_contacts ex_c1 ex_agent1 = Inl Forbidden
   \<and> ObjectId_isValid ex_p1
   \<and> PropertyModel_findById ex_properties ex_p1 = Some ex_property1
   \<and> properties_update ex_properties ex_p1 ex_update_property ex_agent1 = Inl Forbidden
   \<and> properties_remove ex_properties ex_p1 ex_agent1 = Inl Forbidden
   \<and> ObjectId_isValid ex_k1
   \<and> CampaignModel_findById ex_campaigns ex_k1 = Some ex_campaign1
   \<and> campaigns_update ex_campaigns ex_k1 ex_update_campaign ex_agent1 = Inl Forbidden
   \<and> campaigns_remove ex_campaigns ex_k1 ex_agent1 = Inl Forbidden"
proof -
  have r: "role ex_agent1 = AGENT" by (simp add: ex_agent1_def)
  have a: "c_assignedTo ex_contact1 = Some (ObjectId ex_u1)" by (simp add: ex_contact1_def)
  have t: "toString (ObjectId ex_u1) = userId ex_agent1" by (simp add: ex_agent1_def)
  note m = agent_modify_rights [OF r, of ex_c1 ex_contacts ex_contact1 "ObjectId ex_u1"
      ex_update_contact ex_p1 ex_properties ex_property1 ex_update_property ex_k1
      ex_campaigns ex_campaign1 ex_update_campaign]
  show ?thesis
    using m r a t ex_ids_valid(6,9,10) ex_find_contact1 ex_find_property1 ex_find_campaign1
    by blast
qed
section \<open>Campaign execution\<close>

lemma send_loop_step:
  "\<exists>s1 f1 b1. send_loop js send k (c # cs) (s, f, b, tr)
                   = send_loop js send k cs (s1, f1, b1, tr @ contact_events js k c)
                 \<and> s1 + f1 = Suc (s + f)"
proof (cases "replaceVariables js (m_template (cp_message k))
                (case m_variables (cp_message k) of Some vs \<Rightarrow> vs | None \<Rightarrow> []) c")
  case (Inl e)
  then show ?thesis
    by (intro exI [of _ s] exI [of _ "Suc f"] exI [of _ b])
       (simp add: Let_def contact_events_def)
next
  case (Inr message)
  obtain ok b' where sd: "send b (cp_evolutionInstanceId k) (c_phone c) message = (ok, b')"
    by (cases "send b (cp_evolutionInstanceId k) (c_phone c) message")
  show ?thesis
  proof (cases ok)
    case True
    with Inr sd show ?thesis
      by (intro exI [of _ "Suc s"] exI [of _ f] exI [of _ b'])
         (simp add: Let_def contact_events_def)
  next
    case False
    with Inr sd show ?thesis
      by (intro exI [of _ s] exI [of _ "Suc f"] exI [of _ b'])
         (simp add: Let_def contact_events_def)
  qed
qed

lemma send_loop_count:
  "send_loop js send k cs (s, f, b, tr) = (s', f', b', tr') \<Longrightarrow> s' + f' = s + f + length cs"
proof (induction cs arbitrary: s f b tr)
  case Nil
  then show ?case by simp
next
  case (Cons c cs)
  from send_loop_step [of js send k c cs s f b tr] obtain s1 f1 b1
    where st: "send_loop js send k (c # cs) (s, f, b, tr)
                 = send_loop js send k cs (s1, f1, b1, tr @ contact_events js k c)"
      and n: "s1 + f1 = Suc (s + f)" by blast
  from Cons.prems st have "send_loop js send k cs (s1, f1, b1, tr @ contact_events js k c)
      = (s', f', b', tr')" by simp
  from Cons.IH [OF this] n show ?case by simp
qed

lemma send_loop_trace:
  "send_loop js send k cs (s, f, b, tr) = (s', f', b', tr')
     \<Longrightarrow> tr' = tr @ concat (map (contact_events js k) cs)"
proof (induction cs arbitrary: s f b tr)
  case Nil
  then show ?case by simp
next
  case (Cons c cs)
  from send_loop_step [of js send k c cs s f b tr] obtain s1 f1 b1
    where st: "send_loop js send k (c # cs) (s, f, b, tr)
                 = send_loop js send k cs (s1, f1, b1, tr @ contact_events js k c)" by blast
  from Cons.prems st have "send_loop js send k cs (s1, f1, b1, tr @ contact_events js k c)
      = (s', f', b', tr')" by simp
  from Cons.IH [OF this] show ?case by simp
qed

lemma send_loop_outcomes_step:
  "\<exists>s1 f1 b1 ok.
     send_loop js send k (c # cs) (s, f, b, tr)
       = send_loop js send k cs (s1, f1, b1, tr @ contact_events js k c)
     \<and> outcomes js send k b (c # cs) = ok # outcomes js send k b1 cs
     \<and> s1 = (if ok then Suc s else s) \<and> f1 = (if ok then f else Suc f)"
proof (cases "replaceVariables js (m_template (cp_message k))
                (case m_variables (cp_message k) of Some vs \<Rightarrow> vs | None \<Rightarrow> []) c")
  case (Inl e)
  then show ?thesis
    by (intro exI [of _ s] exI [of _ "Suc f"] exI [of _ b] exI [of _ False])
       (simp add: Let_def contact_events_def)
next
  case (Inr message)
  obtain ok b' where sd: "send b (cp_evolutionInstanceId k) (c_phone c) message = (ok, b')"
    by (cases "send b (cp_evolutionInstanceId k) (c_phone c) message")
  show ?thesis
  proof (cases ok)
    case True
    with Inr sd show ?thesis
      by (intro exI [of _ "Suc s"] exI [of _ f] exI [of _ b'] exI [of _ True])
         (simp add: Let_def contact_events_def)
  next
    case False
    with Inr sd show ?thesis
      by (intro exI [of _ s] exI [of _ "Suc f"] exI [of _ b'] exI [of _ False])
         (simp add: Let_def contact_events_def)
  qed
qed

lemma send_loop_outcomes:
  "send_loop js send k cs (s, f, b, tr) = (s', f', b', tr')
     \<Longrightarrow> s' = s + count_list (outcomes js send k b cs) True
         \<and> f' = f + count_list (outcomes js send k b cs) False"
proof (induction cs arbitrary: s f b tr)
  case Nil
  then show ?case by simp
next
  case (Cons c cs)
  from send_loop_outcomes_step [of js send k c cs s f b tr] obtain s1 f1 b1 ok
    where st: "send_loop js send k (c # cs) (s, f, b, tr)
                 = send_loop js send k cs (s1, f1, b1, tr @ contact_events js k c)"
      and o: "outcomes js send k b (c # cs) = ok # outcomes js send k b1 cs"
      and n: "s1 = (if ok then Suc s else s)" "f1 = (if ok then f else Suc f)"
    by blast
  from Cons.prems st have "send_loop js send k cs (s1, f1, b1, tr @ contact_events js k c)
      = (s', f', b', tr')"
    by simp
  from Cons.IH [OF this] n show ?case
    by (simp only: o) simp
qed

lemma outcomes_cong:
  "cp_message k' = cp_message k \<Longrightarrow> cp_evolutionInstanceId k' = cp_evolutionInstanceId k
     \<Longrightarrow> outcomes js send k' b cs = outcomes js send k b cs"
  by (induction cs arbitrary: b) (simp_all split: sum.splits prod.splits)

lemma outcomes_length: "length (outcomes js send k b cs) = length cs"
  by (induction cs arbitrary: b) (simp_all split: sum.splits prod.splits)

lemma outcomes_none_sent:
  "\<forall>b inst n t. \<not> fst (send b inst n t)
     \<Longrightarrow> count_list (outcomes js send k b cs) True = 0"
proof (induction cs arbitrary: b)
  case Nil
  show ?case by simp
next
  case (Cons c cs)
  show ?case
  proof (cases "replaceVariables js (m_template (cp_message k))
                  (case m_variables (cp_message k) of Some vs \<Rightarrow> vs | None \<Rightarrow> []) c")
    case (Inl e)
    then show ?thesis using Cons by simp
  next
    case (Inr message)
    obtain ok b' where sd: "send b (cp_evolutionInstanceId k) (c_phone c) message = (ok, b')"
      by (cases "send b (cp_evolutionInstanceId k) (c_phone c) message")
    have "\<not> fst (send b (cp_evolutionInstanceId k) (c_phone c) message)"
      using Cons.prems by blast
    then have "\<not> ok" using sd by simp
    then show ?thesis using Inr sd Cons by simp
  qed
qed

lemma outcomes_none_failed:
  "\<forall>b inst n t. fst (send b inst n t)
     \<Longrightarrow> \<forall>c \<in> set cs. \<exists>m. replaceVariables js (m_template (cp_message k))
            (case m_variables (cp_message k) of Some vs \<Rightarrow> vs | None \<Rightarrow> []) c = Inr m
     \<Longrightarrow> count_list (outcomes js send k b cs) False = 0"
proof (induction cs arbitrary: b)
  case Nil
  show ?case by simp
next
  case (Cons c cs)
  obtain message where m: "replaceVariables js (m_template (cp_message k))
      (case m_variables (cp_message k) of Some vs \<Rightarrow> vs | None \<Rightarrow> []) c = Inr message"
    using Cons.prems(2) by auto
  obtain ok b' where sd: "send b (cp_evolutionInstanceId k) (c_phone c) message = (ok, b')"
    by (cases "send b (cp_evolutionInstanceId k) (c_phone c) message")
  have "fst (send b (cp_evolutionInstanceId k) (c_phone c) message)"
    using Cons.prems(1) by blast
  then have "ok" using sd by simp
  moreover have "count_list (outcomes js send k b' cs) False = 0"
    using Cons.IH [OF Cons.prems(1)] Cons.prems(2) by simp
  ultimately show ?case using m sd by simp
qed

lemma campaign_find_save:
  "CampaignModel_findById db i = Some c \<Longrightarrow> cp_id x = cp_id c
     \<Longrightarrow> CampaignModel_findById (campaign_save db x) i = Some x"
  unfolding CampaignModel_findById_def campaign_save_def
  by (induction db) (auto split: if_splits)

lemma campaign_find_id:
  "CampaignModel_findById db i = Some c \<Longrightarrow> cp_id c = oid_of i"
  unfolding CampaignModel_findById_def by (auto simp: find_Some_iff)

lemma getAudienceContacts_cong:
  "cp_audience k' = cp_audience k \<Longrightarrow> cp_agency k' = cp_agency k
     \<Longrightarrow> getAudienceContacts db k' = getAudienceContacts db k"
  by (simp add: getAudienceContacts_def Let_def)

lemma contact_events_cong:
  "cp_rateLimitMs k' = cp_rateLimitMs k \<Longrightarrow> cp_message k' = cp_message k
     \<Longrightarrow> cp_evolutionInstanceId k' = cp_evolutionInstanceId k
     \<Longrightarrow> contact_events js k' = contact_events js k"
  by (rule ext) (simp add: contact_events_def split: sum.splits)

text \<open>The guards of \<^verbatim>\<open>execute\<close> that precede the resolution of the audience.\<close>

lemma execute_empty:
  assumes "ObjectId_isValid i" "CampaignModel_findById campaigns i = Some k"
    "role user = ADMIN \<or> (\<exists>a. cp_agency k = Some a \<and> Some (toString a) = agencyId user)"
    "cp_status k \<noteq> RUNNING" "cp_status k \<noteq> COMPLETED"
    "getAudienceContacts contacts k = []"
  shows "execute js send now campaigns contacts b i user =
           \<lparr> out_result = Inl BadRequest,
             out_campaigns = campaign_save (campaign_save campaigns
                 (k\<lparr>cp_status := RUNNING, cp_lastExecutionDate := Some now\<rparr>))
                 (k\<lparr>cp_status := RUNNING, cp_lastExecutionDate := Some now\<rparr>
                   \<lparr>cp_status := COMPLETED\<rparr>),
             out_bridge = b, out_trace = [] \<rparr>"
proof -
  have "getAudienceContacts contacts (k\<lparr>cp_status := RUNNING, cp_lastExecutionDate := Some now\<rparr>) = []"
    using assms(6) getAudienceContacts_cong
      [of "k\<lparr>cp_status := RUNNING, cp_lastExecutionDate := Some now\<rparr>" k contacts]
    by simp
  then show ?thesis
    using assms(1-5) by (auto simp: execute_def Let_def)
qed

lemma execute_nonempty:
  assumes "ObjectId_isValid i" "CampaignModel_findById campaigns i = Some k"
    "role user = ADMIN \<or> (\<exists>a. cp_agency k = Some a \<and> Some (toString a) = agencyId user)"
    "cp_status k \<noteq> RUNNING" "cp_status k \<noteq> COMPLETED"
    "getAudienceContacts contacts k \<noteq> []"
    "send_loop js send (k\<lparr>cp_status := RUNNING, cp_lastExecutionDate := Some now\<rparr>)
       (getAudienceContacts contacts k) (0, 0, b, []) = (sent, failed, b', tr)"
  shows "execute js send now campaigns contacts b i user =
           \<lparr> out_result = Inr (sent, failed),
             out_campaigns = campaign_save (campaign_save campaigns
                 (k\<lparr>cp_status := RUNNING, cp_lastExecutionDate := Some now\<rparr>))
                 (k\<lparr>cp_status := RUNNING, cp_lastExecutionDate := Some now\<rparr>
                   \<lparr>cp_statistics := (cp_statistics k)\<lparr>st_sent := sent, st_failed := failed\<rparr>,
                    cp_status := COMPLETED\<rparr>),
             out_bridge = b', out_trace = tr \<rparr>"
proof -
  have "getAudienceContacts contacts (k\<lparr>cp_status := RUNNING, cp_lastExecutionDate := Some now\<rparr>)
          = getAudienceContacts contacts k"
    by (rule getAudienceContacts_cong) simp_all
  then show ?thesis
    using assms by (auto simp: execute_def Let_def)
qed

text \<open>
  Claim C6. A campaign that passes the guards of \<^verbatim>\<open>execute\<close> (a valid identifier of a stored
  campaign, an actor who is an administrator or of the campaign's agency) and is neither
  running nor completed: when the audience is empty the call raises \<open>BadRequest\<close> and the
  stored campaign is completed; when the audience has \<open>n > 0\<close> contacts the call returns,
  the stored campaign is completed and its statistics are the counters of the loop, with
  \<open>sent + failed = n\<close>. The counters are those of \<open>outcomes\<close>: \<open>sent\<close> counts the contacts
  whose template rendered and whose call of the bridge returned, \<open>failed\<close> counts the
  others, each contact once. So when no call of the bridge returns, \<open>sent = 0\<close> and
  \<open>failed = n\<close>; when every template renders and every call returns, \<open>sent = n\<close> and
  \<open>failed = 0\<close>. Every contact whose template renders is handed to the bridge, so no
  failure ends the iteration.
\<close>

theorem execute_outcome:
  assumes "ObjectId_isValid i"
    and "CampaignModel_findById campaigns i = Some k"
    and "role user = ADMIN \<or> (\<exists>a. cp_agency k = Some a \<and> Some (toString a) = agencyId user)"
    and "cp_status k \<noteq> RUNNING" and "cp_status k \<noteq> COMPLETED"
    and "r = execute js send now campaigns contacts b i user"
  shows "(getAudienceContacts contacts k = [] \<longrightarrow>
            out_result r = Inl BadRequest
            \<and> (\<exists>k'. CampaignModel_findById (out_campaigns r) i = Some k'
                     \<and> cp_status k' = COMPLETED))
       \<and> (getAudienceContacts contacts k \<noteq> [] \<longrightarrow>
            (\<exists>sent failed k'.
                out_result r = Inr (sent, failed)
                \<and> sent + failed = length (getAudienceContacts contacts k)
                \<and> CampaignModel_findById (out_campaigns r) i = Some k'
                \<and> cp_status k' = COMPLETED
                \<and> st_sent (cp_statistics k') = sent \<and> st_failed (cp_statistics k') = failed
                \<and> (\<forall>c \<in> set (getAudienceContacts contacts k). \<forall>m.
                      replaceVariables js (m_template (cp_message k))
                        (case m_variables (cp_message k) of Some vs \<Rightarrow> vs | None \<Rightarrow> []) c
                        = Inr m
                      \<longrightarrow> SendText (cp_evolutionInstanceId k) (c_phone c) m
                            \<in> set (out_trace r))
                \<and> sent = count_list
                            (outcomes js send k b (getAudienceContacts contacts k)) True
                \<and> failed = count_list
                            (outcomes js send k b (getAudienceContacts contacts k)) False
                \<and> ((\<forall>b' inst n t. \<not> fst (send b' inst n t)) \<longrightarrow>
                      sent = 0 \<and> failed = length (getAudienceContacts contacts k))
                \<and> ((\<forall>b' inst n t. fst (send b' inst n t))
                    \<and> (\<forall>c \<in> set (getAudienceContacts contacts k). \<exists>m.
                          replaceVariables js (m_template (cp_message k))
                            (case m_variables (cp_message k) of Some vs \<Rightarrow> vs | None \<Rightarrow> [])
                            c = Inr m) \<longrightarrow>
                      sent = length (getAudienceContacts contacts k) \<and> failed = 0)))"
proof (intro conjI impI)
  let ?k1 = "k\<lparr>cp_status := RUNNING, cp_lastExecutionDate := Some now\<rparr>"
  have f1: "CampaignModel_findById (campaign_save campaigns ?k1) i = Some ?k1"
    using assms(2) by (simp add: campaign_find_save)
  {
    assume "getAudienceContacts contacts k = []"
    note e = execute_empty [OF assms(1-5) this, of js send now b]
    show "out_result r = Inl BadRequest" using e assms(6) by simp
    have "CampaignModel_findById (out_campaigns r) i = Some (?k1\<lparr>cp_status := COMPLETED\<rparr>)"
      using e assms(6) f1 by (simp add: campaign_find_save)
    then show "\<exists>k'. CampaignModel_findById (out_campaigns r) i = Some k'
                   \<and> cp_status k' = COMPLETED" by simp
  }
  {
    assume ne: "getAudienceContacts contacts k \<noteq> []"
    obtain sent failed b' tr
      where sl: "send_loop js send ?k1 (getAudienceContacts contacts k) (0, 0, b, [])
                   = (sent, failed, b', tr)"
      by (metis prod_cases4)
    let ?k2 = "?k1\<lparr>cp_statistics := (cp_statistics k)\<lparr>st_sent := sent, st_failed := failed\<rparr>,
                    cp_status := COMPLETED\<rparr>"
    note e = execute_nonempty [OF assms(1-5) ne sl]
    have res: "out_result r = Inr (sent, failed)" using e assms(6) by simp
    have cnt: "sent + failed = length (getAudienceContacts contacts k)"
      using send_loop_count [OF sl] by simp
    have fnd: "CampaignModel_findById (out_campaigns r) i = Some ?k2"
      using e assms(6) f1 by (simp add: campaign_find_save)
    have tr: "out_trace r = concat (map (contact_events js k) (getAudienceContacts contacts k))"
      using send_loop_trace [OF sl] e assms(6)
        contact_events_cong [of ?k1 k js] by simp
    have snd: "\<forall>c \<in> set (getAudienceContacts contacts k). \<forall>m.
                 replaceVariables js (m_template (cp_message k))
                   (case m_variables (cp_message k) of Some vs \<Rightarrow> vs | None \<Rightarrow> []) c = Inr m
                 \<longrightarrow> SendText (cp_evolutionInstanceId k) (c_phone c) m \<in> set (out_trace r)"
    proof (intro ballI allI impI)
      fix c m
      assume c: "c \<in> set (getAudienceContacts contacts k)"
        and m: "replaceVariables js (m_template (cp_message k))
                  (case m_variables (cp_message k) of Some vs \<Rightarrow> vs | None \<Rightarrow> []) c = Inr m"
      have "SendText (cp_evolutionInstanceId k) (c_phone c) m \<in> set (contact_events js k c)"
        using m by (simp add: contact_events_def)
      with c show "SendText (cp_evolutionInstanceId k) (c_phone c) m \<in> set (out_trace r)"
        unfolding tr by auto
    qed
    have oc: "outcomes js send ?k1 b (getAudienceContacts contacts k)
                = outcomes js send k b (getAudienceContacts contacts k)"
      by (rule outcomes_cong) simp_all
    have cs: "sent = count_list (outcomes js send k b (getAudienceContacts contacts k)) True"
      and cf: "failed = count_list (outcomes js send k b (getAudienceContacts contacts k)) False"
      using send_loop_outcomes [OF sl] by (simp_all add: oc)
    have nos: "(\<forall>b' inst n t. \<not> fst (send b' inst n t)) \<longrightarrow>
                 sent = 0 \<and> failed = length (getAudienceContacts contacts k)"
    proof
      assume a: "\<forall>b' inst n t. \<not> fst (send b' inst n t)"
      have "count_list (outcomes js send k b (getAudienceContacts contacts k)) True = 0"
        by (rule outcomes_none_sent [OF a])
      then have "sent = 0"
        by (simp only: cs)
      then show "sent = 0 \<and> failed = length (getAudienceContacts contacts k)"
        using cnt by simp
    qed
    have nof: "(\<forall>b' inst n t. fst (send b' inst n t))
                \<and> (\<forall>c \<in> set (getAudienceContacts contacts k). \<exists>m.
                      replaceVariables js (m_template (cp_message k))
                        (case m_variables (cp_message k) of Some vs \<Rightarrow> vs | None \<Rightarrow> [])
                        c = Inr m) \<longrightarrow>
                 sent = length (getAudienceContacts contacts k) \<and> failed = 0"
    proof
      assume a: "(\<forall>b' inst n t. fst (send b' inst n t))
                \<and> (\<forall>c \<in> set (getAudienceContacts contacts k). \<exists>m.
                      replaceVariables js (m_template (cp_message k))
                        (case m_variables (cp_message k) of Some vs \<Rightarrow> vs | None \<Rightarrow> [])
                        c = Inr m)"
      have "count_list (outcomes js send k b (getAudienceContacts contacts k)) False = 0"
        by (rule outcomes_none_failed [OF a [THEN conjunct1] a [THEN conjunct2]])
      then have "failed = 0"
        by (simp only: cf)
      then show "sent = length (getAudienceContacts contacts k) \<and> failed = 0"
        using cnt by simp
    qed
    have "out_result r = Inr (sent, failed)
            \<and> sent + failed = length (getAudienceContacts contacts k)
            \<and> CampaignModel_findById (out_campaigns r) i = Some ?k2
            \<and> cp_status ?k2 = COMPLETED
            \<and> st_sent (cp_statistics ?k2) = sent \<and> st_failed (cp_statistics ?k2) = failed
            \<and> (\<forall>c \<in> set (getAudienceContacts contacts k). \<forall>m.
                  replaceVariables js (m_template (cp_message k))
                    (case m_variables (cp_message k) of Some vs \<Rightarrow> vs | None \<Rightarrow> []) c
                    = Inr m
                  \<longrightarrow> SendText (cp_evolutionInstanceId k) (c_phone c) m
                        \<in> set (out_trace r))
            \<and> sent = count_list (outcomes js send k b (getAudienceContacts contacts k)) True
            \<and> failed = count_list (outcomes js send k b (getAudienceContacts contacts k)) False
            \<and> ((\<forall>b' inst n t. \<not> fst (send b' inst n t)) \<longrightarrow>
                  sent = 0 \<and> failed = length (getAudienceContacts contacts k))
            \<and> ((\<forall>b' inst n t. fst (send b' inst n t))
                \<and> (\<forall>c \<in> set (getAudienceContacts contacts k). \<exists>m.
                      replaceVariables js (m_template (cp_message k))
                        (case m_variables (cp_message k) of Some vs \<Rightarrow> vs | None \<Rightarrow> [])
                        c = Inr m) \<longrightarrow>
                  sent = length (getAudienceContacts contacts k) \<and> failed = 0)"
      using res cnt fnd snd cs cf nos nof by (intro conjI) simp_all
    then show "\<exists>sent failed k'.
            out_result r = Inr (sent, failed)
            \<and> sent + failed = length (getAudienceContacts contacts k)
            \<and> CampaignModel_findById (out_campaigns r) i = Some k'
            \<and> cp_status k' = COMPLETED
            \<and> st_sent (cp_statistics k') = sent \<and> st_failed (cp_statistics k') = failed
            \<and> (\<forall>c \<in> set (getAudienceContacts contacts k). \<forall>m.
                  replaceVariables js (m_template (cp_message k))
                    (case m_variables (cp_message k) of Some vs \<Rightarrow> vs | None \<Rightarrow> []) c
                    = Inr m
                  \<longrightarrow> SendText (cp_evolutionInstanceId k) (c_phone c) m
                        \<in> set (out_trace r))
            \<and> sent = count_list (outcomes js send k b (getAudienceContacts contacts k)) True
            \<and> failed = count_list (outcomes js send k b (getAudienceContacts contacts k)) False
            \<and> ((\<forall>b' inst n t. \<not> fst (send b' inst n t)) \<longrightarrow>
                  sent = 0 \<and> failed = length (getAudienceContacts contacts k))
            \<and> ((\<forall>b' inst n t. fst (send b' inst n t))
                \<and> (\<forall>c \<in> set (getAudienceContacts contacts k). \<exists>m.
                      replaceVariables js (m_template (cp_message k))
                        (case m_variables (cp_message k) of Some vs \<Rightarrow> vs | None \<Rightarrow> [])
                        c = Inr m) \<longrightarrow>
                  sent = length (getAudienceContacts contacts k) \<and> failed = 0)"
      by (intro exI [of _ sent] exI [of _ failed] exI [of _ ?k2])
  }
qed

lemma ex_render:
  "replaceVariables ex_js ''Oi {{contact.name}}'' [] ex_contact1 = Inr ''Oi Ana''"
  "replaceVariables ex_js ''Oi {{contact.name}}'' [] ex_contact2 = Inr ''Oi Bruno''"
  "replaceVariables ex_js ''Oi {{contact.name}}'' [] ex_contact3 = Inr ''Oi Cliente''"
  by (simp_all add: replaceVariables_def ex_contact_defs Let_def)

lemma ex_audience_all:
  "getAudienceContacts ex_contacts ex_campaign_all = [ex_contact1, ex_contact2, ex_contact3]"
  by (simp add: getAudienceContacts_def ex_campaign_all_def ex_campaign1_def ex_specific_def
        ContactModel_find_def contact_matches_def cq_empty_def ex_contact_defs Let_def)

lemma ex_audience_empty: "getAudienceContacts ex_contacts ex_campaign_empty = []"
  by (simp add: getAudienceContacts_def ex_campaign_empty_def ex_campaign1_def
        audience_filters_def ContactModel_find_def contact_matches_def cq_empty_def
        ex_contact_defs Let_def)

lemma ex_audience_rate: "getAudienceContacts ex_contacts ex_campaign_rate = [ex_contact1]"
  by (simp add: getAudienceContacts_def ex_campaign_rate_def ex_campaign1_def ex_specific_def
        ContactModel_find_def contact_matches_def cq_empty_def ex_contact_defs Let_def
        ex_ids_distinct)

lemma ex_guards:
  "CampaignModel_findById [ex_campaign_all] ex_k1 = Some ex_campaign_all"
  "CampaignModel_findById [ex_campaign_empty] ex_k1 = Some ex_campaign_empty"
  "CampaignModel_findById [ex_campaign_rate] ex_k1 = Some ex_campaign_rate"
  "cp_agency ex_campaign_all = Some (ObjectId ex_g1)"
  "cp_agency ex_campaign_empty = Some (ObjectId ex_g1)"
  "cp_agency ex_campaign_rate = Some (ObjectId ex_g1)"
  "cp_status ex_campaign_all = DRAFT" "cp_status ex_campaign_empty = DRAFT"
  "cp_status ex_campaign_rate = DRAFT"
  "Some (toString (ObjectId ex_g1)) = agencyId ex_manager"
  by (simp_all add: CampaignModel_findById_def ex_campaign_all_def ex_campaign_empty_def
        ex_campaign_rate_def ex_campaign1_def ex_ids_oid ex_manager_def)

lemma ex_auth:
  "role ex_manager = ADMIN
   \<or> (\<exists>a. cp_agency ex_campaign_all = Some a \<and> Some (toString a) = agencyId ex_manager)"
  "role ex_manager = ADMIN
   \<or> (\<exists>a. cp_agency ex_campaign_empty = Some a \<and> Some (toString a) = agencyId ex_manager)"
  "role ex_manager = ADMIN
   \<or> (\<exists>a. cp_agency ex_campaign_rate = Some a \<and> Some (toString a) = agencyId ex_manager)"
  using ex_guards(4-6,10) by simp_all

lemma ex_loop_all:
  "send_loop ex_js ex_send
     (ex_campaign_all\<lparr>cp_status := RUNNING, cp_lastExecutionDate := Some 7\<rparr>)
     [ex_contact1, ex_contact2, ex_contact3] (0, 0, 0, [])
   = (2, 1, 3, [SendText ''inst'' (Some ''5511'') ''Oi Ana'',
                SendText ''inst'' (Some ''5522'') ''Oi Bruno'',
                SendText ''inst'' (Some ''5533'') ''Oi Cliente''])"
  by (simp add: ex_campaign_all_def ex_campaign1_def ex_render ex_send_def Let_def)
     (simp add: ex_contact_defs)

lemma ex_execute_all:
  "out_result (execute ex_js ex_send 7 [ex_campaign_all] ex_contacts 0 ex_k1 ex_manager)
     = Inr (2, 1)"
  "out_trace (execute ex_js ex_send 7 [ex_campaign_all] ex_contacts 0 ex_k1 ex_manager)
     = [SendText ''inst'' (Some ''5511'') ''Oi Ana'',
        SendText ''inst'' (Some ''5522'') ''Oi Bruno'',
        SendText ''inst'' (Some ''5533'') ''Oi Cliente'']"
  using execute_nonempty [where js = ex_js and send = ex_send and now = 7
      and contacts = ex_contacts and b = "0::nat" and sent = 2 and failed = 1 and b' = 3,
      OF ex_ids_valid(10) ex_guards(1) ex_auth(1)] ex_loop_all
  by (simp_all add: ex_audience_all ex_guards)

theorem execute_outcome_witness:
  "ObjectId_isValid ex_k1
   \<and> CampaignModel_findById [ex_campaign_all] ex_k1 = Some ex_campaign_all
   \<and> cp_agency ex_campaign_all = Some (ObjectId ex_g1)
   \<and> Some (toString (ObjectId ex_g1)) = agencyId ex_manager
   \<and> cp_status ex_campaign_all = DRAFT
   \<and> length (getAudienceContacts ex_contacts ex_campaign_all) = 3
   \<and> out_result (execute ex_js ex_send 7 [ex_campaign_all] ex_contacts 0 ex_k1 ex_manager)
       = Inr (2, 1)
   \<and> outcomes ex_js ex_send ex_campaign_all 0 (getAudienceContacts ex_contacts ex_campaign_all)
       = [True, False, True]
   \<and> (\<exists>k'. CampaignModel_findById
               (out_campaigns
                  (execute ex_js ex_send 7 [ex_campaign_all] ex_contacts 0 ex_k1 ex_manager))
               ex_k1 = Some k'
            \<and> cp_status k' = COMPLETED
            \<and> st_sent (cp_statistics k') = 2 \<and> st_failed (cp_statistics k') = 1)
   \<and> getAudienceContacts ex_contacts ex_campaign_empty = []
   \<and> out_result (execute ex_js ex_send 7 [ex_campaign_empty] ex_contacts 0 ex_k1 ex_manager)
       = Inl BadRequest
   \<and> (\<exists>k'. CampaignModel_findById
               (out_campaigns
                  (execute ex_js ex_send 7 [ex_campaign_empty] ex_contacts 0 ex_k1 ex_manager))
               ex_k1 = Some k'
            \<and> cp_status k' = COMPLETED)
   \<and> out_result (execute ex_js (\<lambda>(b::nat) inst n t. (False, b)) 7 [ex_campaign_all]
                    ex_contacts 0 ex_k1 ex_manager)
       = Inr (0, 3)"
proof -
  have down: "out_result (execute ex_js (\<lambda>(b::nat) inst n t. (False, b)) 7 [ex_campaign_all]
                            ex_contacts 0 ex_k1 ex_manager)
                = Inr (0, 3)"
  proof -
    have ne: "getAudienceContacts ex_contacts ex_campaign_all \<noteq> []"
      by (simp add: ex_audience_all)
    have st: "cp_status ex_campaign_all \<noteq> RUNNING" "cp_status ex_campaign_all \<noteq> COMPLETED"
      by (simp_all add: ex_guards)
    from execute_outcome [where js = ex_js and send = "\<lambda>(b::nat) inst n t. (False, b)"
        and now = 7 and contacts = ex_contacts and b = "0::nat",
        OF ex_ids_valid(10) ex_guards(1) ex_auth(1) st refl, THEN conjunct2, rule_format,
        OF ne]
    show ?thesis
      by (elim exE conjE) (simp add: ex_audience_all numeral_3_eq_3)
  qed
  note a = execute_outcome [where js = ex_js and send = ex_send and now = 7
      and contacts = ex_contacts and b = "0::nat",
      OF ex_ids_valid(10) ex_guards(1) ex_auth(1) _ _ refl]
  note e = execute_outcome [where js = ex_js and send = ex_send and now = 7
      and contacts = ex_contacts and b = "0::nat",
      OF ex_ids_valid(10) ex_guards(2) ex_auth(2) _ _ refl]
  have "\<exists>k'. CampaignModel_findById
               (out_campaigns
                  (execute ex_js ex_send 7 [ex_campaign_all] ex_contacts 0 ex_k1 ex_manager))
               ex_k1 = Some k'
            \<and> cp_status k' = COMPLETED
            \<and> st_sent (cp_statistics k') = 2 \<and> st_failed (cp_statistics k') = 1"
    using a ex_execute_all(1) by (auto simp: ex_audience_all ex_guards)
  moreover have "out_result
      (execute ex_js ex_send 7 [ex_campaign_empty] ex_contacts 0 ex_k1 ex_manager)
       = Inl BadRequest
     \<and> (\<exists>k'. CampaignModel_findById
               (out_campaigns
                  (execute ex_js ex_send 7 [ex_campaign_empty] ex_contacts 0 ex_k1 ex_manager))
               ex_k1 = Some k'
            \<and> cp_status k' = COMPLETED)"
    using e by (simp add: ex_audience_empty ex_guards)
  moreover have "outcomes ex_js ex_send ex_campaign_all 0
                   (getAudienceContacts ex_contacts ex_campaign_all) = [True, False, True]"
    unfolding ex_audience_all
    by (simp add: ex_campaign_all_def ex_campaign1_def ex_render ex_send_def)
       (simp add: ex_contact_defs)
  ultimately show ?thesis
    using ex_ids_valid(10) ex_guards ex_execute_all(1) ex_audience_empty down
    by (simp add: ex_audience_all)
qed

text \<open>
  Claim C8 as stated fails: with a rate limit of 1000 ms and an audience of one contact,
  the first event of the execution is the suspension, before the first send.
\<close>

theorem delay_before_first_send:
  "cp_rateLimitMs ex_campaign_rate = 1000
   \<and> getAudienceContacts ex_contacts ex_campaign_rate = [ex_contact1]
   \<and> out_trace (execute ex_js ex_send 7 [ex_campaign_rate] ex_contacts 0 ex_k1 ex_manager)
       = [Delay 1000, SendText ''inst'' (Some ''5511'') ''Oi Ana'']"
proof -
  have "send_loop ex_js ex_send
          (ex_campaign_rate\<lparr>cp_status := RUNNING, cp_lastExecutionDate := Some 7\<rparr>)
          [ex_contact1] (0, 0, 0, [])
        = (1, 0, 1, [Delay 1000, SendText ''inst'' (Some ''5511'') ''Oi Ana''])"
    by (simp add: ex_campaign_rate_def ex_campaign1_def ex_render ex_send_def Let_def)
       (simp add: ex_contact_defs)
  with execute_nonempty [where js = ex_js and send = ex_send and now = 7
      and contacts = ex_contacts and b = "0::nat" and sent = 1 and failed = 0 and b' = 1,
      OF ex_ids_valid(10) ex_guards(3) ex_auth(3)]
  show ?thesis
    by (simp add: ex_audience_rate ex_guards) (simp add: ex_campaign_rate_def)
qed

text \<open>
  Claim C8, as the code has it. In an execution that passes the guards, with a positive
  rate limit and an audience that is not empty, every iteration starts with the
  suspension: the trace is, contact after contact, the delay followed by the send of the
  rendered message (no send when the template does not render). The delay precedes every
  send, the first one included.
\<close>

theorem rate_limit_before_every_send:
  assumes "ObjectId_isValid i"
    and "CampaignModel_findById campaigns i = Some k"
    and "role user = ADMIN \<or> (\<exists>a. cp_agency k = Some a \<and> Some (toString a) = agencyId user)"
    and "cp_status k \<noteq> RUNNING" and "cp_status k \<noteq> COMPLETED"
    and "getAudienceContacts contacts k \<noteq> []"
    and "0 < cp_rateLimitMs k"
  shows "out_trace (execute js send now campaigns contacts b i user) =
           concat (map (\<lambda>c. Delay (cp_rateLimitMs k)
                              # (case replaceVariables js (m_template (cp_message k))
                                        (case m_variables (cp_message k) of
                                           Some vs \<Rightarrow> vs | None \<Rightarrow> []) c of
                                   Inl e \<Rightarrow> []
                                 | Inr m \<Rightarrow>
                                     [SendText (cp_evolutionInstanceId k) (c_phone c) m]))
                    (getAudienceContacts contacts k))"
proof -
  let ?k1 = "k\<lparr>cp_status := RUNNING, cp_lastExecutionDate := Some now\<rparr>"
  obtain sent failed b' tr
    where sl: "send_loop js send ?k1 (getAudienceContacts contacts k) (0, 0, b, [])
                 = (sent, failed, b', tr)"
    by (metis prod_cases4)
  have "out_trace (execute js send now campaigns contacts b i user) = tr"
    using execute_nonempty [OF assms(1-6) sl] by simp
  also have "tr = concat (map (contact_events js k) (getAudienceContacts contacts k))"
    using send_loop_trace [OF sl] contact_events_cong [of ?k1 k js] by simp
  also have "contact_events js k =
               (\<lambda>c. Delay (cp_rateLimitMs k)
                      # (case replaceVariables js (m_template (cp_message k))
                                (case m_variables (cp_message k) of
                                   Some vs \<Rightarrow> vs | None \<Rightarrow> []) c of
                           Inl e \<Rightarrow> []
                         | Inr m \<Rightarrow> [SendText (cp_evolutionInstanceId k) (c_phone c) m]))"
    using assms(7) by (intro ext) (simp add: contact_events_def)
  finally show ?thesis .
qed

theorem rate_limit_before_every_send_witness:
  "ObjectId_isValid ex_k1
   \<and> CampaignModel_findById [ex_campaign_rate] ex_k1 = Some ex_campaign_rate
   \<and> cp_agency ex_campaign_rate = Some (ObjectId ex_g1)
   \<and> Some (toString (ObjectId ex_g1)) = agencyId ex_manager
   \<and> cp_status ex_campaign_rate = DRAFT
   \<and> getAudienceContacts ex_contacts ex_campaign_rate = [ex_contact1]
   \<and> 0 < cp_rateLimitMs ex_campaign_rate
   \<and> out_trace (execute ex_js ex_send 7 [ex_campaign_rate] ex_contacts 0 ex_k1 ex_manager)
       = [Delay 1000, SendText ''inst'' (Some ''5511'') ''Oi Ana'']"
proof -
  have p: "0 < cp_rateLimitMs ex_campaign_rate" "cp_rateLimitMs ex_campaign_rate = 1000"
    "m_template (cp_message ex_campaign_rate) = ''Oi {{contact.name}}''"
    "m_variables (cp_message ex_campaign_rate) = None"
    "cp_evolutionInstanceId ex_campaign_rate = ''inst''"
    "c_phone ex_contact1 = Some ''5511''"
    by (simp_all add: ex_campaign_rate_def ex_campaign1_def ex_contact1_def)
  have "out_trace (execute ex_js ex_send 7 [ex_campaign_rate] ex_contacts 0 ex_k1 ex_manager)
       = [Delay 1000, SendText ''inst'' (Some ''5511'') ''Oi Ana'']"
    using rate_limit_before_every_send [where js = ex_js and send = ex_send and now = 7
        and contacts = ex_contacts and b = "0::nat",
        OF ex_ids_valid(10) ex_guards(3) ex_auth(3) _ _ _ p(1)]
    by (simp add: ex_audience_rate ex_guards p ex_render)
  then show ?thesis
    using ex_ids_valid(10) ex_guards p(1) ex_audience_rate by simp
qed

text \<open>
  Claim C2. When the audience of a campaign lists contact identifiers, the resolved
  audience is the active contacts with one of these identifiers: the agency of a contact
  is not looked at. An execution that passes the guards hands each of them, whatever its
  agency, to the loop that sends the messages.
\<close>

theorem audience_ignores_agency:
  assumes "au_specificContacts (cp_audience k) = Some ids" and "ids \<noteq> []"
  shows "getAudienceContacts db k = filter (\<lambda>c. c_id c \<in> set ids \<and> c_isActive c) db
       \<and> (ObjectId_isValid i \<longrightarrow> CampaignModel_findById campaigns i = Some k \<longrightarrow>
            (role user = ADMIN
             \<or> (\<exists>a. cp_agency k = Some a \<and> Some (toString a) = agencyId user)) \<longrightarrow>
            cp_status k \<noteq> RUNNING \<longrightarrow> cp_status k \<noteq> COMPLETED \<longrightarrow>
            filter (\<lambda>c. c_id c \<in> set ids \<and> c_isActive c) db \<noteq> [] \<longrightarrow>
            out_trace (execute js send now campaigns db b i user)
              = concat (map (contact_events js k)
                          (filter (\<lambda>c. c_id c \<in> set ids \<and> c_isActive c) db)))"
proof -
  have a: "getAudienceContacts db k = filter (\<lambda>c. c_id c \<in> set ids \<and> c_isActive c) db"
    using assms
    by (auto simp: getAudienceContacts_def Let_def ContactModel_find_def contact_matches_def
          cq_empty_def intro: filter_cong)
  have "out_trace (execute js send now campaigns db b i user)
          = concat (map (contact_events js k) (getAudienceContacts db k))"
    if g: "ObjectId_isValid i" "CampaignModel_findById campaigns i = Some k"
      "role user = ADMIN \<or> (\<exists>a. cp_agency k = Some a \<and> Some (toString a) = agencyId user)"
      "cp_status k \<noteq> RUNNING" "cp_status k \<noteq> COMPLETED"
      "getAudienceContacts db k \<noteq> []"
  proof -
    let ?k1 = "k\<lparr>cp_status := RUNNING, cp_lastExecutionDate := Some now\<rparr>"
    obtain sent failed b' tr
      where sl: "send_loop js send ?k1 (getAudienceContacts db k) (0, 0, b, [])
                   = (sent, failed, b', tr)"
      by (metis prod_cases4)
    have "out_trace (execute js send now campaigns db b i user) = tr"
      using execute_nonempty [OF g sl] by simp
    also have "tr = concat (map (contact_events js k) (getAudienceContacts db k))"
      using send_loop_trace [OF sl] contact_events_cong [of ?k1 k js] by simp
    finally show ?thesis .
  qed
  with a show ?thesis by simp
qed

theorem audience_ignores_agency_witness:
  "au_specificContacts (cp_audience ex_campaign_all)
     = Some [ObjectId ex_c1, ObjectId ex_c2, ObjectId ex_c3]
   \<and> [ObjectId ex_c1, ObjectId ex_c2, ObjectId ex_c3] \<noteq> []
   \<and> getAudienceContacts ex_contacts ex_campaign_all = [ex_contact1, ex_contact2, ex_contact3]
   \<and> cp_agency ex_campaign_all = Some (ObjectId ex_g1)
   \<and> c_agency ex_contact3 = Some (ObjectId ex_g2)
   \<and> ObjectId ex_g1 \<noteq> ObjectId ex_g2
   \<and> c_phone ex_contact3 = Some ''5533''
   \<and> SendText ''inst'' (Some ''5533'') ''Oi Cliente''
       \<in> set (out_trace
                (execute ex_js ex_send 7 [ex_campaign_all] ex_contacts 0 ex_k1 ex_manager))"
proof -
  have s: "au_specificContacts (cp_audience ex_campaign_all)
             = Some [ObjectId ex_c1, ObjectId ex_c2, ObjectId ex_c3]"
    by (simp add: ex_campaign_all_def ex_specific_def)
  have f: "filter (\<lambda>c. c_id c \<in> set [ObjectId ex_c1, ObjectId ex_c2, ObjectId ex_c3]
                        \<and> c_isActive c) ex_contacts
             = [ex_contact1, ex_contact2, ex_contact3]"
    by (simp add: ex_contact_defs)
  note t = audience_ignores_agency [where db = ex_contacts and js = ex_js
      and send = ex_send and now = 7 and b = "0::nat" and campaigns = "[ex_campaign_all]"
      and i = ex_k1 and user = ex_manager, OF s, simplified f]
  have e: "contact_events ex_js ex_campaign_all ex_contact3
             = [SendText ''inst'' (Some ''5533'') ''Oi Cliente'']"
    by (simp add: contact_events_def ex_campaign_all_def ex_campaign1_def ex_render)
       (simp add: ex_contact_defs)
  have "SendText ''inst'' (Some ''5533'') ''Oi Cliente''
       \<in> set (out_trace
                (execute ex_js ex_send 7 [ex_campaign_all] ex_contacts 0 ex_k1 ex_manager))"
    using t ex_ids_valid(10) ex_guards(1,7) ex_auth(1) e by simp
  moreover have "getAudienceContacts ex_contacts ex_campaign_all
                   = [ex_contact1, ex_contact2, ex_contact3]"
    using t by simp
  ultimately show ?thesis
    using s ex_guards(4) ex_ids_distinct(1) by (simp add: ex_contact_defs)
qed

section \<open>Registration\<close>

lemma register_stores_role:
  assumes "find (\<lambda>u. u_email u = r_email dto) db = None"
    and "r_email dto \<noteq> []" and "hash (r_password dto) \<noteq> []" and "r_name dto \<noteq> []"
    and "UserRole_of (js_or (r_role dto) ''viewer'') = Some r"
  shows "\<exists>resp u. register hash sign new_id db dto = Inr (resp, db @ [u])
                 \<and> ar_role resp = r \<and> u_role u = r"
  using assms by (simp add: register_def UserModel_create_def Let_def)

lemma register_rejects_role:
  assumes "find (\<lambda>u. u_email u = r_email dto) db = None"
    and "UserRole_of (js_or (r_role dto) ''viewer'') = None"
  shows "register hash sign new_id db dto = Inl ValidationError"
  using assms by (simp add: register_def UserModel_create_def Let_def)

lemma UserRole_of_values:
  "UserRole_of ''viewer'' = Some VIEWER" "UserRole_of ''admin'' = Some ADMIN"
  by (simp_all add: UserRole_of_def)

text \<open>
  Claim C5 as stated fails: a role supplied as the empty string is not stored as given but
  replaced by \<open>VIEWER\<close>, and a role outside the enumeration of the user schema is not stored
  at all: the registration raises.
\<close>

theorem register_role_not_as_given:
  "register ex_hash ex_sign (ObjectId ex_u1) [] (ex_register (Some []))
     = Inr (\<lparr> accessToken = ''jwt:'' @ ex_u1, ar_id = ex_u1, ar_email = ''eve@x.com'',
               ar_name = ''Eve'', ar_role = VIEWER, ar_agencyId = None \<rparr>,
            [\<lparr> u_id = ObjectId ex_u1, u_email = ''eve@x.com'', u_password = ''h:secret'',
                u_name = ''Eve'', u_phone = None, u_agencyId = None, u_role = VIEWER,
                u_isActive = True \<rparr>])
   \<and> register ex_hash ex_sign (ObjectId ex_u1) [] (ex_register (Some ''superuser''))
       = Inl ValidationError"
  by (simp add: register_def UserModel_create_def UserRole_of_def ex_register_def
        ex_hash_def ex_sign_def Let_def)

text \<open>
  Claim C5, as the code has it. For a registration with an unused e-mail address and the
  required fields: without a role, or with an empty one, the user is created as \<open>VIEWER\<close>;
  a role that is one of the four of the enumeration is stored as given, without any check
  of who asks, so that the role \<^verbatim>\<open>admin\<close> creates an administrator; any other role makes
  the registration fail with a validation error.
\<close>

theorem register_role:
  assumes "find (\<lambda>u. u_email u = r_email dto) db = None"
    and "r_email dto \<noteq> []" and "hash (r_password dto) \<noteq> []" and "r_name dto \<noteq> []"
  shows "(\<not> truthy (r_role dto) \<longrightarrow>
            (\<exists>resp u. register hash sign new_id db dto = Inr (resp, db @ [u])
                      \<and> ar_role resp = VIEWER \<and> u_role u = VIEWER))
       \<and> (\<forall>s r. r_role dto = Some s \<longrightarrow> s \<noteq> [] \<longrightarrow> UserRole_of s = Some r \<longrightarrow>
            (\<exists>resp u. register hash sign new_id db dto = Inr (resp, db @ [u])
                      \<and> ar_role resp = r \<and> u_role u = r))
       \<and> (\<forall>s. r_role dto = Some s \<longrightarrow> s \<noteq> [] \<longrightarrow> UserRole_of s = None \<longrightarrow>
            register hash sign new_id db dto = Inl ValidationError)
       \<and> (r_role dto = Some ''admin'' \<longrightarrow>
            (\<exists>resp u. register hash sign new_id db dto = Inr (resp, db @ [u])
                      \<and> ar_role resp = ADMIN \<and> u_role u = ADMIN))"
proof (intro conjI allI impI)
  assume "\<not> truthy (r_role dto)"
  then have "js_or (r_role dto) ''viewer'' = ''viewer''"
    by (cases "r_role dto") auto
  then show "\<exists>resp u. register hash sign new_id db dto = Inr (resp, db @ [u])
                     \<and> ar_role resp = VIEWER \<and> u_role u = VIEWER"
    using register_stores_role [where hash = hash and dto = dto and db = db and r = VIEWER
        and sign = sign and new_id = new_id, OF assms]
    by (simp add: UserRole_of_values)
next
  fix s r
  assume "r_role dto = Some s" "s \<noteq> []" "UserRole_of s = Some r"
  then show "\<exists>resp u. register hash sign new_id db dto = Inr (resp, db @ [u])
                     \<and> ar_role resp = r \<and> u_role u = r"
    using register_stores_role [where hash = hash and dto = dto and db = db and r = r
        and sign = sign and new_id = new_id, OF assms] by simp
next
  fix s
  assume "r_role dto = Some s" "s \<noteq> []" "UserRole_of s = None"
  then show "register hash sign new_id db dto = Inl ValidationError"
    using register_rejects_role [where hash = hash and dto = dto and db = db
        and sign = sign and new_id = new_id, OF assms(1)] by simp
next
  assume "r_role dto = Some ''admin''"
  then show "\<exists>resp u. register hash sign new_id db dto = Inr (resp, db @ [u])
                     \<and> ar_role resp = ADMIN \<and> u_role u = ADMIN"
    using register_stores_role [where hash = hash and dto = dto and db = db and r = ADMIN
        and sign = sign and new_id = new_id, OF assms]
    by (simp add: UserRole_of_values)
qed

theorem register_role_witness:
  "find (\<lambda>u. u_email u = r_email (ex_register (Some ''admin''))) [] = None
   \<and> r_email (ex_register (Some ''admin'')) \<noteq> []
   \<and> ex_hash (r_password (ex_register (Some ''admin''))) \<noteq> []
   \<and> r_name (ex_register (Some ''admin'')) \<noteq> []
   \<and> r_role (ex_register (Some ''admin'')) = Some ''admin''
   \<and> (\<exists>resp u. register ex_hash ex_sign (ObjectId ex_u1) [] (ex_register (Some ''admin''))
                  = Inr (resp, [u])
                \<and> ar_role resp = ADMIN \<and> u_role u = ADMIN)"
proof -
  have h: "find (\<lambda>u. u_email u = r_email (ex_register (Some ''admin''))) [] = None"
    "r_email (ex_register (Some ''admin'')) \<noteq> []"
    "ex_hash (r_password (ex_register (Some ''admin''))) \<noteq> []"
    "r_name (ex_register (Some ''admin'')) \<noteq> []"
    "r_role (ex_register (Some ''admin'')) = Some ''admin''"
    by (simp_all add: ex_register_def ex_hash_def)
  from register_role [where hash = ex_hash and dto = "ex_register (Some ''admin'')"
      and db = "[]" and sign = ex_sign and new_id = "ObjectId ex_u1", OF h(1-4)] h(5)
  have "\<exists>resp u. register ex_hash ex_sign (ObjectId ex_u1) [] (ex_register (Some ''admin''))
                  = Inr (resp, [u])
                \<and> ar_role resp = ADMIN \<and> u_role u = ADMIN"
    by simp
  with h show ?thesis by blast
qed

section \<open>Removing the owner of an agency\<close>

lemma ex_find_agency: "AgencyModel_findById [ex_agency] ex_g1 = Some ex_agency"
  by (simp add: AgencyModel_findById_def ex_agency_def ex_ids_oid)

lemma ex_u3_upper_owner:
  "ObjectId_isValid ex_u3_upper" "oid_of ex_u3_upper = ObjectId ex_u3"
  "ex_u3_upper \<noteq> ex_u3"
  by (simp_all add: ObjectId_isValid_def isHexDigit_def oid_of_def hexLower_def
        ex_u3_upper_def ex_u3_def)

text \<open>
  Claim C10 as stated fails, in two ways. A manager who is not the owner asks for the
  removal of the owner and is refused with \<open>Forbidden\<close>, not with \<open>BadRequest\<close>: the check
  of the caller comes first. And an administrator who writes the identifier of the owner
  with capital hexadecimal digits is not refused at all: the identifier is valid and
  denotes the owner, the comparison of texts that guards the owner does not recognise
  it, the call returns the agency, and the owner loses the binding to the agency.
\<close>

theorem remove_owner_forbidden:
  "ag_owner ex_agency = ObjectId ex_u3
   \<and> role ex_manager2 = MANAGER
   \<and> removeMember [ex_agency] ex_users ex_g1 ex_u3 ex_manager2
       = (Inl Forbidden, [ex_agency], ex_users)
   \<and> role ex_admin = ADMIN
   \<and> ObjectId_isValid ex_u3_upper \<and> oid_of ex_u3_upper = ag_owner ex_agency
   \<and> removeMember [ex_agency] ex_users ex_g1 ex_u3_upper ex_admin
       = (Inr ex_agency, [ex_agency],
          [ex_user ex_u1 AGENT, ex_user ex_u2 MANAGER,
           (ex_user ex_u3 MANAGER)\<lparr>u_agencyId := None\<rparr>])
   \<and> u_agencyId (ex_user ex_u3 MANAGER) = Some ex_g1"
proof -
  have a: "removeMember [ex_agency] ex_users ex_g1 ex_u3 ex_manager2
             = (Inl Forbidden, [ex_agency], ex_users)"
    by (simp add: removeMember_def ex_find_agency ex_ids_valid)
       (simp add: ex_agency_def ex_manager2_def ex_ids_distinct)
  have m: "filter (\<lambda>m. toString m \<noteq> ex_u3_upper) (ag_members ex_agency) = ag_members ex_agency"
    by (simp add: ex_agency_def ex_u3_upper_def ex_u1_def ex_u2_def)
  have s: "agency_save [ex_agency] ex_agency = [ex_agency]"
    by (simp add: agency_save_def)
  have u: "UserModel_setAgencyId ex_users ex_u3_upper None
             = [ex_user ex_u1 AGENT, ex_user ex_u2 MANAGER,
                (ex_user ex_u3 MANAGER)\<lparr>u_agencyId := None\<rparr>]"
    by (simp add: ex_users_def ex_user_def ex_u3_upper_owner ex_ids_distinct)
  have ne: "toString (ag_owner ex_agency) \<noteq> ex_u3_upper"
    using ex_u3_upper_owner(3) by (simp add: ex_agency_def)
  have b: "removeMember [ex_agency] ex_users ex_g1 ex_u3_upper ex_admin
       = (Inr ex_agency, [ex_agency],
          [ex_user ex_u1 AGENT, ex_user ex_u2 MANAGER,
           (ex_user ex_u3 MANAGER)\<lparr>u_agencyId := None\<rparr>])"
    by (simp add: removeMember_def ex_find_agency ex_ids_valid ex_u3_upper_owner Let_def m s u
          ne)
       (simp add: ex_admin_def)
  show ?thesis
    using a b ex_u3_upper_owner
    by (simp add: ex_agency_def ex_manager2_def ex_admin_def ex_user_def)
qed

text \<open>
  Claim C10, as the code has it. The removal is asked for a stored agency with an
  identifier that denotes its owner. A caller who is neither an administrator nor the
  owner is refused with \<open>Forbidden\<close>, the check that comes first, however the identifier
  of the owner is written (with \<open>BadRequest\<close> when an identifier is malformed). When the
  identifier of the owner is written as the stored reference prints it, the call of an
  administrator or of the owner fails with \<open>BadRequest\<close>. In both cases the agencies and
  the users are left as they were. Nothing is said of an administrator or the owner who
  writes the identifier of the owner in another way.
\<close>

theorem remove_owner_fails:
  assumes "AgencyModel_findById agencies agency_id = Some agency"
    and "oid_of user_id = ag_owner agency \<or> user_id = toString (ag_owner agency)"
  shows "(user_id = toString (ag_owner agency) \<longrightarrow>
            removeMember agencies users agency_id user_id user =
              (Inl (if ObjectId_isValid agency_id \<and> ObjectId_isValid user_id
                       \<and> role user \<noteq> ADMIN \<and> toString (ag_owner agency) \<noteq> userId user
                    then Forbidden else BadRequest),
               agencies, users))
       \<and> (role user \<noteq> ADMIN \<and> toString (ag_owner agency) \<noteq> userId user \<longrightarrow>
            removeMember agencies users agency_id user_id user =
              (Inl (if ObjectId_isValid agency_id \<and> ObjectId_isValid user_id
                    then Forbidden else BadRequest),
               agencies, users))"
  using assms(1) by (simp add: removeMember_def)

theorem remove_owner_fails_witness:
  "AgencyModel_findById [ex_agency] ex_g1 = Some ex_agency
   \<and> ex_u3 = toString (ag_owner ex_agency)
   \<and> oid_of ex_u3_upper = ag_owner ex_agency
   \<and> role ex_admin = ADMIN
   \<and> removeMember [ex_agency] ex_users ex_g1 ex_u3 ex_admin
       = (Inl BadRequest, [ex_agency], ex_users)
   \<and> role ex_manager2 = MANAGER \<and> userId ex_manager2 = ex_u2
   \<and> removeMember [ex_agency] ex_users ex_g1 ex_u3_upper ex_manager2
       = (Inl Forbidden, [ex_agency], ex_users)"
proof -
  have o: "ex_u3 = toString (ag_owner ex_agency)" by (simp add: ex_agency_def)
  have o': "oid_of ex_u3_upper = ag_owner ex_agency"
    by (simp add: ex_agency_def ex_u3_upper_owner)
  have r: "role ex_admin = ADMIN" "role ex_manager2 = MANAGER" "userId ex_manager2 = ex_u2"
    by (simp_all add: ex_admin_def ex_manager2_def)
  have n: "toString (ag_owner ex_agency) \<noteq> userId ex_manager2"
    by (simp add: ex_agency_def ex_manager2_def ex_ids_distinct)
  from remove_owner_fails [OF ex_find_agency disjI2 [OF o], of ex_users ex_admin] r o
  have a: "removeMember [ex_agency] ex_users ex_g1 ex_u3 ex_admin
          = (Inl BadRequest, [ex_agency], ex_users)" by simp
  from remove_owner_fails [OF ex_find_agency disjI1 [OF o'], of ex_users ex_manager2] r n
  have b: "removeMember [ex_agency] ex_users ex_g1 ex_u3_upper ex_manager2
          = (Inl Forbidden, [ex_agency], ex_users)"
    by (simp add: ex_ids_valid ex_u3_upper_owner)
  from ex_find_agency o o' r a b show ?thesis by blast
qed

section \<open>The orchestration turn\<close>

lemma find_eq: "find (\<lambda>t. t = n) xs = (if n \<in> set xs then Some n else None)"
  by (induction xs) auto

lemma find_tool:
  "find (\<lambda>t. t = n) tool_names = (if n \<in> set tool_names then Some n else None)"
  by (rule find_eq)

lemma session_find_save:
  "AgentSessionModel_findById db i = Some s \<Longrightarrow> s_id x = s_id s
     \<Longrightarrow> AgentSessionModel_findById (session_save db x) i = Some x"
  unfolding AgentSessionModel_findById_def session_save_def
  by (induction db) (auto split: if_splits)

text \<open>A transcript entry written by a tool call: an assistant entry tagged with a registered tool.\<close>

lemma tool_entry_tagged:
  "n \<in> set tool_names \<Longrightarrow>
     im_role (tool_entry n a r) = Assistant \<and> im_metadata (tool_entry n a r) = Some (n, a)"
  by (simp add: tool_entry_def)

lemma tool_results_Nil: "fst (tool_results d user [] w) = []"
  by simp

lemma tool_results_Cons:
  "fst (tool_results d user ((n, a) # rest) w)
     = tool_entry n a (fst (tool_execute d w n a user))
         # fst (tool_results d user rest (snd (tool_execute d w n a user)))"
  by (simp split: prod.splits)

lemma tool_results_length: "length (fst (tool_results d user reqs w)) = length reqs"
  by (induction reqs arbitrary: w)
     (auto simp: tool_results_Nil tool_results_Cons simp del: tool_results.simps)

lemma tool_results_metadata:
  "map im_metadata (fst (tool_results d user reqs w)) = map Some reqs"
  by (induction reqs arbitrary: w)
     (auto simp: tool_results_Nil tool_results_Cons tool_entry_def simp del: tool_results.simps)

lemma tool_results_role:
  "e \<in> set (fst (tool_results d user reqs w)) \<Longrightarrow> im_role e = Assistant"
  by (induction reqs arbitrary: w)
     (auto simp: tool_results_Nil tool_results_Cons tool_entry_def simp del: tool_results.simps)

lemma tool_results_tagged:
  assumes "\<forall>(n, a) \<in> set reqs. n \<in> set tool_names"
    and "e \<in> set (fst (tool_results d user reqs w))"
  shows "im_role e = Assistant \<and> (\<exists>n a. im_metadata e = Some (n, a) \<and> n \<in> set tool_names)"
proof -
  have "im_metadata e \<in> set (map im_metadata (fst (tool_results d user reqs w)))"
    using assms(2) by simp
  then have "im_metadata e \<in> Some ` set reqs"
    by (simp only: tool_results_metadata set_map)
  then obtain n a where "im_metadata e = Some (n, a)" "(n, a) \<in> set reqs" by auto
  then show ?thesis using assms tool_results_role [of e d user reqs w] by auto
qed

lemma openai_requests_names: "\<forall>(n, a) \<in> set (openai_requests d calls). n \<in> set tool_names"
  by (auto simp: openai_requests_def openai_runnable_def)

lemma gemini_requests_names: "\<forall>(n, a) \<in> set (gemini_requests calls). n \<in> set tool_names"
  by (auto simp: gemini_requests_def)

lemma openai_tool_loop_results:
  assumes "\<forall>tc \<in> set calls. openai_runnable tc \<longrightarrow> JSON_parse d (tc_arguments tc) \<noteq> None"
  shows "openai_tool_loop d user calls (msgs, w)
           = (None, msgs @ fst (tool_results d user (openai_requests d calls) w),
              snd (tool_results d user (openai_requests d calls) w))"
  using assms
proof (induction calls arbitrary: msgs w)
  case Nil
  then show ?case by (simp add: openai_requests_def)
next
  case (Cons tc calls)
  show ?case
  proof (cases "openai_runnable tc")
    case False
    then have "openai_tool_loop d user (tc # calls) (msgs, w)
                 = openai_tool_loop d user calls (msgs, w)"
      by (auto simp: openai_runnable_def find_tool)
    moreover have "openai_requests d (tc # calls) = openai_requests d calls"
      using False by (simp add: openai_requests_def)
    ultimately show ?thesis using Cons by simp
  next
    case True
    with Cons.prems obtain args where a: "JSON_parse d (tc_arguments tc) = Some args"
      by auto
    obtain result w1 where t: "tool_execute d w (tc_name tc) args user = (result, w1)"
      by (cases "tool_execute d w (tc_name tc) args user")
    let ?e = "tool_entry (tc_name tc) args result"
    have step: "openai_tool_loop d user (tc # calls) (msgs, w)
                  = openai_tool_loop d user calls (msgs @ [?e], w1)"
      using True a t by (simp add: openai_runnable_def find_tool)
    have req: "openai_requests d (tc # calls) = (tc_name tc, args) # openai_requests d calls"
      using True a by (simp add: openai_requests_def)
    have ih: "openai_tool_loop d user calls (msgs @ [?e], w1)
                = (None, (msgs @ [?e]) @ fst (tool_results d user (openai_requests d calls) w1),
                   snd (tool_results d user (openai_requests d calls) w1))"
      using Cons.IH [of "msgs @ [?e]" w1] Cons.prems by simp
    show ?thesis
      unfolding step ih req using t by (simp split: prod.splits)
  qed
qed

lemma gemini_tool_loop_results:
  "gemini_tool_loop d user calls (msgs, w)
     = (msgs @ fst (tool_results d user (gemini_requests calls) w),
        snd (tool_results d user (gemini_requests calls) w))"
proof (induction calls arbitrary: msgs w)
  case Nil
  then show ?case by (simp add: gemini_requests_def)
next
  case (Cons c calls)
  show ?case
  proof (cases "fc_name c \<in> set tool_names")
    case False
    then have "gemini_tool_loop d user (c # calls) (msgs, w)
                 = gemini_tool_loop d user calls (msgs, w)"
      by (simp add: find_tool)
    moreover have "gemini_requests (c # calls) = gemini_requests calls"
      using False by (simp add: gemini_requests_def)
    ultimately show ?thesis using Cons by simp
  next
    case True
    obtain result w1 where t: "tool_execute d w (fc_name c) (fc_args c) user = (result, w1)"
      by (cases "tool_execute d w (fc_name c) (fc_args c) user")
    let ?e = "tool_entry (fc_name c) (fc_args c) result"
    have step: "gemini_tool_loop d user (c # calls) (msgs, w)
                  = gemini_tool_loop d user calls (msgs @ [?e], w1)"
      using True t by (simp add: find_tool)
    have req: "gemini_requests (c # calls) = (fc_name c, fc_args c) # gemini_requests calls"
      using True by (simp add: gemini_requests_def)
    have ih: "gemini_tool_loop d user calls (msgs @ [?e], w1)
                = ((msgs @ [?e]) @ fst (tool_results d user (gemini_requests calls) w1),
                   snd (tool_results d user (gemini_requests calls) w1))"
      using Cons.IH [of "msgs @ [?e]" w1] .
    show ?thesis
      unfolding step ih req using t by (simp split: prod.splits)
  qed
qed

lemma openai_tool_loop_entries:
  assumes "\<forall>tc \<in> set calls. openai_runnable tc \<longrightarrow> JSON_parse d (tc_arguments tc) \<noteq> None"
  shows "\<exists>entries w'. openai_tool_loop d user calls (msgs, w) = (None, msgs @ entries, w')
           \<and> (entries, w') = tool_results d user (openai_requests d calls) w
           \<and> length entries = length (filter openai_runnable calls)
           \<and> (\<forall>e \<in> set entries. im_role e = Assistant
                  \<and> (\<exists>n a. im_metadata e = Some (n, a) \<and> n \<in> set tool_names))"
proof -
  let ?r = "tool_results d user (openai_requests d calls) w"
  have "openai_tool_loop d user calls (msgs, w) = (None, msgs @ fst ?r, snd ?r)"
    using openai_tool_loop_results [OF assms] .
  moreover have "length (fst ?r) = length (filter openai_runnable calls)"
    by (simp add: tool_results_length) (simp add: openai_requests_def)
  moreover have "\<forall>e \<in> set (fst ?r). im_role e = Assistant
                  \<and> (\<exists>n a. im_metadata e = Some (n, a) \<and> n \<in> set tool_names)"
    by (intro ballI, rule tool_results_tagged [OF openai_requests_names])
  ultimately show ?thesis
    by (intro exI [of _ "fst ?r"] exI [of _ "snd ?r"]) simp
qed

lemma gemini_tool_loop_entries:
  "\<exists>entries w'. gemini_tool_loop d user calls (msgs, w) = (msgs @ entries, w')
     \<and> (entries, w') = tool_results d user (gemini_requests calls) w
     \<and> length entries = length (filter (\<lambda>c. fc_name c \<in> set tool_names) calls)
     \<and> (\<forall>e \<in> set entries. im_role e = Assistant
            \<and> (\<exists>n a. im_metadata e = Some (n, a) \<and> n \<in> set tool_names))"
proof -
  let ?r = "tool_results d user (gemini_requests calls) w"
  have "gemini_tool_loop d user calls (msgs, w) = (msgs @ fst ?r, snd ?r)"
    using gemini_tool_loop_results .
  moreover have "length (fst ?r) = length (filter (\<lambda>c. fc_name c \<in> set tool_names) calls)"
    by (simp add: tool_results_length) (simp add: gemini_requests_def)
  moreover have "\<forall>e \<in> set (fst ?r). im_role e = Assistant
                  \<and> (\<exists>n a. im_metadata e = Some (n, a) \<and> n \<in> set tool_names)"
    by (intro ballI, rule tool_results_tagged [OF gemini_requests_names])
  ultimately show ?thesis
    by (intro exI [of _ "fst ?r"] exI [of _ "snd ?r"]) simp
qed

lemma openai_final:
  assumes "AgentSessionModel_findById sessions i = Some session"
    and "getOpenAIInstance d"
    and "openai_create d p (ai_model (getAiConfig d)) (openai_messages d session) = (Some am, p')"
    and "\<not> nonempty (om_tool_calls am)" and "om_content am = Some reply" and "reply \<noteq> []"
  shows "\<exists>sessions' s'.
           executeWithOpenAI (Suc fuel) d (sessions, p, w) i user = Some (None, sessions', p', w)
           \<and> AgentSessionModel_findById sessions' i = Some s'
           \<and> s_messages s' = s_messages session
                 @ [\<lparr> im_role = Assistant, im_content = reply, im_metadata = None \<rparr>]
           \<and> s_agentStatus s' = IDLE \<and> s_messageCount s' = length (s_messages s')"
proof -
  let ?m = "s_messages session @ [\<lparr> im_role = Assistant, im_content = reply, im_metadata = None \<rparr>]"
  let ?s = "session\<lparr>s_messages := ?m, s_agentStatus := IDLE, s_messageCount := length ?m\<rparr>"
  have "executeWithOpenAI (Suc fuel) d (sessions, p, w) i user
          = Some (None, session_save sessions ?s, p', w)"
    using assms by (simp add: Let_def)
  moreover have "AgentSessionModel_findById (session_save sessions ?s) i = Some ?s"
    using assms(1) by (simp add: session_find_save)
  ultimately show ?thesis
    by (intro exI [of _ "session_save sessions ?s"] exI [of _ ?s]) simp
qed

lemma openai_tools:
  assumes "AgentSessionModel_findById sessions i = Some session"
    and "getOpenAIInstance d"
    and "openai_create d p (ai_model (getAiConfig d)) (openai_messages d session) = (Some am, p')"
    and "om_tool_calls am = Some calls" and "calls \<noteq> []"
    and "\<forall>tc \<in> set calls. openai_runnable tc \<longrightarrow> JSON_parse d (tc_arguments tc) \<noteq> None"
  shows "\<exists>sessions' s' entries w'.
           executeWithOpenAI (Suc fuel) d (sessions, p, w) i user
             = executeWithOpenAI fuel d (sessions', p', w') i user
           \<and> AgentSessionModel_findById sessions' i = Some s'
           \<and> s_messages s' = s_messages session @ entries
           \<and> s_agentStatus s' = EXECUTING
           \<and> (entries, w') = tool_results d user (openai_requests d calls) w
           \<and> length entries = length (filter openai_runnable calls)
           \<and> (\<forall>e \<in> set entries. im_role e = Assistant
                  \<and> (\<exists>n a. im_metadata e = Some (n, a) \<and> n \<in> set tool_names))"
proof -
  let ?s1 = "session\<lparr>s_agentStatus := EXECUTING\<rparr>"
  from openai_tool_loop_entries [OF assms(6), of user "s_messages session" w]
  obtain entries w' where l:
    "openai_tool_loop d user calls (s_messages session, w)
       = (None, s_messages session @ entries, w')"
    "(entries, w') = tool_results d user (openai_requests d calls) w"
    "length entries = length (filter openai_runnable calls)"
    "\<forall>e \<in> set entries. im_role e = Assistant
        \<and> (\<exists>n a. im_metadata e = Some (n, a) \<and> n \<in> set tool_names)"
    by blast
  let ?m = "s_messages session @ entries"
  let ?s2 = "?s1\<lparr>s_messages := ?m, s_messageCount := length ?m\<rparr>"
  let ?db = "session_save (session_save sessions ?s1) ?s2"
  have "executeWithOpenAI (Suc fuel) d (sessions, p, w) i user
          = executeWithOpenAI fuel d (?db, p', w') i user"
    using assms(1-5) l(1) by (simp add: Let_def)
  moreover have "AgentSessionModel_findById ?db i = Some ?s2"
    using assms(1) by (simp add: session_find_save)
  ultimately show ?thesis
    using l(2-4)
    by (intro exI [of _ ?db] exI [of _ ?s2] exI [of _ entries] exI [of _ w']) simp
qed

lemma gemini_final:
  assumes "AgentSessionModel_findById sessions i = Some session"
    and "getGeminiInstance d"
    and "gemini_sendMessage d p (ai_model (getAiConfig d))
           (getSystemPrompt d (s_agentType session)) (gemini_history session)
           (js_or (s_originalGoal session) ''Continue a conversa'') = (Some resp, p')"
    and "\<not> nonempty (gr_functionCalls resp)" and "gr_text resp \<noteq> []"
  shows "\<exists>sessions' s'.
           executeWithGemini (Suc fuel) d (sessions, p, w) i user = Some (None, sessions', p', w)
           \<and> AgentSessionModel_findById sessions' i = Some s'
           \<and> s_messages s' = s_messages session
                 @ [\<lparr> im_role = Assistant, im_content = gr_text resp, im_metadata = None \<rparr>]
           \<and> s_agentStatus s' = IDLE \<and> s_messageCount s' = length (s_messages s')"
proof -
  let ?m = "s_messages session
              @ [\<lparr> im_role = Assistant, im_content = gr_text resp, im_metadata = None \<rparr>]"
  let ?s = "session\<lparr>s_messages := ?m, s_agentStatus := IDLE, s_messageCount := length ?m\<rparr>"
  have "executeWithGemini (Suc fuel) d (sessions, p, w) i user
          = Some (None, session_save sessions ?s, p', w)"
    using assms by (simp add: Let_def)
  moreover have "AgentSessionModel_findById (session_save sessions ?s) i = Some ?s"
    using assms(1) by (simp add: session_find_save)
  ultimately show ?thesis
    by (intro exI [of _ "session_save sessions ?s"] exI [of _ ?s]) simp
qed

lemma gemini_tools:
  assumes "AgentSessionModel_findById sessions i = Some session"
    and "getGeminiInstance d"
    and "gemini_sendMessage d p (ai_model (getAiConfig d))
           (getSystemPrompt d (s_agentType session)) (gemini_history session)
           (js_or (s_originalGoal session) ''Continue a conversa'') = (Some resp, p')"
    and "gr_functionCalls resp = Some calls" and "calls \<noteq> []"
  shows "\<exists>sessions' s' entries w'.
           executeWithGemini (Suc fuel) d (sessions, p, w) i user
             = executeWithGemini fuel d (sessions', p', w') i user
           \<and> AgentSessionModel_findById sessions' i = Some s'
           \<and> s_messages s' = s_messages session @ entries
           \<and> s_agentStatus s' = EXECUTING
           \<and> (entries, w') = tool_results d user (gemini_requests calls) w
           \<and> length entries = length (filter (\<lambda>c. fc_name c \<in> set tool_names) calls)
           \<and> (\<forall>e \<in> set entries. im_role e = Assistant
                  \<and> (\<exists>n a. im_metadata e = Some (n, a) \<and> n \<in> set tool_names))"
proof -
  let ?s1 = "session\<lparr>s_agentStatus := EXECUTING\<rparr>"
  from gemini_tool_loop_entries [of d user calls "s_messages session" w]
  obtain entries w' where l:
    "gemini_tool_loop d user calls (s_messages session, w) = (s_messages session @ entries, w')"
    "(entries, w') = tool_results d user (gemini_requests calls) w"
    "length entries = length (filter (\<lambda>c. fc_name c \<in> set tool_names) calls)"
    "\<forall>e \<in> set entries. im_role e = Assistant
        \<and> (\<exists>n a. im_metadata e = Some (n, a) \<and> n \<in> set tool_names)"
    by blast
  let ?m = "s_messages session @ entries"
  let ?s2 = "?s1\<lparr>s_messages := ?m, s_messageCount := length ?m\<rparr>"
  let ?db = "session_save (session_save sessions ?s1) ?s2"
  have "executeWithGemini (Suc fuel) d (sessions, p, w) i user
          = executeWithGemini fuel d (?db, p', w') i user"
    using assms l(1) by (simp add: Let_def)
  moreover have "AgentSessionModel_findById ?db i = Some ?s2"
    using assms(1) by (simp add: session_find_save)
  ultimately show ?thesis
    using l(2-4)
    by (intro exI [of _ ?db] exI [of _ ?s2] exI [of _ entries] exI [of _ w']) simp
qed

lemma openai_silent:
  assumes "AgentSessionModel_findById sessions i = Some session"
    and "getOpenAIInstance d"
    and "openai_create d p (ai_model (getAiConfig d)) (openai_messages d session) = (Some am, p')"
    and "\<not> nonempty (om_tool_calls am)" and "\<not> truthy (om_content am)"
  shows "\<exists>sessions' s'.
           executeWithOpenAI (Suc fuel) d (sessions, p, w) i user = Some (None, sessions', p', w)
           \<and> AgentSessionModel_findById sessions' i = Some s'
           \<and> s_messages s' = s_messages session
           \<and> s_agentStatus s' = IDLE \<and> s_messageCount s' = length (s_messages s')"
proof -
  let ?s = "session\<lparr>s_messages := s_messages session, s_agentStatus := IDLE,
                     s_messageCount := length (s_messages session)\<rparr>"
  have "executeWithOpenAI (Suc fuel) d (sessions, p, w) i user
          = Some (None, session_save sessions ?s, p', w)"
    using assms by (simp add: Let_def)
  moreover have "AgentSessionModel_findById (session_save sessions ?s) i = Some ?s"
    using assms(1) by (simp add: session_find_save)
  ultimately show ?thesis
    by (intro exI [of _ "session_save sessions ?s"] exI [of _ ?s]) simp
qed

lemma gemini_silent:
  assumes "AgentSessionModel_findById sessions i = Some session"
    and "getGeminiInstance d"
    and "gemini_sendMessage d p (ai_model (getAiConfig d))
           (getSystemPrompt d (s_agentType session)) (gemini_history session)
           (js_or (s_originalGoal session) ''Continue a conversa'') = (Some resp, p')"
    and "\<not> nonempty (gr_functionCalls resp)" and "gr_text resp = []"
  shows "\<exists>sessions' s'.
           executeWithGemini (Suc fuel) d (sessions, p, w) i user = Some (None, sessions', p', w)
           \<and> AgentSessionModel_findById sessions' i = Some s'
           \<and> s_messages s' = s_messages session
           \<and> s_agentStatus s' = IDLE \<and> s_messageCount s' = length (s_messages s')"
proof -
  let ?s = "session\<lparr>s_messages := s_messages session, s_agentStatus := IDLE,
                     s_messageCount := length (s_messages session)\<rparr>"
  have "executeWithGemini (Suc fuel) d (sessions, p, w) i user
          = Some (None, session_save sessions ?s, p', w)"
    using assms by (simp add: Let_def)
  moreover have "AgentSessionModel_findById (session_save sessions ?s) i = Some ?s"
    using assms(1) by (simp add: session_find_save)
  ultimately show ?thesis
    by (intro exI [of _ "session_save sessions ?s"] exI [of _ ?s]) simp
qed

text \<open>
  Claim C7 as stated fails. A response with two tool calls, the first naming a tool that
  the registry does not have: one tool entry, not two, is in the transcript when the
  provider is called again (and the run ends with that entry and the final answer).
  A response with no tool call and no text: nothing is appended.
\<close>

theorem tool_calls_without_entry:
  "openai_create ex_deps 0 ''gpt-4o-mini'' (openai_messages ex_deps ex_session)
     = (Some \<lparr> om_content = None,
               om_tool_calls = Some [ex_call ''delete_everything'',
                                     ex_call ''search_contacts''] \<rparr>, 1)
   \<and> executeWithOpenAI 2 ex_deps ([ex_session], 0, 0) (ObjectId ex_k1) ex_agent1
       = executeWithOpenAI 1 ex_deps
           ([ex_session\<lparr> s_agentStatus := EXECUTING,
                s_messages := s_messages ex_session
                                @ [tool_entry ''search_contacts'' ''{}'' ''ok''],
                s_messageCount := 2 \<rparr>], 1, 1) (ObjectId ex_k1) ex_agent1
   \<and> executeWithOpenAI 2 ex_deps ([ex_session], 0, 0) (ObjectId ex_k1) ex_agent1
       = Some (None,
           [ex_session\<lparr> s_agentStatus := IDLE,
                s_messages := s_messages ex_session
                                @ [tool_entry ''search_contacts'' ''{}'' ''ok'',
                                   \<lparr> im_role = Assistant, im_content = ''Pronto'',
                                     im_metadata = None \<rparr>],
                s_messageCount := 3 \<rparr>], 2, 1)
   \<and> executeWithOpenAI 1 ex_deps_silent ([ex_session], 0, 0) (ObjectId ex_k1) ex_agent1
       = Some (None, [ex_session\<lparr> s_agentStatus := IDLE \<rparr>], 1, 0)"
  by (simp add: eval_nat_numeral ex_deps_silent_def ex_deps_def ex_session_def ex_call_def
        AgentSessionModel_findById_def session_save_def getOpenAIInstance_def
        getAiConfig_def openai_messages_def tool_names_def Let_def)

text \<open>
  Claim C7, as the code has it, for both providers and a stored session. A response
  without tool calls and with a text that is not empty ends the run: exactly that text is
  appended as one assistant entry and \<open>agentStatus\<close> is \<open>IDLE\<close>. A response without tool
  calls and without text (for OpenAI: also with the empty text) ends the run as well,
  with \<open>agentStatus\<close> \<open>IDLE\<close>, and nothing is appended. A response with tool calls (for
  OpenAI: whose arguments parse) continues with the next provider call on a transcript
  extended by the entries of \<open>tool_results\<close>: one assistant entry for each call that
  names a registered tool (for OpenAI: and is of type \<^verbatim>\<open>function\<close>), in the order of the
  calls, tagged with the name and the arguments of the call and holding the text that
  the execution of that tool on those arguments returned; the other calls leave no
  entry.
\<close>

theorem orchestration_turn:
  assumes "AgentSessionModel_findById sessions i = Some session"
  shows "(getOpenAIInstance d \<longrightarrow>
          openai_create d p (ai_model (getAiConfig d)) (openai_messages d session)
            = (Some am, p') \<longrightarrow>
            (\<forall>reply. \<not> nonempty (om_tool_calls am) \<longrightarrow> om_content am = Some reply \<longrightarrow> reply \<noteq> [] \<longrightarrow>
               (\<exists>sessions' s'.
                  executeWithOpenAI (Suc fuel) d (sessions, p, w) i user
                    = Some (None, sessions', p', w)
                  \<and> AgentSessionModel_findById sessions' i = Some s'
                  \<and> s_messages s' = s_messages session
                        @ [\<lparr> im_role = Assistant, im_content = reply, im_metadata = None \<rparr>]
                  \<and> s_agentStatus s' = IDLE \<and> s_messageCount s' = length (s_messages s')))
          \<and> (\<forall>calls. om_tool_calls am = Some calls \<longrightarrow> calls \<noteq> [] \<longrightarrow>
               (\<forall>tc \<in> set calls. openai_runnable tc
                   \<longrightarrow> JSON_parse d (tc_arguments tc) \<noteq> None) \<longrightarrow>
               (\<exists>sessions' s' entries w'.
                  executeWithOpenAI (Suc fuel) d (sessions, p, w) i user
                    = executeWithOpenAI fuel d (sessions', p', w') i user
                  \<and> AgentSessionModel_findById sessions' i = Some s'
                  \<and> s_messages s' = s_messages session @ entries
                  \<and> s_agentStatus s' = EXECUTING
                  \<and> (entries, w') = tool_results d user (openai_requests d calls) w
                  \<and> length entries = length (filter openai_runnable calls)
                  \<and> (\<forall>e \<in> set entries. im_role e = Assistant
                         \<and> (\<exists>n a. im_metadata e = Some (n, a) \<and> n \<in> set tool_names))))
          \<and> (\<not> nonempty (om_tool_calls am) \<longrightarrow> \<not> truthy (om_content am) \<longrightarrow>
               (\<exists>sessions' s'.
                  executeWithOpenAI (Suc fuel) d (sessions, p, w) i user
                    = Some (None, sessions', p', w)
                  \<and> AgentSessionModel_findById sessions' i = Some s'
                  \<and> s_messages s' = s_messages session
                  \<and> s_agentStatus s' = IDLE \<and> s_messageCount s' = length (s_messages s'))))
       \<and> (getGeminiInstance d \<longrightarrow>
          gemini_sendMessage d p (ai_model (getAiConfig d))
            (getSystemPrompt d (s_agentType session)) (gemini_history session)
            (js_or (s_originalGoal session) ''Continue a conversa'') = (Some resp, p') \<longrightarrow>
            (\<not> nonempty (gr_functionCalls resp) \<longrightarrow> gr_text resp \<noteq> [] \<longrightarrow>
               (\<exists>sessions' s'.
                  executeWithGemini (Suc fuel) d (sessions, p, w) i user
                    = Some (None, sessions', p', w)
                  \<and> AgentSessionModel_findById sessions' i = Some s'
                  \<and> s_messages s' = s_messages session
                        @ [\<lparr> im_role = Assistant, im_content = gr_text resp,
                              im_metadata = None \<rparr>]
                  \<and> s_agentStatus s' = IDLE \<and> s_messageCount s' = length (s_messages s')))
          \<and> (\<forall>calls. gr_functionCalls resp = Some calls \<longrightarrow> calls \<noteq> [] \<longrightarrow>
               (\<exists>sessions' s' entries w'.
                  executeWithGemini (Suc fuel) d (sessions, p, w) i user
                    = executeWithGemini fuel d (sessions', p', w') i user
                  \<and> AgentSessionModel_findById sessions' i = Some s'
                  \<and> s_messages s' = s_messages session @ entries
                  \<and> s_agentStatus s' = EXECUTING
                  \<and> (entries, w') = tool_results d user (gemini_requests calls) w
                  \<and> length entries
                      = length (filter (\<lambda>c. fc_name c \<in> set tool_names) calls)
                  \<and> (\<forall>e \<in> set entries. im_role e = Assistant
                         \<and> (\<exists>n a. im_metadata e = Some (n, a) \<and> n \<in> set tool_names))))
          \<and> (\<not> nonempty (gr_functionCalls resp) \<longrightarrow> gr_text resp = [] \<longrightarrow>
               (\<exists>sessions' s'.
                  executeWithGemini (Suc fuel) d (sessions, p, w) i user
                    = Some (None, sessions', p', w)
                  \<and> AgentSessionModel_findById sessions' i = Some s'
                  \<and> s_messages s' = s_messages session
                  \<and> s_agentStatus s' = IDLE \<and> s_messageCount s' = length (s_messages s'))))"
proof (intro conjI impI allI)
  fix reply
  assume "getOpenAIInstance d"
    "openai_create d p (ai_model (getAiConfig d)) (openai_messages d session) = (Some am, p')"
    "\<not> nonempty (om_tool_calls am)" "om_content am = Some reply" "reply \<noteq> []"
  from openai_final [OF assms this]
  show "\<exists>sessions' s'.
          executeWithOpenAI (Suc fuel) d (sessions, p, w) i user = Some (None, sessions', p', w)
          \<and> AgentSessionModel_findById sessions' i = Some s'
          \<and> s_messages s' = s_messages session
                @ [\<lparr> im_role = Assistant, im_content = reply, im_metadata = None \<rparr>]
          \<and> s_agentStatus s' = IDLE \<and> s_messageCount s' = length (s_messages s')" .
next
  fix calls
  assume "getOpenAIInstance d"
    "openai_create d p (ai_model (getAiConfig d)) (openai_messages d session) = (Some am, p')"
    "om_tool_calls am = Some calls" "calls \<noteq> []"
    "\<forall>tc \<in> set calls. openai_runnable tc \<longrightarrow> JSON_parse d (tc_arguments tc) \<noteq> None"
  from openai_tools [OF assms this]
  show "\<exists>sessions' s' entries w'.
          executeWithOpenAI (Suc fuel) d (sessions, p, w) i user
            = executeWithOpenAI fuel d (sessions', p', w') i user
          \<and> AgentSessionModel_findById sessions' i = Some s'
          \<and> s_messages s' = s_messages session @ entries
          \<and> s_agentStatus s' = EXECUTING
          \<and> (entries, w') = tool_results d user (openai_requests d calls) w
          \<and> length entries = length (filter openai_runnable calls)
          \<and> (\<forall>e \<in> set entries. im_role e = Assistant
                 \<and> (\<exists>n a. im_metadata e = Some (n, a) \<and> n \<in> set tool_names))" .
next
  assume "getOpenAIInstance d"
    "openai_create d p (ai_model (getAiConfig d)) (openai_messages d session) = (Some am, p')"
    "\<not> nonempty (om_tool_calls am)" "\<not> truthy (om_content am)"
  from openai_silent [OF assms this]
  show "\<exists>sessions' s'.
          executeWithOpenAI (Suc fuel) d (sessions, p, w) i user = Some (None, sessions', p', w)
          \<and> AgentSessionModel_findById sessions' i = Some s'
          \<and> s_messages s' = s_messages session
          \<and> s_agentStatus s' = IDLE \<and> s_messageCount s' = length (s_messages s')" .
next
  assume "getGeminiInstance d"
    "gemini_sendMessage d p (ai_model (getAiConfig d))
       (getSystemPrompt d (s_agentType session)) (gemini_history session)
       (js_or (s_originalGoal session) ''Continue a conversa'') = (Some resp, p')"
    "\<not> nonempty (gr_functionCalls resp)" "gr_text resp \<noteq> []"
  from gemini_final [OF assms this]
  show "\<exists>sessions' s'.
          executeWithGemini (Suc fuel) d (sessions, p, w) i user = Some (None, sessions', p', w)
          \<and> AgentSessionModel_findById sessions' i = Some s'
          \<and> s_messages s' = s_messages session
                @ [\<lparr> im_role = Assistant, im_content = gr_text resp, im_metadata = None \<rparr>]
          \<and> s_agentStatus s' = IDLE \<and> s_messageCount s' = length (s_messages s')" .
next
  fix calls
  assume "getGeminiInstance d"
    "gemini_sendMessage d p (ai_model (getAiConfig d))
       (getSystemPrompt d (s_agentType session)) (gemini_history session)
       (js_or (s_originalGoal session) ''Continue a conversa'') = (Some resp, p')"
    "gr_functionCalls resp = Some calls" "calls \<noteq> []"
  from gemini_tools [OF assms this]
  show "\<exists>sessions' s' entries w'.
          executeWithGemini (Suc fuel) d (sessions, p, w) i user
            = executeWithGemini fuel d (sessions', p', w') i user
          \<and> AgentSessionModel_findById sessions' i = Some s'
          \<and> s_messages s' = s_messages session @ entries
          \<and> s_agentStatus s' = EXECUTING
          \<and> (entries, w') = tool_results d user (gemini_requests calls) w
          \<and> length entries = length (filter (\<lambda>c. fc_name c \<in> set tool_names) calls)
          \<and> (\<forall>e \<in> set entries. im_role e = Assistant
                 \<and> (\<exists>n a. im_metadata e = Some (n, a) \<and> n \<in> set tool_names))" .
next
  assume "getGeminiInstance d"
    "gemini_sendMessage d p (ai_model (getAiConfig d))
       (getSystemPrompt d (s_agentType session)) (gemini_history session)
       (js_or (s_originalGoal session) ''Continue a conversa'') = (Some resp, p')"
    "\<not> nonempty (gr_functionCalls resp)" "gr_text resp = []"
  from gemini_silent [OF assms this]
  show "\<exists>sessions' s'.
          executeWithGemini (Suc fuel) d (sessions, p, w) i user = Some (None, sessions', p', w)
          \<and> AgentSessionModel_findById sessions' i = Some s'
          \<and> s_messages s' = s_messages session
          \<and> s_agentStatus s' = IDLE \<and> s_messageCount s' = length (s_messages s')" .
qed

lemma ex_agent_setup:
  "AgentSessionModel_findById [ex_session] (ObjectId ex_k1) = Some ex_session"
  "getOpenAIInstance ex_deps" "getGeminiInstance ex_deps_gemini"
  "openai_create ex_deps 1 (ai_model (getAiConfig ex_deps)) (openai_messages ex_deps ex_session)
     = (Some \<lparr> om_content = Some ''Pronto'', om_tool_calls = None \<rparr>, 2)"
  "openai_create ex_deps 0 (ai_model (getAiConfig ex_deps)) (openai_messages ex_deps ex_session)
     = (Some \<lparr> om_content = None,
               om_tool_calls = Some [ex_call ''delete_everything'',
                                     ex_call ''search_contacts''] \<rparr>, 1)"
  "gemini_sendMessage ex_deps_gemini 1 (ai_model (getAiConfig ex_deps_gemini))
     (getSystemPrompt ex_deps_gemini (s_agentType ex_session)) (gemini_history ex_session)
     (js_or (s_originalGoal ex_session) ''Continue a conversa'')
     = (Some \<lparr> gr_functionCalls = None, gr_text = ''Pronto'' \<rparr>, 2)"
  "gemini_sendMessage ex_deps_gemini 0 (ai_model (getAiConfig ex_deps_gemini))
     (getSystemPrompt ex_deps_gemini (s_agentType ex_session)) (gemini_history ex_session)
     (js_or (s_originalGoal ex_session) ''Continue a conversa'')
     = (Some \<lparr> gr_functionCalls = Some [\<lparr> fc_name = ''delete_everything'',
                                           fc_args = ''{}'' \<rparr>],
               gr_text = [] \<rparr>, 1)"
  by (simp_all add: AgentSessionModel_findById_def ex_session_def ex_deps_def
        ex_deps_gemini_def getOpenAIInstance_def getGeminiInstance_def getAiConfig_def)

lemma ex_runnable:
  "\<not> openai_runnable (ex_call ''delete_everything'')"
  "openai_runnable (ex_call ''search_contacts'')"
  "JSON_parse ex_deps s \<noteq> None"
  "''delete_everything'' \<notin> set tool_names"
  by (simp_all add: openai_runnable_def ex_call_def tool_names_def ex_deps_def)

lemma ex_requests:
  "tool_results ex_deps ex_agent1
     (openai_requests ex_deps [ex_call ''delete_everything'', ex_call ''search_contacts'']) 0
   = ([tool_entry ''search_contacts'' ''{}'' ''ok''], 1)"
  by (simp add: openai_requests_def ex_runnable)
     (simp add: ex_call_def ex_deps_def)

theorem orchestration_turn_witness:
  "AgentSessionModel_findById [ex_session] (ObjectId ex_k1) = Some ex_session
   \<and> getOpenAIInstance ex_deps \<and> getGeminiInstance ex_deps_gemini
   \<and> (\<exists>sessions' s'.
         executeWithOpenAI (Suc 0) ex_deps ([ex_session], 1, 0) (ObjectId ex_k1) ex_agent1
           = Some (None, sessions', 2, 0)
         \<and> AgentSessionModel_findById sessions' (ObjectId ex_k1) = Some s'
         \<and> s_messages s' = s_messages ex_session
               @ [\<lparr> im_role = Assistant, im_content = ''Pronto'', im_metadata = None \<rparr>]
         \<and> s_agentStatus s' = IDLE)
   \<and> (\<exists>sessions' s' entries w'.
         executeWithOpenAI (Suc 1) ex_deps ([ex_session], 0, 0) (ObjectId ex_k1) ex_agent1
           = executeWithOpenAI 1 ex_deps (sessions', 1, w') (ObjectId ex_k1) ex_agent1
         \<and> AgentSessionModel_findById sessions' (ObjectId ex_k1) = Some s'
         \<and> s_messages s' = s_messages ex_session @ entries
         \<and> entries = [tool_entry ''search_contacts'' ''{}'' ''ok'']
         \<and> length entries = 1)
   \<and> (\<exists>sessions' s'.
         executeWithGemini (Suc 0) ex_deps_gemini ([ex_session], 1, 0) (ObjectId ex_k1) ex_agent1
           = Some (None, sessions', 2, 0)
         \<and> AgentSessionModel_findById sessions' (ObjectId ex_k1) = Some s'
         \<and> s_messages s' = s_messages ex_session
               @ [\<lparr> im_role = Assistant, im_content = ''Pronto'', im_metadata = None \<rparr>]
         \<and> s_agentStatus s' = IDLE)
   \<and> (\<exists>sessions' s' entries w'.
         executeWithGemini (Suc 1) ex_deps_gemini ([ex_session], 0, 0) (ObjectId ex_k1) ex_agent1
           = executeWithGemini 1 ex_deps_gemini (sessions', 1, w') (ObjectId ex_k1) ex_agent1
         \<and> AgentSessionModel_findById sessions' (ObjectId ex_k1) = Some s'
         \<and> s_messages s' = s_messages ex_session @ entries
         \<and> length entries = 0)
   \<and> getOpenAIInstance ex_deps_silent
   \<and> (\<exists>sessions' s'.
         executeWithOpenAI (Suc 0) ex_deps_silent ([ex_session], 0, 0) (ObjectId ex_k1)
             ex_agent1
           = Some (None, sessions', 1, 0)
         \<and> AgentSessionModel_findById sessions' (ObjectId ex_k1) = Some s'
         \<and> s_messages s' = s_messages ex_session
         \<and> s_agentStatus s' = IDLE)"
proof -
  note t = orchestration_turn [OF ex_agent_setup(1)]
  have g: "getOpenAIInstance ex_deps_silent"
    "openai_create ex_deps_silent 0 (ai_model (getAiConfig ex_deps_silent))
       (openai_messages ex_deps_silent ex_session)
     = (Some \<lparr> om_content = None, om_tool_calls = None \<rparr>, 1)"
    by (simp_all add: ex_deps_silent_def ex_deps_def getOpenAIInstance_def getAiConfig_def)
  have f: "\<exists>sessions' s'.
         executeWithOpenAI (Suc 0) ex_deps_silent ([ex_session], 0, 0) (ObjectId ex_k1)
             ex_agent1
           = Some (None, sessions', 1, 0)
         \<and> AgentSessionModel_findById sessions' (ObjectId ex_k1) = Some s'
         \<and> s_messages s' = s_messages ex_session
         \<and> s_agentStatus s' = IDLE"
    using t [THEN conjunct1, rule_format, OF g(1) g(2),
        THEN conjunct2, THEN conjunct2, rule_format, of 0 0 ex_agent1]
    by (auto simp del: executeWithOpenAI.simps executeWithGemini.simps)
  have a: "\<exists>sessions' s'.
         executeWithOpenAI (Suc 0) ex_deps ([ex_session], 1, 0) (ObjectId ex_k1) ex_agent1
           = Some (None, sessions', 2, 0)
         \<and> AgentSessionModel_findById sessions' (ObjectId ex_k1) = Some s'
         \<and> s_messages s' = s_messages ex_session
               @ [\<lparr> im_role = Assistant, im_content = ''Pronto'', im_metadata = None \<rparr>]
         \<and> s_agentStatus s' = IDLE"
    using t [THEN conjunct1, rule_format, OF ex_agent_setup(2) ex_agent_setup(4),
        THEN conjunct1, rule_format, of "''Pronto''" 0 0 ex_agent1]
    by (auto simp del: executeWithOpenAI.simps executeWithGemini.simps)
  have b: "\<exists>sessions' s' entries w'.
         executeWithOpenAI (Suc 1) ex_deps ([ex_session], 0, 0) (ObjectId ex_k1) ex_agent1
           = executeWithOpenAI 1 ex_deps (sessions', 1, w') (ObjectId ex_k1) ex_agent1
         \<and> AgentSessionModel_findById sessions' (ObjectId ex_k1) = Some s'
         \<and> s_messages s' = s_messages ex_session @ entries
         \<and> entries = [tool_entry ''search_contacts'' ''{}'' ''ok'']
         \<and> length entries = 1"
    using t [THEN conjunct1, rule_format, OF ex_agent_setup(2) ex_agent_setup(5),
        THEN conjunct2, THEN conjunct1, rule_format,
        of "[ex_call ''delete_everything'', ex_call ''search_contacts'']" 1 0 ex_agent1]
    by (auto simp: ex_runnable ex_requests
          simp del: executeWithOpenAI.simps executeWithGemini.simps)
  have c: "\<exists>sessions' s'.
         executeWithGemini (Suc 0) ex_deps_gemini ([ex_session], 1, 0) (ObjectId ex_k1) ex_agent1
           = Some (None, sessions', 2, 0)
         \<and> AgentSessionModel_findById sessions' (ObjectId ex_k1) = Some s'
         \<and> s_messages s' = s_messages ex_session
               @ [\<lparr> im_role = Assistant, im_content = ''Pronto'', im_metadata = None \<rparr>]
         \<and> s_agentStatus s' = IDLE"
    using t [THEN conjunct2, rule_format, OF ex_agent_setup(3) ex_agent_setup(6),
        THEN conjunct1, rule_format, of 0 0 ex_agent1]
    by (auto simp del: executeWithOpenAI.simps executeWithGemini.simps)
  have e: "\<exists>sessions' s' entries w'.
         executeWithGemini (Suc 1) ex_deps_gemini ([ex_session], 0, 0) (ObjectId ex_k1) ex_agent1
           = executeWithGemini 1 ex_deps_gemini (sessions', 1, w') (ObjectId ex_k1) ex_agent1
         \<and> AgentSessionModel_findById sessions' (ObjectId ex_k1) = Some s'
         \<and> s_messages s' = s_messages ex_session @ entries
         \<and> length entries = 0"
    using t [THEN conjunct2, rule_format, OF ex_agent_setup(3) ex_agent_setup(7),
        THEN conjunct2, THEN conjunct1, rule_format,
        of "[\<lparr> fc_name = ''delete_everything'', fc_args = ''{}'' \<rparr>]" 1 0 ex_agent1]
    by (auto simp: ex_runnable simp del: executeWithOpenAI.simps executeWithGemini.simps)
  from a b c e f g(1) ex_agent_setup(1-3) show ?thesis by blast
qed

section \<open>Template rendering\<close>

lemma GetSubstitution_no_pattern:
  "no_pattern rep \<Longrightarrow> GetSubstitution m b a rep = rep"
  by (induction m b a rep rule: GetSubstitution.induct) auto

lemma replace_literal_skip:
  "lit_ok s \<Longrightarrow>
     replace_literal (CHR ''{'' # CHR ''{'' # pat) rep bef (s @ rest)
       = s @ replace_literal (CHR ''{'' # CHR ''{'' # pat) rep (bef @ s) rest"
proof (induction s arbitrary: bef rule: lit_ok.induct)
  case 1
  show ?case by simp
next
  case (2 c)
  then show ?case by simp
next
  case (3 c d r)
  have "replace_literal (CHR ''{'' # CHR ''{'' # pat) rep bef ((c # d # r) @ rest)
          = c # replace_literal (CHR ''{'' # CHR ''{'' # pat) rep (bef @ [c]) ((d # r) @ rest)"
    using "3.prems" by auto
  also have "\<dots> = c # (d # r) @ replace_literal (CHR ''{'' # CHR ''{'' # pat) rep
                                 ((bef @ [c]) @ d # r) rest"
    using "3.IH" [of "bef @ [c]"] "3.prems" by simp
  finally show ?case by simp
qed

lemma replace_literal_match:
  "pat \<noteq> [] \<Longrightarrow>
     replace_literal pat rep bef (pat @ rest)
       = GetSubstitution pat bef rest rep @ replace_literal pat rep (bef @ pat) rest"
  by (cases pat) simp_all

lemma names_equal:
  "CHR ''}'' \<notin> set k \<Longrightarrow> CHR ''}'' \<notin> set q \<Longrightarrow> k @ ''}}'' @ x = q @ ''}}'' @ y \<Longrightarrow> k = q"
proof (induction k arbitrary: q)
  case Nil
  then show ?case by (cases q) auto
next
  case (Cons a k)
  then show ?case by (cases q) auto
qed

lemma hole_no_match:
  assumes "name_ok k" and "name_ok q" and "q \<noteq> k"
  shows "take (length (''{{'' @ k @ ''}}'')) (''{{'' @ q @ ''}}'' @ rest) \<noteq> ''{{'' @ k @ ''}}''"
proof
  assume t: "take (length (''{{'' @ k @ ''}}'')) (''{{'' @ q @ ''}}'' @ rest) = ''{{'' @ k @ ''}}''"
  define y where "y = drop (length (''{{'' @ k @ ''}}'')) (''{{'' @ q @ ''}}'' @ rest)"
  have "''{{'' @ q @ ''}}'' @ rest
          = take (length (''{{'' @ k @ ''}}'')) (''{{'' @ q @ ''}}'' @ rest) @ y"
    unfolding y_def by (simp only: append_take_drop_id)
  then have "''{{'' @ q @ ''}}'' @ rest = (''{{'' @ k @ ''}}'') @ y"
    by (simp only: t)
  then have "k @ ''}}'' @ y = q @ ''}}'' @ rest"
    by simp
  moreover have "CHR ''}'' \<notin> set k" "CHR ''}'' \<notin> set q"
    using assms(1,2) by (simp_all add: name_ok_def)
  ultimately have "k = q"
    using names_equal [of k q y rest] by blast
  then show False using assms(3) by simp
qed

lemma hole_tail_lit_ok:
  "name_ok q \<Longrightarrow> lit_ok (CHR ''{'' # q @ ''}}'')"
proof -
  have b: "CHR ''{'' \<notin> set s \<Longrightarrow> lit_ok s" for s
    by (induction s rule: lit_ok.induct) auto
  assume "name_ok q"
  then have "lit_ok (q @ ''}}'')" by (intro b) (simp add: name_ok_def)
  moreover have "q @ ''}}'' \<noteq> [] \<and> hd (q @ ''}}'') \<noteq> CHR ''{''"
    using \<open>name_ok q\<close> by (cases q) (auto simp: name_ok_def)
  ultimately show ?thesis by (cases "q @ ''}}''") auto
qed

lemma replace_literal_other_hole:
  assumes "name_ok k" and "name_ok q" and "q \<noteq> k"
  shows "replace_literal (''{{'' @ k @ ''}}'') rep bef (''{{'' @ q @ ''}}'' @ rest)
           = ''{{'' @ q @ ''}}'' @ replace_literal (''{{'' @ k @ ''}}'') rep
                                     (bef @ ''{{'' @ q @ ''}}'') rest"
proof -
  have "replace_literal (''{{'' @ k @ ''}}'') rep bef (''{{'' @ q @ ''}}'' @ rest)
          = replace_literal (''{{'' @ k @ ''}}'') rep bef (CHR ''{'' # (CHR ''{'' # q @ ''}}'') @ rest)"
    by simp
  also have "\<dots> = CHR ''{'' # replace_literal (''{{'' @ k @ ''}}'') rep (bef @ ''{'')
                                 ((CHR ''{'' # q @ ''}}'') @ rest)"
    using hole_no_match [OF assms, of rest]
    by (simp only: replace_literal.simps) simp
  also have "\<dots> = CHR ''{'' # (CHR ''{'' # q @ ''}}'')
                      @ replace_literal (''{{'' @ k @ ''}}'') rep
                          ((bef @ ''{'') @ CHR ''{'' # q @ ''}}'') rest"
    using replace_literal_skip [OF hole_tail_lit_ok [OF assms(2)], of "k @ ''}}''" rep "bef @ ''{''" rest]
    by simp
  finally show ?thesis by simp
qed

lemma template_of_Cons: "template_of (p # ps) = piece_text p @ template_of ps"
  by (simp add: template_of_def)

lemma template_of_Nil: "template_of [] = []"
  by (simp add: template_of_def)

text \<open>One pass over a template replaces the placeholders of one name by the value.\<close>

lemma pass_template:
  assumes "\<forall>p \<in> set ps. piece_ok p" and "name_ok k" and "no_pattern rep"
  shows "replace_literal (''{{'' @ k @ ''}}'') rep bef (template_of ps)
           = template_of (map (fill [(k, rep)]) ps)"
  using assms(1)
proof (induction ps arbitrary: bef)
  case Nil
  show ?case by (simp add: template_of_Nil)
next
  case (Cons p ps)
  have ih: "replace_literal (''{{'' @ k @ ''}}'') rep b (template_of ps)
              = template_of (map (fill [(k, rep)]) ps)" for b
    using Cons.IH Cons.prems by simp
  show ?case
  proof (cases p)
    case (Lit s)
    then have "lit_ok s" using Cons.prems by simp
    then have "replace_literal (''{{'' @ k @ ''}}'') rep bef (s @ template_of ps)
                 = s @ replace_literal (''{{'' @ k @ ''}}'') rep (bef @ s) (template_of ps)"
      using replace_literal_skip [of s "k @ ''}}''" rep bef "template_of ps"] by simp
    then show ?thesis using Lit ih by (simp add: template_of_Cons)
  next
    case (Hole q)
    then have q: "name_ok q" using Cons.prems by simp
    show ?thesis
    proof (cases "q = k")
      case True
      have "replace_literal (''{{'' @ k @ ''}}'') rep bef ((''{{'' @ k @ ''}}'') @ template_of ps)
              = GetSubstitution (''{{'' @ k @ ''}}'') bef (template_of ps) rep
                  @ replace_literal (''{{'' @ k @ ''}}'') rep (bef @ ''{{'' @ k @ ''}}'')
                      (template_of ps)"
        by (rule replace_literal_match) simp
      then show ?thesis
        using Hole True ih GetSubstitution_no_pattern [OF assms(3)]
        by (simp add: template_of_Cons)
    next
      case False
      then show ?thesis
        using Hole ih replace_literal_other_hole [OF assms(2) q False, of rep bef "template_of ps"]
        by (simp add: template_of_Cons)
    qed
  qed
qed

lemma fill_fill: "fill bs2 (fill bs1 p) = fill (bs1 @ bs2) p"
  by (cases p) (auto simp: map_add_def split: option.splits)

lemma fill_idem: "fill bs (fill bs p) = fill bs p"
  by (cases p) (auto split: option.splits)

lemma fill_piece_ok:
  assumes "piece_ok p" and "\<forall>(k, v) \<in> set bs. lit_ok v"
  shows "piece_ok (fill bs p)"
proof (cases p)
  case (Lit s)
  then show ?thesis using assms by simp
next
  case (Hole q)
  show ?thesis
  proof (cases "map_of bs q")
    case None
    then show ?thesis using Hole assms by simp
  next
    case (Some v)
    then have "(q, v) \<in> set bs" by (rule map_of_SomeD)
    then show ?thesis using Hole Some assms(2) by auto
  qed
qed

text \<open>The variables of the campaign, on a platform that reads their keys as literal text.\<close>

lemma globals_template:
  assumes "\<forall>(k, v) \<in> set vs. name_ok k \<and> value_ok v
             \<and> (\<forall>s. RegExp_g_replace js (''{{'' @ k @ ''}}'') s v
                      = Some (replace_literal (''{{'' @ k @ ''}}'') v [] s))"
    and "\<forall>p \<in> set ps. piece_ok p"
  shows "replace_globals js vs (template_of ps) = Some (template_of (map (fill vs) ps))"
  using assms
proof (induction vs arbitrary: ps)
  case Nil
  have "map (fill []) ps = ps"
    by (rule map_idI) (case_tac x, simp_all)
  then show ?case by simp
next
  case (Cons kv vs)
  obtain k v where kv: "kv = (k, v)" by (cases kv)
  have k: "name_ok k" "lit_ok v" "no_pattern v"
    and e: "RegExp_g_replace js (''{{'' @ k @ ''}}'') (template_of ps) v
              = Some (replace_literal (''{{'' @ k @ ''}}'') v [] (template_of ps))"
    using Cons.prems(1) kv by (simp_all add: value_ok_def)
  have p1: "replace_literal (''{{'' @ k @ ''}}'') v [] (template_of ps)
              = template_of (map (fill [(k, v)]) ps)"
    using pass_template [OF Cons.prems(2) k(1) k(3)] .
  have ok: "\<forall>p \<in> set (map (fill [(k, v)]) ps). piece_ok p"
    using Cons.prems(2) fill_piece_ok [of _ "[(k, v)]"] k(2) by auto
  have rest: "\<forall>(k, v) \<in> set vs. name_ok k \<and> value_ok v
             \<and> (\<forall>s. RegExp_g_replace js (''{{'' @ k @ ''}}'') s v
                      = Some (replace_literal (''{{'' @ k @ ''}}'') v [] s))"
    using Cons.prems(1) by simp
  have "replace_globals js (kv # vs) (template_of ps)
          = replace_globals js vs (template_of (map (fill [(k, v)]) ps))"
    using e p1 kv by simp
  also have "\<dots> = Some (template_of (map (fill vs) (map (fill [(k, v)]) ps)))"
    using Cons.IH [OF rest ok] .
  also have "map (fill vs) (map (fill [(k, v)]) ps) = map (fill (kv # vs)) ps"
    using kv by (simp add: fill_fill)
  finally show ?case .
qed

lemma contact_template:
  assumes "\<forall>p \<in> set ps. piece_ok p"
    and "value_ok (js_or (c_name c) ''Cliente'')" and "value_ok (js_or (c_email c) [])"
    and "value_ok (js_or (c_phone c) [])"
  shows "replace_literal ''{{contact.phone}}'' (js_or (c_phone c) []) []
           (replace_literal ''{{contact.email}}'' (js_or (c_email c) []) []
              (replace_literal ''{{contact.name}}'' (js_or (c_name c) ''Cliente'') []
                 (template_of ps)))
         = template_of (map (fill (contact_bindings c)) ps)"
proof -
  let ?n = "js_or (c_name c) ''Cliente''" and ?e = "js_or (c_email c) []"
  let ?p = "js_or (c_phone c) []"
  have n: "name_ok ''contact.name''" "name_ok ''contact.email''" "name_ok ''contact.phone''"
    by (simp_all add: name_ok_def)
  have v: "no_pattern ?n" "no_pattern ?e" "no_pattern ?p" "lit_ok ?n" "lit_ok ?e" "lit_ok ?p"
    using assms(2-4) by (simp_all add: value_ok_def)
  have ok1: "\<forall>p \<in> set (map (fill [(''contact.name'', ?n)]) ps). piece_ok p"
    using assms(1) fill_piece_ok [of _ "[(''contact.name'', ?n)]"] v(4) by auto
  have ok2: "\<forall>p \<in> set (map (fill [(''contact.email'', ?e)])
                          (map (fill [(''contact.name'', ?n)]) ps)). piece_ok p"
    using ok1 fill_piece_ok [of _ "[(''contact.email'', ?e)]"] v(5) by auto
  have s1: "replace_literal ''{{contact.name}}'' ?n [] (template_of ps)
              = template_of (map (fill [(''contact.name'', ?n)]) ps)"
    using pass_template [OF assms(1) n(1) v(1), of "[]"] by simp
  have s2: "replace_literal ''{{contact.email}}'' ?e []
              (template_of (map (fill [(''contact.name'', ?n)]) ps))
              = template_of (map (fill [(''contact.email'', ?e)])
                               (map (fill [(''contact.name'', ?n)]) ps))"
    using pass_template [OF ok1 n(2) v(2), of "[]"] by simp
  have s3: "replace_literal ''{{contact.phone}}'' ?p []
              (template_of (map (fill [(''contact.email'', ?e)])
                               (map (fill [(''contact.name'', ?n)]) ps)))
              = template_of (map (fill [(''contact.phone'', ?p)])
                               (map (fill [(''contact.email'', ?e)])
                                  (map (fill [(''contact.name'', ?n)]) ps)))"
    using pass_template [OF ok2 n(3) v(3), of "[]"] by simp
  have m: "map (fill [(''contact.phone'', ?p)])
             (map (fill [(''contact.email'', ?e)])
                (map (fill [(''contact.name'', ?n)]) ps))
           = map (fill (contact_bindings c)) ps"
    by (simp add: fill_fill contact_bindings_def del: fill.simps)
  show ?thesis by (simp only: s1 s2 s3 m)
qed

lemma render_template:
  assumes "\<forall>p \<in> set ps. piece_ok p"
    and "\<forall>(k, v) \<in> set vs. name_ok k \<and> value_ok v
             \<and> (\<forall>s. RegExp_g_replace js (''{{'' @ k @ ''}}'') s v
                      = Some (replace_literal (''{{'' @ k @ ''}}'') v [] s))"
    and "value_ok (js_or (c_name c) ''Cliente'')" and "value_ok (js_or (c_email c) [])"
    and "value_ok (js_or (c_phone c) [])"
  shows "replaceVariables js (template_of ps) vs c
           = Inr (template_of (map (fill (vs @ contact_bindings c)) ps))"
proof -
  have g: "replace_globals js vs (template_of ps) = Some (template_of (map (fill vs) ps))"
    using globals_template [OF assms(2) assms(1)] .
  have lv: "\<forall>(k, v) \<in> set vs. lit_ok v"
    using assms(2) by (auto simp: value_ok_def)
  have ok: "\<forall>p \<in> set (map (fill vs) ps). piece_ok p"
    using assms(1) fill_piece_ok [OF _ lv] by auto
  have c: "replace_literal ''{{contact.phone}}'' (js_or (c_phone c) []) []
           (replace_literal ''{{contact.email}}'' (js_or (c_email c) []) []
              (replace_literal ''{{contact.name}}'' (js_or (c_name c) ''Cliente'') []
                 (template_of (map (fill vs) ps))))
         = template_of (map (fill (contact_bindings c)) (map (fill vs) ps))"
    using contact_template [OF ok assms(3-5)] .
  have m: "map (fill (contact_bindings c)) (map (fill vs) ps)
             = map (fill (vs @ contact_bindings c)) ps"
    by (simp add: fill_fill)
  show ?thesis
    unfolding replaceVariables_def Let_def g option.case c m ..
qed

lemma rendered_pieces_ok:
  assumes "\<forall>p \<in> set ps. piece_ok p"
    and "\<forall>(k, v) \<in> set vs. lit_ok v"
    and "lit_ok (js_or (c_name c) ''Cliente'')" and "lit_ok (js_or (c_email c) [])"
    and "lit_ok (js_or (c_phone c) [])"
  shows "\<forall>p \<in> set (map (fill (vs @ contact_bindings c)) ps). piece_ok p"
proof -
  have "\<forall>(k, v) \<in> set (vs @ contact_bindings c). lit_ok v"
    using assms(2-5) by (auto simp: contact_bindings_def)
  then show ?thesis using assms(1) fill_piece_ok by auto
qed

lemma unfilled_holes:
  assumes "Hole q \<in> set (map (fill (vs @ contact_bindings c)) ps)"
  shows "q \<notin> fst ` set vs \<and> q \<noteq> ''contact.name'' \<and> q \<noteq> ''contact.email''
         \<and> q \<noteq> ''contact.phone''"
proof -
  obtain p where p: "p \<in> set ps" "fill (vs @ contact_bindings c) p = Hole q"
    using assms by auto
  have n: "map_of (vs @ contact_bindings c) q = None"
    using p(2) by (cases p) (simp_all split: option.splits del: map_of_append)
  have "q \<notin> fst ` set (vs @ contact_bindings c)"
    using n map_of_eq_None_iff [of "vs @ contact_bindings c" q] by blast
  then show ?thesis by (auto simp: contact_bindings_def)
qed

text \<open>
  Claim C9 as stated fails. Rendering is not idempotent: the contact has no e-mail
  address, and removing the inner placeholder of the template leaves a placeholder that
  the second rendering removes. Nor is every placeholder replaced by the contact's field:
  in a name, \<^verbatim>\<open>$&\<close> stands for the matched text, so the placeholder is put back. With
  variables, rendering is not idempotent either, on a platform that reads the keys as
  literal text: the value of a variable holds the placeholder of a variable replaced
  before it, which only the second rendering replaces.
\<close>

theorem render_not_idempotent:
  "c_email ex_contact1 = None
   \<and> replaceVariables ex_js ''{{contact.{{contact.email}}email}}'' [] ex_contact1
       = Inr ''{{contact.email}}''
   \<and> replaceVariables ex_js ''{{contact.email}}'' [] ex_contact1 = Inr []
   \<and> c_name ex_contact_dollar = Some ''$&''
   \<and> replaceVariables ex_js ''Oi {{contact.name}}'' [] ex_contact_dollar
       = Inr ''Oi {{contact.name}}''
   \<and> replaceVariables ex_js_literal ''{{a}}'' [(''b'', ''x''), (''a'', ''{{b}}'')] ex_contact1
       = Inr ''{{b}}''
   \<and> replaceVariables ex_js_literal ''{{b}}'' [(''b'', ''x''), (''a'', ''{{b}}'')] ex_contact1
       = Inr ''x''"
  by (simp add: replaceVariables_def ex_contact_dollar_def ex_contact1_def Let_def
        ex_js_literal_def)

text \<open>
  Claim C9, as the code has it. Take a template made of literal texts and placeholders
  \<^verbatim>\<open>{{name}}\<close>, where no literal text has two opening braces in a row or ends with an
  opening brace and no name holds a brace; a map of variables whose keys hold no brace
  and are read by the platform's regular expressions as literal text; and let the values
  of the variables and the name, e-mail address and phone of the contact (or the defaults
  that stand for an absent one, \<^verbatim>\<open>Cliente\<close> for the name and the empty text for the
  others) have no two opening braces in a row, no opening brace at the end and none of
  the patterns \<^verbatim>\<open>$$\<close>, \<^verbatim>\<open>$&\<close>, \<^verbatim>\<open>$`\<close>, \<^verbatim>\<open>$'\<close>. Then one rendering replaces every
  placeholder that names a variable by the value of that variable and every other
  placeholder that names a field of the contact by the value of the field, and leaves
  the other placeholders and the literal texts as they are; rendering the result again
  with the same variables and contact gives the same text; no placeholder of a variable
  or of a field of the contact is left; and the placeholder of the name of a contact
  without a name becomes \<^verbatim>\<open>Cliente\<close> unless a variable has its name.
\<close>

theorem render_filled_template:
  assumes "\<forall>p \<in> set ps. piece_ok p"
    and "\<forall>(k, v) \<in> set vs. name_ok k \<and> value_ok v
             \<and> (\<forall>s. RegExp_g_replace js (''{{'' @ k @ ''}}'') s v
                      = Some (replace_literal (''{{'' @ k @ ''}}'') v [] s))"
    and "value_ok (js_or (c_name c) ''Cliente'')" and "value_ok (js_or (c_email c) [])"
    and "value_ok (js_or (c_phone c) [])"
  shows "replaceVariables js (template_of ps) vs c
           = Inr (template_of (map (fill (vs @ contact_bindings c)) ps))
       \<and> replaceVariables js (template_of (map (fill (vs @ contact_bindings c)) ps)) vs c
           = Inr (template_of (map (fill (vs @ contact_bindings c)) ps))
       \<and> (\<forall>q. Hole q \<in> set (map (fill (vs @ contact_bindings c)) ps) \<longrightarrow>
            q \<notin> fst ` set vs \<and> q \<noteq> ''contact.name'' \<and> q \<noteq> ''contact.email''
            \<and> q \<noteq> ''contact.phone'')
       \<and> (c_name c = None \<and> ''contact.name'' \<notin> fst ` set vs \<longrightarrow>
            fill (vs @ contact_bindings c) (Hole ''contact.name'') = Lit ''Cliente'')"
proof -
  let ?out = "map (fill (vs @ contact_bindings c)) ps"
  have lv: "\<forall>(k, v) \<in> set vs. lit_ok v"
    using assms(2) by (auto simp: value_ok_def)
  have ok: "\<forall>p \<in> set ?out. piece_ok p"
    using rendered_pieces_ok [OF assms(1) lv] assms(3-5) by (simp add: value_ok_def)
  have one: "replaceVariables js (template_of ps) vs c = Inr (template_of ?out)"
    using render_template [OF assms] .
  have "replaceVariables js (template_of ?out) vs c
          = Inr (template_of (map (fill (vs @ contact_bindings c)) ?out))"
    using render_template [OF ok assms(2-5)] .
  moreover have "map (fill (vs @ contact_bindings c)) ?out = ?out"
    by (induction ps) (simp_all add: fill_idem del: fill.simps)
  ultimately have two: "replaceVariables js (template_of ?out) vs c = Inr (template_of ?out)"
    by (simp only:)
  have three: "\<forall>q. Hole q \<in> set ?out \<longrightarrow>
            q \<notin> fst ` set vs \<and> q \<noteq> ''contact.name'' \<and> q \<noteq> ''contact.email''
            \<and> q \<noteq> ''contact.phone''"
    using unfilled_holes by blast
  have four: "c_name c = None \<and> ''contact.name'' \<notin> fst ` set vs \<longrightarrow>
            fill (vs @ contact_bindings c) (Hole ''contact.name'') = Lit ''Cliente''"
  proof
    assume a: "c_name c = None \<and> ''contact.name'' \<notin> fst ` set vs"
    then have "map_of vs ''contact.name'' = None"
      by (simp only: map_of_eq_None_iff) simp
    then show "fill (vs @ contact_bindings c) (Hole ''contact.name'') = Lit ''Cliente''"
      using a by (simp add: contact_bindings_def map_add_def)
  qed
  show ?thesis using one two three four by blast
qed

theorem render_filled_template_witness:
  "list_all piece_ok ex_pieces
   \<and> list_all (\<lambda>(k, v). name_ok k \<and> value_ok v) ex_vars
   \<and> value_ok (js_or (c_name ex_contact3) ''Cliente'')
   \<and> value_ok (js_or (c_email ex_contact3) [])
   \<and> value_ok (js_or (c_phone ex_contact3) [])
   \<and> c_name ex_contact3 = None
   \<and> template_of ex_pieces
       = ''Oi {{contact.name}}: {{imovel}} por {{preco}} {tel {{contact.phone}}} {{link}}''
   \<and> replaceVariables ex_js_literal
         ''Oi {{contact.name}}: {{imovel}} por {{preco}} {tel {{contact.phone}}} {{link}}''
         ex_vars ex_contact3
       = Inr ''Oi Cliente: Casa {3 quartos} por R$ 500.000 {tel 5533} {{link}}''
   \<and> replaceVariables ex_js_literal
         ''Oi Cliente: Casa {3 quartos} por R$ 500.000 {tel 5533} {{link}}''
         ex_vars ex_contact3
       = Inr ''Oi Cliente: Casa {3 quartos} por R$ 500.000 {tel 5533} {{link}}''"
proof -
  have h1: "\<forall>p \<in> set ex_pieces. piece_ok p"
    by (simp add: ex_pieces_def name_ok_def)
  have h2: "\<forall>(k, v) \<in> set ex_vars. name_ok k \<and> value_ok v
             \<and> (\<forall>s. RegExp_g_replace ex_js_literal (''{{'' @ k @ ''}}'') s v
                      = Some (replace_literal (''{{'' @ k @ ''}}'') v [] s))"
    by (simp add: ex_vars_def name_ok_def value_ok_def ex_js_literal_def)
  have h3: "value_ok (js_or (c_name ex_contact3) ''Cliente'')"
    "value_ok (js_or (c_email ex_contact3) [])"
    "value_ok (js_or (c_phone ex_contact3) [])"
    by (simp_all add: value_ok_def ex_contact3_def ex_contact1_def)
  have l: "list_all piece_ok ex_pieces"
    "list_all (\<lambda>(k, v). name_ok k \<and> value_ok v) ex_vars"
    "c_name ex_contact3 = None"
    by (simp_all add: ex_pieces_def ex_vars_def name_ok_def value_ok_def ex_contact3_def)
  have t: "template_of ex_pieces
       = ''Oi {{contact.name}}: {{imovel}} por {{preco}} {tel {{contact.phone}}} {{link}}''"
    by (simp add: template_of_def ex_pieces_def)
  have v: "template_of (map (fill (ex_vars @ contact_bindings ex_contact3)) ex_pieces)
       = ''Oi Cliente: Casa {3 quartos} por R$ 500.000 {tel 5533} {{link}}''"
    by (simp add: template_of_def ex_pieces_def ex_vars_def contact_bindings_def
          ex_contact3_def ex_contact1_def)
  have a: "replaceVariables ex_js_literal
         ''Oi {{contact.name}}: {{imovel}} por {{preco}} {tel {{contact.phone}}} {{link}}''
         ex_vars ex_contact3
       = Inr ''Oi Cliente: Casa {3 quartos} por R$ 500.000 {tel 5533} {{link}}''"
    using render_filled_template [OF h1 h2 h3, THEN conjunct1] by (simp only: t v)
  have b: "replaceVariables ex_js_literal
         ''Oi Cliente: Casa {3 quartos} por R$ 500.000 {tel 5533} {{link}}''
         ex_vars ex_contact3
       = Inr ''Oi Cliente: Casa {3 quartos} por R$ 500.000 {tel 5533} {{link}}''"
    using render_filled_template [OF h1 h2 h3, THEN conjunct2, THEN conjunct1]
    by (simp only: v)
  show ?thesis
    by (intro conjI) (fact l h3 t a b)+
qed

end
